theory Spec2Isabelle
  imports Complex_Main
begin

section \<open>JSON values and the JavaScript operations applied to them\<close>

text \<open>
  A request body, a stored attribute and a worker response are JSON values. A JavaScript
  number is modelled by the real it denotes (the bounds the handlers compare against are
  exact, and JSON cannot carry NaN); a string is its list of code units; an object parsed
  from JSON is an association list with distinct keys. Reading a property gives
  \<open>None\<close> where JavaScript gives \<open>undefined\<close>.
\<close>

datatype json =
    JNull
  | JBool bool
  | JNum real
  | JStr string
  | JArr "json list"
  | JObj "(string \<times> json) list"

fun js_get :: "json \<Rightarrow> string \<Rightarrow> json option" where
  "js_get (JObj kvs) k = map_of kvs k"
| "js_get _ k = None"

fun truthy :: "json option \<Rightarrow> bool" where
  "truthy None = False"
| "truthy (Some JNull) = False"
| "truthy (Some (JBool b)) = b"
| "truthy (Some (JNum x)) = (x \<noteq> 0)"
| "truthy (Some (JStr s)) = (s \<noteq> [])"
| "truthy (Some (JArr xs)) = True"
| "truthy (Some (JObj kvs)) = True"

fun typeof :: "json option \<Rightarrow> string" where
  "typeof None = ''undefined''"
| "typeof (Some JNull) = ''object''"
| "typeof (Some (JBool b)) = ''boolean''"
| "typeof (Some (JNum x)) = ''number''"
| "typeof (Some (JStr s)) = ''string''"
| "typeof (Some (JArr xs)) = ''object''"
| "typeof (Some (JObj kvs)) = ''object''"

text \<open>\<open>a || b\<close>: the left operand when it is truthy, the right one otherwise.\<close>

definition js_or :: "json option \<Rightarrow> json option \<Rightarrow> json option" where
  "js_or a b = (if truthy a then a else b)"

text \<open>\<open>Number.isInteger\<close>, and the remainder \<open>x % y\<close> (sign of the dividend) for \<open>y \<noteq> 0\<close>.\<close>

definition Number_isInteger :: "real \<Rightarrow> bool" where
  "Number_isInteger x = (of_int \<lfloor>x\<rfloor> = x)"

definition js_rem :: "real \<Rightarrow> real \<Rightarrow> real" where
  "js_rem x y = x - y * of_int (if 0 \<le> x / y then \<lfloor>x / y\<rfloor> else \<lceil>x / y\<rceil>)"

text \<open>\<open>String.prototype.trim\<close> over the white space and line terminators below U+0100.\<close>

definition is_space :: "char \<Rightarrow> bool" where
  "is_space c = (c \<in> set [CHR 0x09, CHR 0x0A, CHR 0x0B, CHR 0x0C, CHR 0x0D, CHR 0x20, CHR 0xA0])"

definition trim :: "string \<Rightarrow> string" where
  "trim s = rev (dropWhile is_space (rev (dropWhile is_space s)))"

text \<open>
  \<open>v.length\<close> for a value \<open>v\<close> that is not null or undefined: a string's and an array's
  length, an object's own \<open>length\<close> property, \<open>undefined\<close> on a number or a boolean.
\<close>

fun js_length :: "json \<Rightarrow> json option" where
  "js_length (JStr s) = Some (JNum (real (length s)))"
| "js_length (JArr xs) = Some (JNum (real (length xs)))"
| "js_length (JObj kvs) = map_of kvs ''length''"
| "js_length _ = None"

text \<open>
  \<open>v > n\<close> against a number \<open>n\<close>. A number compares as it is; any other value goes
  through the runtime's \<open>ToNumber\<close> conversion, which is a parameter of the model
  (\<open>None\<close> stands for NaN, and \<open>undefined\<close> converts to NaN).
\<close>

definition js_gt :: "(json \<Rightarrow> real option) \<Rightarrow> json option \<Rightarrow> real \<Rightarrow> bool" where
  "js_gt ToNumber v n =
     (case v of
        None \<Rightarrow> False
      | Some (JNum x) \<Rightarrow> x > n
      | Some u \<Rightarrow> (case ToNumber u of None \<Rightarrow> False | Some x \<Rightarrow> x > n))"

section \<open>Request validation\<close>

subsection \<open>The shared schema \<open>SubmitJobRequestSchema\<close> (packages/shared/src/types/api.ts)\<close>

datatype QualityLevel = LOW | MEDIUM | HIGH

datatype InferenceMode = ASYNC | SYNC

record SubmitJobRequest =
  prompt :: string
  modelId :: string
  steps :: int
  guidanceScale :: real
  width :: int
  height :: int
  seed :: "int option"
  quality :: QualityLevel
  mode :: InferenceMode
  negativePrompt :: "string option"

text \<open>
  An issue of the validation library: its code, the path of the field it is about, and
  the message the schema gives for it (\<open>None\<close> where the schema gives none and the
  library's default text is used).
\<close>

datatype ZodIssueCode = invalid_type | too_small | too_big | invalid_enum_value | custom

datatype ZodIssue = ZodIssue (issue_code: ZodIssueCode) (issue_path: "string list") (issue_message: "string option")

type_synonym 'a parsed = "ZodIssue list + 'a"

text \<open>
  \<open>z.string()\<close> and \<open>z.number()\<close> with their checks: a value of another type is one
  \<open>invalid_type\<close> issue and no check runs; otherwise every check runs and every failed
  one adds its issue.
\<close>

definition z_string :: "(string list \<Rightarrow> string \<Rightarrow> ZodIssue list) list \<Rightarrow> string list \<Rightarrow> json option \<Rightarrow> string parsed" where
  "z_string checks p v =
     (case v of
        Some (JStr s) \<Rightarrow>
          (let iss = concat (map (\<lambda>c. c p s) checks) in if iss = [] then Inr s else Inl iss)
      | _ \<Rightarrow> Inl [ZodIssue invalid_type p None])"

definition str_min :: "nat \<Rightarrow> string option \<Rightarrow> string list \<Rightarrow> string \<Rightarrow> ZodIssue list" where
  "str_min n msg p s = (if length s < n then [ZodIssue too_small p msg] else [])"

definition str_max :: "nat \<Rightarrow> string option \<Rightarrow> string list \<Rightarrow> string \<Rightarrow> ZodIssue list" where
  "str_max n msg p s = (if length s > n then [ZodIssue too_big p msg] else [])"

definition z_number :: "(string list \<Rightarrow> real \<Rightarrow> ZodIssue list) list \<Rightarrow> string list \<Rightarrow> json option \<Rightarrow> real parsed" where
  "z_number checks p v =
     (case v of
        Some (JNum x) \<Rightarrow>
          (let iss = concat (map (\<lambda>c. c p x) checks) in if iss = [] then Inr x else Inl iss)
      | _ \<Rightarrow> Inl [ZodIssue invalid_type p None])"

definition num_int :: "string list \<Rightarrow> real \<Rightarrow> ZodIssue list" where
  "num_int p x = (if Number_isInteger x then [] else [ZodIssue invalid_type p None])"

definition num_min :: "real \<Rightarrow> string option \<Rightarrow> string list \<Rightarrow> real \<Rightarrow> ZodIssue list" where
  "num_min m msg p x = (if x < m then [ZodIssue too_small p msg] else [])"

definition num_max :: "real \<Rightarrow> string option \<Rightarrow> string list \<Rightarrow> real \<Rightarrow> ZodIssue list" where
  "num_max m msg p x = (if x > m then [ZodIssue too_big p msg] else [])"

text \<open>
  \<open>.refine(pred, msg)\<close> on a number schema: the refinement runs on every value of the
  right type, also on one whose checks failed, and adds a \<open>custom\<close> issue.
\<close>

definition z_number_refine :: "(string list \<Rightarrow> real \<Rightarrow> ZodIssue list) list \<Rightarrow> (real \<Rightarrow> bool) \<Rightarrow> string \<Rightarrow> string list \<Rightarrow> json option \<Rightarrow> real parsed" where
  "z_number_refine checks pred msg p v =
     (case v of
        Some (JNum x) \<Rightarrow>
          (let iss = concat (map (\<lambda>c. c p x) checks) @ (if pred x then [] else [ZodIssue custom p (Some msg)])
           in if iss = [] then Inr x else Inl iss)
      | _ \<Rightarrow> Inl [ZodIssue invalid_type p None])"

text \<open>\<open>z.enum([...])\<close>: a string that is not an option, or a value that is not a string.\<close>

definition z_enum :: "(string \<times> 'a) list \<Rightarrow> string list \<Rightarrow> json option \<Rightarrow> 'a parsed" where
  "z_enum options p v =
     (case v of
        Some (JStr s) \<Rightarrow>
          (case map_of options s of
             Some a \<Rightarrow> Inr a
           | None \<Rightarrow> Inl [ZodIssue invalid_enum_value p None])
      | _ \<Rightarrow> Inl [ZodIssue invalid_type p None])"

text \<open>\<open>.optional()\<close> lets \<open>undefined\<close> through; \<open>.optional().default(d)\<close> replaces it by \<open>d\<close>.\<close>

definition z_optional :: "(string list \<Rightarrow> json option \<Rightarrow> 'a parsed) \<Rightarrow> string list \<Rightarrow> json option \<Rightarrow> 'a option parsed" where
  "z_optional inner p v =
     (case v of
        None \<Rightarrow> Inr None
      | Some u \<Rightarrow> (case inner p (Some u) of Inl iss \<Rightarrow> Inl iss | Inr a \<Rightarrow> Inr (Some a)))"

definition z_default :: "'a \<Rightarrow> (string list \<Rightarrow> json option \<Rightarrow> 'a parsed) \<Rightarrow> string list \<Rightarrow> json option \<Rightarrow> 'a parsed" where
  "z_default d inner p v = (case v of None \<Rightarrow> Inr d | Some u \<Rightarrow> inner p (Some u))"

text \<open>
  \<open>z.object\<close> parses every field of its shape and gathers the issues of all of them, in
  the order of the shape; it yields the object only when no field has an issue.
\<close>

definition z_field :: "('a \<Rightarrow> 'b) parsed \<Rightarrow> 'a parsed \<Rightarrow> 'b parsed" where
  "z_field f x =
     (case f of
        Inr g \<Rightarrow> (case x of Inr a \<Rightarrow> Inr (g a) | Inl ys \<Rightarrow> Inl ys)
      | Inl xs \<Rightarrow> (case x of Inr a \<Rightarrow> Inl xs | Inl ys \<Rightarrow> Inl (xs @ ys)))"

definition mk_request :: "string \<Rightarrow> string \<Rightarrow> real \<Rightarrow> real \<Rightarrow> real \<Rightarrow> real \<Rightarrow> real option \<Rightarrow> QualityLevel \<Rightarrow> InferenceMode \<Rightarrow> string option \<Rightarrow> SubmitJobRequest" where
  "mk_request p m s g w h sd q md np =
     \<lparr>prompt = p, modelId = m, steps = \<lfloor>s\<rfloor>, guidanceScale = g, width = \<lfloor>w\<rfloor>, height = \<lfloor>h\<rfloor>,
      seed = map_option floor sd, quality = q, mode = md, negativePrompt = np\<rparr>"

definition divisible_by_64 :: "real \<Rightarrow> bool" where
  "divisible_by_64 val = (js_rem val 64 = 0)"

definition SubmitJobRequestSchema :: "json \<Rightarrow> SubmitJobRequest parsed" where
  "SubmitJobRequestSchema input =
     (case input of
        JObj kvs \<Rightarrow>
          z_field (z_field (z_field (z_field (z_field (z_field (z_field (z_field (z_field (z_field
            (Inr mk_request)
            (z_string [str_min 1 (Some ''Prompt cannot be empty''),
                       str_max 1000 (Some ''Prompt too long (max 1000 characters)'')]
               [''prompt''] (map_of kvs ''prompt'')))
            (z_default ''stable-diffusion-xl'' (z_string []) [''modelId''] (map_of kvs ''modelId'')))
            (z_default 20
               (z_number [num_int, num_min 1 (Some ''Steps must be at least 1''),
                          num_max 50 (Some ''Steps cannot exceed 50'')])
               [''steps''] (map_of kvs ''steps'')))
            (z_default 7.5
               (z_number [num_min 1.0 (Some ''Guidance scale must be at least 1.0''),
                          num_max 20.0 (Some ''Guidance scale cannot exceed 20.0'')])
               [''guidanceScale''] (map_of kvs ''guidanceScale'')))
            (z_default 1024
               (z_number_refine [num_int, num_min 256 (Some ''Width must be at least 256''),
                                 num_max 1024 (Some ''Width cannot exceed 1024'')]
                  divisible_by_64 ''Width must be divisible by 64'')
               [''width''] (map_of kvs ''width'')))
            (z_default 1024
               (z_number_refine [num_int, num_min 256 (Some ''Height must be at least 256''),
                                 num_max 1024 (Some ''Height cannot exceed 1024'')]
                  divisible_by_64 ''Height must be divisible by 64'')
               [''height''] (map_of kvs ''height'')))
            (z_optional (z_number [num_int, num_min 0 None, num_max 2147483647 None])
               [''seed''] (map_of kvs ''seed'')))
            (z_default MEDIUM (z_enum [(''low'', LOW), (''medium'', MEDIUM), (''high'', HIGH)])
               [''quality''] (map_of kvs ''quality'')))
            (z_default ASYNC (z_enum [(''async'', ASYNC), (''sync'', SYNC)])
               [''mode''] (map_of kvs ''mode'')))
            (z_optional (z_string [str_max 500 None])
               [''negativePrompt''] (map_of kvs ''negativePrompt''))
      | _ \<Rightarrow> Inl [ZodIssue invalid_type [] None])"

subsection \<open>\<open>validateInput\<close> of the deployed handler (lambda-src/submit-job.js)\<close>

text \<open>
  Errors are values. The TypeScript services throw the four classes of types/api.ts;
  everything else that is thrown (an SDK error, a runtime TypeError or SyntaxError) is an
  \<open>Error\<close> with its message.
\<close>

datatype error =
    ValidationError string "ZodIssue list option"
  | NotFoundError string
  | UnauthorizedError string
  | InternalError string
  | Error string

fun error_message :: "error \<Rightarrow> string" where
  "error_message (ValidationError m d) = m"
| "error_message (NotFoundError m) = m"
| "error_message (UnauthorizedError m) = m"
| "error_message (InternalError m) = m"
| "error_message (Error m) = m"

text \<open>The runtime's message for reading property \<open>k\<close> of \<open>null\<close> or \<open>undefined\<close>.\<close>

definition cannot_read :: "string \<Rightarrow> string \<Rightarrow> string" where
  "cannot_read what k =
     ''Cannot read properties of '' @ what @ '' (reading '' @ [CHR 0x27] @ k @ [CHR 0x27] @ '')''"

text \<open>
  Each check of \<open>validateInput\<close> is guarded by the truthiness of the field, so a field
  that is absent, \<open>null\<close>, \<open>0\<close>, \<open>false\<close> or the empty string passes it unchecked. Reading
  \<open>body.prompt\<close> of a \<open>null\<close> body throws.
\<close>

definition validateInput :: "(json \<Rightarrow> real option) \<Rightarrow> json \<Rightarrow> error + string list" where
  "validateInput ToNumber body =
     (if body = JNull then Inl (Error (cannot_read ''null'' ''prompt''))
      else Inr (
        (if \<not> truthy (js_get body ''prompt'') \<or> typeof (js_get body ''prompt'') \<noteq> ''string''
            \<or> (case js_get body ''prompt'' of Some (JStr s) \<Rightarrow> length (trim s) = 0 | _ \<Rightarrow> False)
         then [''prompt is required and must be a non-empty string''] else []) @
        (if truthy (js_get body ''prompt'')
            \<and> js_gt ToNumber (case js_get body ''prompt'' of Some v \<Rightarrow> js_length v | None \<Rightarrow> None) 1000
         then [''prompt must be less than 1000 characters''] else []) @
        (if truthy (js_get body ''steps'')
            \<and> (case js_get body ''steps'' of Some (JNum x) \<Rightarrow> x < 1 \<or> x > 50 | _ \<Rightarrow> True)
         then [''steps must be a number between 1 and 50''] else []) @
        (if truthy (js_get body ''guidanceScale'')
            \<and> (case js_get body ''guidanceScale'' of Some (JNum x) \<Rightarrow> x < 1 \<or> x > 20 | _ \<Rightarrow> True)
         then [''guidanceScale must be a number between 1 and 20''] else []) @
        (if truthy (js_get body ''width'')
            \<and> (case js_get body ''width'' of
                   Some (JNum x) \<Rightarrow> x < 256 \<or> x > 1024 \<or> js_rem x 64 \<noteq> 0 | _ \<Rightarrow> True)
         then [''width must be a number between 256 and 1024, divisible by 64''] else []) @
        (if truthy (js_get body ''height'')
            \<and> (case js_get body ''height'' of
                   Some (JNum x) \<Rightarrow> x < 256 \<or> x > 1024 \<or> js_rem x 64 \<noteq> 0 | _ \<Rightarrow> True)
         then [''height must be a number between 256 and 1024, divisible by 64''] else []) @
        (if truthy (js_get body ''seed'')
            \<and> (case js_get body ''seed'' of Some (JNum x) \<Rightarrow> x < 0 \<or> x > 2147483647 | _ \<Rightarrow> True)
         then [''seed must be a number between 0 and 2147483647''] else []) @
        (if truthy (js_get body ''quality'')
            \<and> (case js_get body ''quality'' of
                   Some (JStr s) \<Rightarrow> s \<notin> set [''low'', ''medium'', ''high''] | _ \<Rightarrow> True)
         then [''quality must be one of: low, medium, high''] else []) @
        (if truthy (js_get body ''mode'')
            \<and> (case js_get body ''mode'' of
                   Some (JStr s) \<Rightarrow> s \<notin> set [''async'', ''sync''] | _ \<Rightarrow> True)
         then [''mode must be one of: async, sync''] else [])))"

section \<open>Requests and the caller's identity\<close>

text \<open>
  The part of the API Gateway event the handlers read. The authorizer, its \<open>jwt\<close> and the
  claims may each be missing. The identity claims are strings; \<open>cognito:groups\<close> is any
  JSON value.
\<close>

record JwtClaims =
  claim_sub :: "string option"
  claim_cognito_username :: "string option"
  claim_email :: "string option"
  claim_preferred_username :: "string option"
  claim_cognito_groups :: "json option"

record Jwt =
  claims :: "JwtClaims option"

record Authorizer =
  jwt :: "Jwt option"

record RequestContext =
  requestId :: string
  authorizer :: "Authorizer option"

record APIGatewayProxyEvent =
  httpMethod :: string
  body :: "string option"
  pathParameters :: "(string \<times> string) list option"
  requestContext :: RequestContext

record UserContext =
  userId :: string
  email :: "string option"
  username :: "string option"
  isAdmin :: bool

text \<open>\<open>a || b\<close> on optional strings: \<open>undefined\<close> and the empty string are falsy.\<close>

definition str_or :: "string option \<Rightarrow> string option \<Rightarrow> string option" where
  "str_or a b = (if a \<noteq> None \<and> a \<noteq> Some [] then a else b)"

subsection \<open>\<open>extractUserContext\<close> and \<open>validateResourceAccess\<close> (services/api/src/utils/auth.ts)\<close>

text \<open>The body of the \<open>try\<close>: optional chaining down to the claims, then the user id.\<close>

definition extractUserContext_try :: "APIGatewayProxyEvent \<Rightarrow> error + UserContext" where
  "extractUserContext_try event =
     (case (case authorizer (requestContext event) of
              None \<Rightarrow> None
            | Some a \<Rightarrow> (case jwt a of None \<Rightarrow> None | Some j \<Rightarrow> claims j)) of
        None \<Rightarrow> Inl (UnauthorizedError ''No authentication claims found'')
      | Some c \<Rightarrow>
          (case str_or (claim_sub c) (claim_cognito_username c) of
             None \<Rightarrow> Inl (UnauthorizedError ''No user ID found in claims'')
           | Some uid \<Rightarrow>
               if uid = [] then Inl (UnauthorizedError ''No user ID found in claims'')
               else Inr \<lparr>userId = uid,
                         email = claim_email c,
                         username = str_or (claim_cognito_username c) (claim_preferred_username c),
                         isAdmin = (case js_or (claim_cognito_groups c) (Some (JArr [])) of
                                      Some (JArr groups) \<Rightarrow> JStr ''admin'' \<in> set groups
                                    | _ \<Rightarrow> False)\<rparr>))"

text \<open>The \<open>catch\<close> replaces whatever was thrown by one \<open>UnauthorizedError\<close>.\<close>

definition extractUserContext :: "APIGatewayProxyEvent \<Rightarrow> error + UserContext" where
  "extractUserContext event =
     (case extractUserContext_try event of
        Inl e \<Rightarrow> Inl (UnauthorizedError ''Invalid authentication'')
      | Inr ctx \<Rightarrow> Inr ctx)"

text \<open>
  The resource's owner is the \<open>userId\<close> attribute as read from the stored record;
  \<open>!==\<close> holds unless it is the very string.
\<close>

definition validateResourceAccess :: "UserContext \<Rightarrow> json option \<Rightarrow> error + unit" where
  "validateResourceAccess userContext resourceUserId =
     (if isAdmin userContext then Inr ()
      else if Some (JStr (userId userContext)) \<noteq> resourceUserId
           then Inl (UnauthorizedError ''Access denied to this resource'')
      else Inr ())"

subsection \<open>\<open>getUserId\<close> of the deployed handlers (lambda-src)\<close>

text \<open>
  Reading through a missing authorizer, \<open>jwt\<close> or claims object throws a TypeError, which
  the \<open>catch\<close> turns into the fallback id.
\<close>

definition getUserId :: "APIGatewayProxyEvent \<Rightarrow> string" where
  "getUserId event =
     (case authorizer (requestContext event) of
        None \<Rightarrow> ''anonymous''
      | Some a \<Rightarrow>
          (case jwt a of
             None \<Rightarrow> ''anonymous''
           | Some j \<Rightarrow>
               (case claims j of
                  None \<Rightarrow> ''anonymous''
                | Some c \<Rightarrow>
                    (case str_or (str_or (claim_sub c) (claim_cognito_username c)) (Some ''anonymous'') of
                       Some uid \<Rightarrow> uid
                     | None \<Rightarrow> ''anonymous''))))"

section \<open>The job table and the staging bucket\<close>

text \<open>
  A stored job is an item of the jobs table: a map from attribute names to values, under
  its \<open>jobId\<close> as the key. The staging bucket maps an object key to the inference input
  written under it. The failures of the inference endpoint and of the staging write are
  inputs of the model.
\<close>

datatype JobStatus = PENDING | RUNNING | SUCCEEDED | FAILED

fun status_str :: "JobStatus \<Rightarrow> string" where
  "status_str PENDING = ''PENDING''"
| "status_str RUNNING = ''RUNNING''"
| "status_str SUCCEEDED = ''SUCCEEDED''"
| "status_str FAILED = ''FAILED''"

type_synonym item = "string \<rightharpoonup> json"

type_synonym table = "string \<rightharpoonup> item"

record world =
  jobs :: table
  staging :: "string \<rightharpoonup> json"

subsection \<open>What the jobs table accepts (infra/terraform/modules/data)\<close>

text \<open>
  The table is declared with the hash key \<open>jobId\<close> and the indexes \<open>UserIndex\<close> (on
  \<open>userId\<close>, \<open>createdAt\<close>) and \<open>StatusIndex\<close> (on \<open>status\<close>, \<open>createdAt\<close>), all of type
  string. It validates a request before it looks at the stored item, and rejects it when
  the key value is the empty string or not a string; when an attribute that is a key of an
  index is written with a value that is not a non-empty string; when an item has an
  attribute whose name is empty; when a placeholder of an expression is not \<open>#\<close> or \<open>:\<close>
  followed by letters, digits and underscores; and when an update expression sets one
  attribute twice. Beyond that the values written are taken to be ones the table can hold
  (its limits on the magnitude of a number, on nesting and on the size of an item are not
  part of the model).
\<close>

definition is_word_char :: "char \<Rightarrow> bool" where
  "is_word_char c =
     (let n = (of_char c :: nat)
      in (48 \<le> n \<and> n \<le> 57) \<or> (65 \<le> n \<and> n \<le> 90) \<or> (97 \<le> n \<and> n \<le> 122) \<or> n = 95)"

definition valid_placeholder :: "string \<Rightarrow> bool" where
  "valid_placeholder key = (key \<noteq> [] \<and> list_all is_word_char key)"

definition index_key_ok :: "json option \<Rightarrow> bool" where
  "index_key_ok v = (case v of None \<Rightarrow> True | Some (JStr s) \<Rightarrow> s \<noteq> [] | Some other \<Rightarrow> False)"

definition index_keys_ok :: "item \<Rightarrow> bool" where
  "index_keys_ok it =
     (index_key_ok (it ''userId'') \<and> index_key_ok (it ''createdAt'') \<and> index_key_ok (it ''status''))"

text \<open>A put of a whole item, and an update that sets the listed attributes under a key.\<close>

definition put_accepted :: "item \<Rightarrow> bool" where
  "put_accepted it =
     ((case it ''jobId'' of Some (JStr k) \<Rightarrow> k \<noteq> [] | other \<Rightarrow> False)
      \<and> it [] = None \<and> index_keys_ok it)"

definition update_accepted :: "string \<Rightarrow> (string \<times> json) list \<Rightarrow> bool" where
  "update_accepted k assignments =
     (k \<noteq> [] \<and> list_all valid_placeholder (map fst assignments)
      \<and> distinct (map fst assignments) \<and> index_keys_ok (map_of assignments))"

subsection \<open>\<open>DynamoDBService\<close> (services/api/src/services/dynamodb.ts)\<close>

text \<open>
  \<open>createJob\<close>: a put under the condition \<open>attribute_not_exists(jobId)\<close>. Every failure
  of the put, the table's rejection of the item as well as the failed condition, is
  rethrown as the same \<open>InternalError\<close>.
\<close>

definition createJob :: "item \<Rightarrow> table \<Rightarrow> error + table" where
  "createJob job tbl =
     (if \<not> put_accepted job then Inl (InternalError ''Failed to create job'')
      else
        (case job ''jobId'' of
           Some (JStr k) \<Rightarrow>
             (if tbl k \<noteq> None then Inl (InternalError ''Failed to create job'')
              else Inr (tbl(k \<mapsto> job)))
         | other \<Rightarrow> Inl (InternalError ''Failed to create job'')))"

text \<open>\<open>getJob\<close>: a read under the key; the table rejects the empty key.\<close>

definition getJob :: "string \<Rightarrow> table \<Rightarrow> error + item option" where
  "getJob jobId tbl =
     (if jobId = [] then Inl (InternalError ''Failed to retrieve job'') else Inr (tbl jobId))"

text \<open>
  \<open>updateJobStatus\<close> builds one \<open>SET\<close> expression: the status, \<open>updatedAt\<close>, for a final
  status \<open>completedAt\<close>, and every defined entry of \<open>updates\<close> but \<open>jobId\<close>, \<open>status\<close> and
  \<open>updatedAt\<close>, each under the placeholders \<open>#key\<close> and \<open>:key\<close>. The two timestamps are
  the two readings of the clock. A request the table rejects is rethrown as
  \<open>InternalError\<close>; the condition \<open>attribute_exists(jobId)\<close> is the only one, and its
  failure is \<open>NotFoundError\<close>.
\<close>

definition update_assignments :: "string \<Rightarrow> string \<Rightarrow> JobStatus \<Rightarrow> (string \<times> json option) list \<Rightarrow> (string \<times> json) list" where
  "update_assignments t_updated t_completed status updates =
     [(''status'', JStr (status_str status)), (''updatedAt'', JStr t_updated)]
     @ (if status = SUCCEEDED \<or> status = FAILED then [(''completedAt'', JStr t_completed)] else [])
     @ concat (map (\<lambda>(key, val).
          case val of
            None \<Rightarrow> []
          | Some v \<Rightarrow> if key \<noteq> ''jobId'' \<and> key \<noteq> ''status'' \<and> key \<noteq> ''updatedAt'' then [(key, v)] else [])
        updates)"

definition updateJobStatus :: "string \<Rightarrow> string \<Rightarrow> string \<Rightarrow> JobStatus \<Rightarrow> (string \<times> json option) list \<Rightarrow> table \<Rightarrow> error + table" where
  "updateJobStatus t_updated t_completed jobId status updates tbl =
     (let assignments = update_assignments t_updated t_completed status updates
      in if \<not> update_accepted jobId assignments then Inl (InternalError ''Failed to update job status'')
         else case tbl jobId of
                None \<Rightarrow> Inl (NotFoundError (''Job '' @ jobId @ '' not found''))
              | Some it \<Rightarrow> Inr (tbl(jobId \<mapsto> it ++ map_of assignments)))"

subsection \<open>The completion callback (modules/callbacks/lambda-src/callback.js)\<close>

text \<open>
  The callback writes with \<open>UpdateItem\<close> and no condition expression: the attributes are
  set on the item under the key, and the table creates the item when there is none.
  \<open>None\<close> is the table's rejection of the request.
\<close>

definition update_item :: "string \<Rightarrow> (string \<times> json) list \<Rightarrow> table \<Rightarrow> table option" where
  "update_item k assignments tbl =
     (if update_accepted k assignments
      then Some (tbl(k \<mapsto> (case tbl k of None \<Rightarrow> [''jobId'' \<mapsto> JStr k] | Some it \<Rightarrow> it)
                            ++ map_of assignments))
      else None)"

text \<open>
  \<open>processError\<close> sets the status, \<open>updatedAt\<close> and the error; a rejection by the table
  is caught and logged.
\<close>

definition processError :: "string \<Rightarrow> string \<Rightarrow> string \<Rightarrow> table \<Rightarrow> table" where
  "processError t_updated jobId errorMessage tbl =
     (case update_item jobId
             [(''status'', JStr ''FAILED''), (''updatedAt'', JStr t_updated),
              (''error'', JStr errorMessage)] tbl of
        None \<Rightarrow> tbl
      | Some tbl' \<Rightarrow> tbl')"

text \<open>
  \<open>parseS3Uri\<close> matches \<open>^s3:\/\/([^\/]+)\/(.+)$\<close>: a bucket without a slash, a slash, and
  a key without a line terminator, neither of them empty.
\<close>

definition parseS3Uri :: "string \<Rightarrow> error + string \<times> string" where
  "parseS3Uri s3Uri =
     (let rest = drop 5 s3Uri;
          bucket = takeWhile (\<lambda>c. c \<noteq> CHR ''/'') rest;
          key = drop (length bucket + 1) rest
      in if take 5 s3Uri = ''s3://'' \<and> bucket \<noteq> [] \<and> key \<noteq> []
            \<and> list_all (\<lambda>c. c \<noteq> CHR 0x0A \<and> c \<noteq> CHR 0x0D) key
         then Inr (bucket, key)
         else Inl (Error (''Invalid S3 URI: '' @ s3Uri)))"

text \<open>
  What \<open>processSuccess\<close> finds outside the table: what \<open>JSON.parse\<close> makes of the output's
  \<open>output.json\<close> (\<open>None\<close> when the object is missing or malformed), whether one of the
  candidate image keys exists, the message of a failing copy to the images bucket, the
  runtime's \<open>JSON.stringify\<close>, and the message with which the table rejects a request.
\<close>

record callback_env =
  metadata_file :: "json option"
  image_found :: bool
  copy_failure :: "string option"
  cb_stringify :: "json \<Rightarrow> string"
  cb_rejection :: string

text \<open>\<open>Object.keys(v).length > 0\<close>; \<open>None\<close> where \<open>Object.keys\<close> throws.\<close>

fun has_keys :: "json \<Rightarrow> bool option" where
  "has_keys JNull = None"
| "has_keys (JBool b) = Some False"
| "has_keys (JNum x) = Some False"
| "has_keys (JStr s) = Some (s \<noteq> [])"
| "has_keys (JArr vs) = Some (vs \<noteq> [])"
| "has_keys (JObj kvs) = Some (kvs \<noteq> [])"

text \<open>
  \<open>processSuccess\<close>. When an image is found and copied, the update is extended with
  \<open>publicImageKey\<close>, a constant declared in the block of the copy and not in scope there:
  the ReferenceError, like every other error of the \<open>try\<close>, is caught by marking the job
  \<open>FAILED\<close>. With no image the job is marked \<open>SUCCEEDED\<close>, with \<open>completedAt\<close> and the
  metadata if there are any. The three timestamps are the readings of the clock for the
  success update and for the update of the \<open>catch\<close>; if that update is rejected too, its
  error leaves the function.
\<close>

definition processSuccess :: "callback_env \<Rightarrow> string \<Rightarrow> string \<Rightarrow> string \<Rightarrow> string \<Rightarrow> string \<Rightarrow> table \<Rightarrow> error + table" where
  "processSuccess c t_updated t_completed t_failed jobId outputLocation tbl =
     (let failed = (\<lambda>m. case update_item jobId
                               [(''status'', JStr ''FAILED''), (''updatedAt'', JStr t_failed),
                                (''error'', JStr (''Failed to process inference result: '' @ m))] tbl of
                          None \<Rightarrow> Inl (Error (cb_rejection c))
                        | Some tbl' \<Rightarrow> Inr tbl')
      in case parseS3Uri outputLocation of
           Inl err \<Rightarrow> failed (error_message err)
         | Inr location \<Rightarrow>
             (let metadata = (case metadata_file c of None \<Rightarrow> JObj [] | Some m \<Rightarrow> m)
              in if image_found c
                 then (case copy_failure c of
                         Some m \<Rightarrow> failed m
                       | None \<Rightarrow> failed ''publicImageKey is not defined'')
                 else (case has_keys metadata of
                         None \<Rightarrow> failed ''Cannot convert undefined or null to object''
                       | Some nonempty \<Rightarrow>
                           (case update_item jobId
                                   ([(''status'', JStr ''SUCCEEDED''), (''updatedAt'', JStr t_updated),
                                     (''completedAt'', JStr t_completed)]
                                    @ (if nonempty then [(''metadata'', JStr (cb_stringify c metadata))] else []))
                                   tbl of
                              None \<Rightarrow> failed (cb_rejection c)
                            | Some tbl' \<Rightarrow> Inr tbl'))))"

section \<open>The environment of a handler invocation\<close>

text \<open>
  What a handler reads from outside the stores: the runtime's JSON functions (\<open>JSON.parse\<close>
  gives \<open>Inl\<close> the SyntaxError's message on malformed text), the identifier its generator
  returns, the successive readings of the clock, and the outcomes of the calls to the
  staging bucket and to the inference endpoint (\<open>Inl\<close> the message of the error thrown).
  For the status query it adds the runtime's string conversion, the URL presigner and the
  whole minutes elapsed since a creation timestamp (\<open>None\<close> where the timestamp does not
  parse and the arithmetic gives NaN). The readings of the clock are those of
  \<open>new Date().toISOString()\<close>, in the order in which the handler and the services it calls
  take them; \<open>put_rejection\<close> is the message with which the jobs table rejects a put.
\<close>

record env =
  JSON_parse :: "string \<Rightarrow> string + json"
  JSON_stringify :: "json \<Rightarrow> string"
  to_number :: "json \<Rightarrow> real option"
  new_id :: string
  clock :: "nat \<Rightarrow> string"
  epoch_seconds :: int
  random_seed :: int
  s3_put :: "string option"
  endpoint_async :: "string + string option"
  endpoint_sync :: "string + string option"
  development :: bool
  to_string :: "json \<Rightarrow> string"
  presign :: "json \<Rightarrow> string + string"
  elapsed_minutes :: "json option \<Rightarrow> int option"
  put_rejection :: string

subsection \<open>\<open>SageMakerService\<close> (services/api/src/services/sagemaker.ts)\<close>

fun quality_str :: "QualityLevel \<Rightarrow> string" where
  "quality_str LOW = ''low''"
| "quality_str MEDIUM = ''medium''"
| "quality_str HIGH = ''high''"

fun mode_str :: "InferenceMode \<Rightarrow> string" where
  "mode_str ASYNC = ''async''"
| "mode_str SYNC = ''sync''"

text \<open>An object literal as JSON: a field whose value is \<open>undefined\<close> is left out.\<close>

definition js_object :: "(string \<times> json option) list \<Rightarrow> json" where
  "js_object entries =
     JObj (concat (map (\<lambda>(k, v). case v of None \<Rightarrow> [] | Some x \<Rightarrow> [(k, x)]) entries))"

definition createInferenceInput :: "SubmitJobRequest \<Rightarrow> json" where
  "createInferenceInput request =
     js_object
       [(''inputs'', Some (JStr (prompt request))),
        (''parameters'', Some (js_object
           [(''num_inference_steps'', Some (JNum (of_int (steps request)))),
            (''guidance_scale'', Some (JNum (guidanceScale request))),
            (''width'', Some (JNum (of_int (width request)))),
            (''height'', Some (JNum (of_int (height request)))),
            (''seed'', map_option (\<lambda>n. JNum (of_int n)) (seed request)),
            (''negative_prompt'', map_option JStr (negativePrompt request))]))]"

text \<open>
  \<open>invokeAsync\<close>: the input goes to the staging bucket under \<open>jobs/<jobId>/input.json\<close>,
  then the endpoint is invoked. Whatever fails is rethrown as one \<open>InternalError\<close>; a
  staged input stays in the bucket. The call reads the clock once, for the \<open>created-at\<close>
  metadata of the staged object, before it sends the write.
\<close>

definition invokeAsync :: "env \<Rightarrow> string \<Rightarrow> SubmitJobRequest \<Rightarrow> (string \<rightharpoonup> json) \<Rightarrow> (error + string) \<times> (string \<rightharpoonup> json)" where
  "invokeAsync e jobId request stg =
     (case s3_put e of
        Some m \<Rightarrow> (Inl (InternalError ''Failed to start inference''), stg)
      | None \<Rightarrow>
          (let stg' = stg(''jobs/'' @ jobId @ ''/input.json'' \<mapsto> createInferenceInput request)
           in case endpoint_async e of
                Inl m \<Rightarrow> (Inl (InternalError ''Failed to start inference''), stg')
              | Inr None \<Rightarrow> (Inl (InternalError ''Failed to start inference''), stg')
              | Inr (Some outputLocation) \<Rightarrow>
                  if outputLocation = [] then (Inl (InternalError ''Failed to start inference''), stg')
                  else (Inr outputLocation, stg')))"

text \<open>
  \<open>invokeSync\<close>: a missing body, malformed JSON and a \<open>null\<close> response (whose
  \<open>metadata\<close> cannot be read) are all rethrown as one \<open>InternalError\<close>.
\<close>

definition invokeSync :: "env \<Rightarrow> SubmitJobRequest \<Rightarrow> error + json" where
  "invokeSync e request =
     (case endpoint_sync e of
        Inl m \<Rightarrow> Inl (InternalError ''Failed to complete inference'')
      | Inr None \<Rightarrow> Inl (InternalError ''Failed to complete inference'')
      | Inr (Some responseText) \<Rightarrow>
          (case JSON_parse e responseText of
             Inl m \<Rightarrow> Inl (InternalError ''Failed to complete inference'')
           | Inr response \<Rightarrow>
               if response = JNull then Inl (InternalError ''Failed to complete inference'')
               else Inr response))"

section \<open>Responses (services/api/src/utils/response.ts)\<close>

record SubmitJobResponse =
  r_jobId :: string
  r_status :: JobStatus
  r_message :: "string option"
  r_estimatedWaitTime :: "string option"
  r_result :: "json option"

record GetJobResponse =
  g_jobId :: "json option"
  g_status :: "json option"
  g_createdAt :: "json option"
  g_updatedAt :: "json option"
  g_inputParams :: "json option"
  g_imageUrl :: "json option"
  g_metadata :: "json option"
  g_timings :: "json option"
  g_error :: "json option"
  g_estimatedCompletion :: "string option"

datatype details = Issues "ZodIssue list" | Messages "string list" | Detail string

text \<open>
  The body of a response before it is serialised: empty, an error with its optional
  message and details, or one of the two success shapes.
\<close>

datatype payload =
    Empty
  | Failure string "string option" "details option"
  | Submitted SubmitJobResponse
  | JobView GetJobResponse

record response =
  statusCode :: nat
  headers :: "(string \<times> string) list"
  payload :: payload

definition CORS_HEADERS :: "(string \<times> string) list" where
  "CORS_HEADERS =
     [(''Content-Type'', ''application/json''),
      (''Access-Control-Allow-Origin'', ''*''),
      (''Access-Control-Allow-Headers'', ''Content-Type,X-Amz-Date,Authorization,X-Api-Key,X-Amz-Security-Token''),
      (''Access-Control-Allow-Methods'', ''OPTIONS,GET,POST,PUT,DELETE'')]"

definition successResponse :: "payload \<Rightarrow> nat \<Rightarrow> response" where
  "successResponse data code = \<lparr>statusCode = code, headers = CORS_HEADERS, payload = data\<rparr>"

fun errorResponse :: "bool \<Rightarrow> error \<Rightarrow> response" where
  "errorResponse dev (ValidationError m d) =
     \<lparr>statusCode = 400, headers = CORS_HEADERS,
      payload = Failure ''Validation failed'' (Some m) (map_option Issues d)\<rparr>"
| "errorResponse dev (UnauthorizedError m) =
     \<lparr>statusCode = 403, headers = CORS_HEADERS, payload = Failure ''Access denied'' (Some m) None\<rparr>"
| "errorResponse dev (NotFoundError m) =
     \<lparr>statusCode = 404, headers = CORS_HEADERS, payload = Failure ''Not found'' (Some m) None\<rparr>"
| "errorResponse dev e =
     \<lparr>statusCode = 500, headers = CORS_HEADERS,
      payload = Failure ''Internal server error''
                  (Some (if dev then error_message e else ''An unexpected error occurred'')) None\<rparr>"

definition optionsResponse :: response where
  "optionsResponse =
     \<lparr>statusCode = 200, headers = CORS_HEADERS @ [(''Access-Control-Max-Age'', ''86400'')],
      payload = Empty\<rparr>"

section \<open>The submit handler (services/api/src/handlers/submit-job.ts)\<close>

text \<open>
  The job record as the handler builds it: \<open>PENDING\<close>, both timestamps the same reading,
  the validated request as \<open>inputParams\<close>, seven days to live.
\<close>

definition request_json :: "SubmitJobRequest \<Rightarrow> json" where
  "request_json request =
     js_object
       [(''prompt'', Some (JStr (prompt request))),
        (''modelId'', Some (JStr (modelId request))),
        (''steps'', Some (JNum (of_int (steps request)))),
        (''guidanceScale'', Some (JNum (guidanceScale request))),
        (''width'', Some (JNum (of_int (width request)))),
        (''height'', Some (JNum (of_int (height request)))),
        (''seed'', map_option (\<lambda>n. JNum (of_int n)) (seed request)),
        (''quality'', Some (JStr (quality_str (quality request)))),
        (''mode'', Some (JStr (mode_str (mode request)))),
        (''negativePrompt'', map_option JStr (negativePrompt request))]"

definition new_job_item :: "string \<Rightarrow> string \<Rightarrow> string \<Rightarrow> SubmitJobRequest \<Rightarrow> int \<Rightarrow> item" where
  "new_job_item jobId uid timestamp request now_seconds =
     map_of
       [(''jobId'', JStr jobId),
        (''userId'', JStr uid),
        (''status'', JStr (status_str PENDING)),
        (''createdAt'', JStr timestamp),
        (''updatedAt'', JStr timestamp),
        (''inputParams'', request_json request),
        (''mode'', JStr (mode_str (mode request))),
        (''ttl'', JNum (of_int (now_seconds + 7 * 24 * 60 * 60)))]"

text \<open>
  The \<open>catch\<close> of either mode: one update to \<open>FAILED\<close> carrying the message of what was
  thrown, then the same error is thrown on (or the update's own error, if it fails). The
  index is that of the next reading of the clock.
\<close>

definition dispatch_failed :: "env \<Rightarrow> nat \<Rightarrow> string \<Rightarrow> error \<Rightarrow> world \<Rightarrow> (error + response) \<times> world" where
  "dispatch_failed e n jobId err w =
     (case updateJobStatus (clock e n) (clock e (n + 1)) jobId FAILED
             [(''error'', Some (JStr (error_message err)))] (jobs w) of
        Inl err2 \<Rightarrow> (Inl err2, w)
      | Inr tbl \<Rightarrow> (Inl err, w\<lparr>jobs := tbl\<rparr>))"

text \<open>
  Synchronous mode. The update to \<open>SUCCEEDED\<close> and the log line that reads
  \<open>result.metadata.generation_time_seconds\<close> are inside the \<open>try\<close>: if either throws,
  the \<open>catch\<close> runs.
\<close>

definition submit_sync :: "env \<Rightarrow> string \<Rightarrow> SubmitJobRequest \<Rightarrow> world \<Rightarrow> (error + response) \<times> world" where
  "submit_sync e jobId request w =
     (case invokeSync e request of
        Inl err \<Rightarrow> dispatch_failed e 1 jobId err w
      | Inr result \<Rightarrow>
          (case updateJobStatus (clock e 1) (clock e 2) jobId SUCCEEDED
                  [(''metadata'', map_option (\<lambda>m. JStr (JSON_stringify e m)) (js_get result ''metadata''))]
                  (jobs w) of
             Inl err \<Rightarrow> dispatch_failed e 3 jobId err w
           | Inr tbl \<Rightarrow>
               (case js_get result ''metadata'' of
                  None \<Rightarrow>
                    dispatch_failed e 3 jobId
                      (Error (cannot_read ''undefined'' ''generation_time_seconds'')) (w\<lparr>jobs := tbl\<rparr>)
                | Some JNull \<Rightarrow>
                    dispatch_failed e 3 jobId
                      (Error (cannot_read ''null'' ''generation_time_seconds'')) (w\<lparr>jobs := tbl\<rparr>)
                | Some metadata \<Rightarrow>
                    (Inr (successResponse
                            (Submitted \<lparr>r_jobId = jobId, r_status = SUCCEEDED, r_message = None,
                                        r_estimatedWaitTime = None,
                                        r_result = Some (js_object
                                          [(''generated_image'', js_get result ''generated_image''),
                                           (''metadata'', Some metadata)])\<rparr>)
                            200),
                     w\<lparr>jobs := tbl\<rparr>))))"

text \<open>
  Asynchronous mode: stage and invoke, mark the job \<open>RUNNING\<close>, answer 202. Reading 1 of
  the clock is the one \<open>invokeAsync\<close> takes; the update to \<open>RUNNING\<close> takes one reading,
  for \<open>updatedAt\<close>.
\<close>

definition submit_async :: "env \<Rightarrow> string \<Rightarrow> SubmitJobRequest \<Rightarrow> world \<Rightarrow> (error + response) \<times> world" where
  "submit_async e jobId request w =
     (case invokeAsync e jobId request (staging w) of
        (Inl err, stg) \<Rightarrow> dispatch_failed e 2 jobId err (w\<lparr>staging := stg\<rparr>)
      | (Inr outputLocation, stg) \<Rightarrow>
          (case updateJobStatus (clock e 2) (clock e 3) jobId RUNNING [] (jobs w) of
             Inl err \<Rightarrow> dispatch_failed e 3 jobId err (w\<lparr>staging := stg\<rparr>)
           | Inr tbl \<Rightarrow>
               (Inr (successResponse
                       (Submitted \<lparr>r_jobId = jobId, r_status = PENDING,
                                   r_message = Some ''Job submitted successfully. First inference may take up to 60 seconds due to cold start.'',
                                   r_estimatedWaitTime = Some ''60-120 seconds'',
                                   r_result = None\<rparr>)
                       202),
                w\<lparr>jobs := tbl, staging := stg\<rparr>)))"

text \<open>The body of the handler's \<open>try\<close>, up to the creation of the job.\<close>

definition submit_job_try :: "env \<Rightarrow> APIGatewayProxyEvent \<Rightarrow> world \<Rightarrow> (error + response) \<times> world" where
  "submit_job_try e event w =
     (if httpMethod event = ''OPTIONS'' then (Inr optionsResponse, w)
      else
        (case extractUserContext event of
           Inl err \<Rightarrow> (Inl err, w)
         | Inr userContext \<Rightarrow>
             (case body event of
                None \<Rightarrow> (Inl (ValidationError ''Request body is required'' None), w)
              | Some text \<Rightarrow>
                  (if text = [] then (Inl (ValidationError ''Request body is required'' None), w)
                   else
                     (case JSON_parse e text of
                        Inl m \<Rightarrow> (Inl (ValidationError ''Invalid JSON in request body'' None), w)
                      | Inr requestBody \<Rightarrow>
                          (case SubmitJobRequestSchema requestBody of
                             Inl issues \<Rightarrow>
                               (Inl (ValidationError ''Invalid request parameters'' (Some issues)), w)
                           | Inr request \<Rightarrow>
                               (case createJob
                                       (new_job_item (new_id e) (userId userContext) (clock e 0) request
                                          (epoch_seconds e))
                                       (jobs w) of
                                  Inl err \<Rightarrow> (Inl err, w)
                                | Inr tbl \<Rightarrow>
                                    (if mode request = SYNC
                                     then submit_sync e (new_id e) request (w\<lparr>jobs := tbl\<rparr>)
                                     else submit_async e (new_id e) request (w\<lparr>jobs := tbl\<rparr>)))))))))"

text \<open>The handler: whatever the body throws becomes an error response.\<close>

definition submit_job_handler :: "env \<Rightarrow> APIGatewayProxyEvent \<Rightarrow> world \<Rightarrow> response \<times> world" where
  "submit_job_handler e event w =
     (case submit_job_try e event w of
        (Inl err, w') \<Rightarrow> (errorResponse (development e) err, w')
      | (Inr r, w') \<Rightarrow> (r, w'))"

section \<open>The deployed submit handler (infra/terraform/modules/api/lambda-src/submit-job.js)\<close>

definition js_headers :: "string \<Rightarrow> (string \<times> string) list" where
  "js_headers methods =
     [(''Content-Type'', ''application/json''),
      (''Access-Control-Allow-Origin'', ''*''),
      (''Access-Control-Allow-Headers'', ''Content-Type,X-Amz-Date,Authorization,X-Api-Key,X-Amz-Security-Token''),
      (''Access-Control-Allow-Methods'', methods)]"

definition js_response :: "string \<Rightarrow> nat \<Rightarrow> payload \<Rightarrow> response" where
  "js_response methods code data = \<lparr>statusCode = code, headers = js_headers methods, payload = data\<rparr>"

text \<open>\<open>a || d\<close> with a default \<open>d\<close> that is always there.\<close>

definition or_default :: "json option \<Rightarrow> json \<Rightarrow> json" where
  "or_default a d = (case a of None \<Rightarrow> d | Some v \<Rightarrow> if truthy (Some v) then v else d)"

text \<open>
  The parameters handed to the model, each field defaulted by \<open>||\<close>; \<open>p\<close> is the prompt,
  a string once validation has passed.
\<close>

record InferenceParams =
  ip_prompt :: string
  ip_steps :: json
  ip_guidance_scale :: json
  ip_width :: json
  ip_height :: json
  ip_seed :: json
  ip_quality :: json

definition inferenceParams :: "env \<Rightarrow> json \<Rightarrow> string \<Rightarrow> InferenceParams" where
  "inferenceParams e bdy p =
     \<lparr>ip_prompt = trim p,
      ip_steps = or_default (js_get bdy ''steps'') (JNum 20),
      ip_guidance_scale = or_default (js_get bdy ''guidanceScale'') (JNum 7.5),
      ip_width = or_default (js_get bdy ''width'') (JNum 512),
      ip_height = or_default (js_get bdy ''height'') (JNum 512),
      ip_seed = or_default (js_get bdy ''seed'') (JNum (of_int (random_seed e))),
      ip_quality = or_default (js_get bdy ''quality'') (JStr ''medium'')\<rparr>"

definition params_json :: "InferenceParams \<Rightarrow> json" where
  "params_json params =
     JObj [(''prompt'', JStr (ip_prompt params)),
           (''steps'', ip_steps params),
           (''guidance_scale'', ip_guidance_scale params),
           (''width'', ip_width params),
           (''height'', ip_height params),
           (''seed'', ip_seed params),
           (''quality'', ip_quality params)]"

definition inputData :: "InferenceParams \<Rightarrow> json" where
  "inputData params =
     JObj [(''inputs'', JStr (ip_prompt params)),
           (''parameters'',
            JObj [(''num_inference_steps'', ip_steps params),
                  (''guidance_scale'', ip_guidance_scale params),
                  (''width'', ip_width params),
                  (''height'', ip_height params),
                  (''seed'', ip_seed params)])]"

definition js_job_item :: "string \<Rightarrow> string \<Rightarrow> string \<Rightarrow> InferenceParams \<Rightarrow> json \<Rightarrow> int \<Rightarrow> item" where
  "js_job_item jobId uid timestamp params md now_seconds =
     map_of
       [(''jobId'', JStr jobId),
        (''userId'', JStr uid),
        (''status'', JStr ''PENDING''),
        (''createdAt'', JStr timestamp),
        (''updatedAt'', JStr timestamp),
        (''inputParams'', params_json params),
        (''mode'', md),
        (''ttl'', JNum (of_int (now_seconds + 7 * 24 * 60 * 60)))]"

text \<open>
  After validation the job is stored by an unconditional put; a put the table rejects
  throws to the handler's own \<open>catch\<close>. Asynchronous mode stages the input and invokes
  the endpoint with nothing around the two calls but that \<open>catch\<close>; synchronous mode puts
  the whole item again with the final status.
\<close>

definition submit_job_js_try :: "env \<Rightarrow> APIGatewayProxyEvent \<Rightarrow> world \<Rightarrow> (error + response) \<times> world" where
  "submit_job_js_try e event w =
     (case JSON_parse e (case body event of None \<Rightarrow> ''{}'' | Some text \<Rightarrow> if text = [] then ''{}'' else text) of
        Inl m \<Rightarrow>
          (Inr (js_response ''OPTIONS,POST'' 400 (Failure ''Invalid JSON in request body'' None None)), w)
      | Inr bdy \<Rightarrow>
          (case validateInput (to_number e) bdy of
             Inl err \<Rightarrow> (Inl err, w)
           | Inr validationErrors \<Rightarrow>
               (if length validationErrors > 0
                then (Inr (js_response ''OPTIONS,POST'' 400
                             (Failure ''Validation failed'' None (Some (Messages validationErrors)))), w)
                else
                  (case js_get bdy ''prompt'' of
                     Some (JStr p) \<Rightarrow>
                       (let jobId = new_id e;
                            params = inferenceParams e bdy p;
                            md = or_default (js_get bdy ''mode'') (JStr ''async'');
                            jobItem = js_job_item jobId (getUserId event) (clock e 0) params md (epoch_seconds e);
                            w1 = w\<lparr>jobs := (jobs w)(jobId \<mapsto> jobItem)\<rparr>
                        in if \<not> put_accepted jobItem then (Inl (Error (put_rejection e)), w)
                           else if md = JStr ''async''
                           then
                             (case s3_put e of
                                Some m \<Rightarrow> (Inl (Error m), w1)
                              | None \<Rightarrow>
                                  (let w2 = w1\<lparr>staging := (staging w1)(''jobs/'' @ jobId @ ''/input.json'' \<mapsto> inputData params)\<rparr>
                                   in case endpoint_async e of
                                        Inl m \<Rightarrow> (Inl (Error m), w2)
                                      | Inr outputLocation \<Rightarrow>
                                          (Inr (js_response ''OPTIONS,POST'' 202
                                                  (Submitted \<lparr>r_jobId = jobId, r_status = PENDING,
                                                     r_message = Some ''Job submitted successfully. First inference may take up to 60 seconds due to cold start.'',
                                                     r_estimatedWaitTime = Some ''60-120 seconds'',
                                                     r_result = None\<rparr>)), w2)))
                           else
                             (case (case endpoint_sync e of
                                      Inl m \<Rightarrow> Inl m
                                    | Inr b \<Rightarrow> JSON_parse e (case b of None \<Rightarrow> [] | Some text \<Rightarrow> text)) of
                                Inr responseBody \<Rightarrow>
                                  (Inr (js_response ''OPTIONS,POST'' 200
                                          (Submitted \<lparr>r_jobId = jobId, r_status = SUCCEEDED, r_message = None,
                                             r_estimatedWaitTime = None, r_result = Some responseBody\<rparr>)),
                                   w1\<lparr>jobs := (jobs w1)(jobId \<mapsto>
                                          jobItem(''status'' \<mapsto> JStr ''SUCCEEDED'', ''updatedAt'' \<mapsto> JStr (clock e 1),
                                                  ''result'' \<mapsto> responseBody))\<rparr>)
                              | Inl m \<Rightarrow>
                                  (Inr (js_response ''OPTIONS,POST'' 500
                                          (Failure ''Inference failed'' None (Some (Detail m)))),
                                   w1\<lparr>jobs := (jobs w1)(jobId \<mapsto>
                                          jobItem(''status'' \<mapsto> JStr ''FAILED'', ''updatedAt'' \<mapsto> JStr (clock e 1),
                                                  ''error'' \<mapsto> JStr m))\<rparr>)))
                   | _ \<Rightarrow> (Inl (Error ''body.prompt.trim is not a function''), w)))))"

definition submit_job_js_handler :: "env \<Rightarrow> APIGatewayProxyEvent \<Rightarrow> world \<Rightarrow> response \<times> world" where
  "submit_job_js_handler e event w =
     (case submit_job_js_try e event w of
        (Inl err, w') \<Rightarrow>
          (js_response ''OPTIONS,POST'' 500
             (Failure ''Internal server error'' None (Some (Detail (error_message err)))), w')
      | (Inr r, w') \<Rightarrow> (r, w'))"

section \<open>The status query\<close>

text \<open>\<open>event.pathParameters?.id\<close>, and an attribute kept only when it is truthy.\<close>

definition path_id :: "APIGatewayProxyEvent \<Rightarrow> string option" where
  "path_id event = (case pathParameters event of None \<Rightarrow> None | Some ps \<Rightarrow> map_of ps ''id'')"

definition if_truthy :: "json option \<Rightarrow> json option" where
  "if_truthy a = (if truthy a then a else None)"

definition js_text :: "env \<Rightarrow> json \<Rightarrow> string" where
  "js_text e v = (case v of JStr t \<Rightarrow> t | _ \<Rightarrow> to_string e v)"

definition parse_or_skip :: "env \<Rightarrow> json option \<Rightarrow> json option" where
  "parse_or_skip e a =
     (case a of
        None \<Rightarrow> None
      | Some v \<Rightarrow>
          if truthy (Some v)
          then (case JSON_parse e (js_text e v) of Inl m \<Rightarrow> None | Inr parsed \<Rightarrow> Some parsed)
          else None)"

subsection \<open>The handler of services/api/src/handlers/get-job.ts\<close>

definition job_response :: "env \<Rightarrow> item \<Rightarrow> GetJobResponse" where
  "job_response e job =
     (let response = \<lparr>g_jobId = job ''jobId'', g_status = job ''status'', g_createdAt = job ''createdAt'',
                      g_updatedAt = job ''updatedAt'', g_inputParams = job ''inputParams'',
                      g_imageUrl = None, g_metadata = None, g_timings = None, g_error = None,
                      g_estimatedCompletion = None\<rparr>
      in if job ''status'' = Some (JStr ''SUCCEEDED'')
         then response\<lparr>
                g_imageUrl :=
                  (if truthy (job ''imageUrl'') then job ''imageUrl''
                   else
                     (case job ''outputKey'' of
                        None \<Rightarrow> None
                      | Some k \<Rightarrow>
                          if truthy (Some k)
                          then (case presign e k of Inl m \<Rightarrow> None | Inr url \<Rightarrow> Some (JStr url))
                          else None)),
                g_metadata := parse_or_skip e (job ''metadata''),
                g_timings := parse_or_skip e (job ''timings'')\<rparr>
         else if job ''status'' = Some (JStr ''FAILED'')
         then response\<lparr>g_error := if_truthy (job ''error'')\<rparr>
         else if job ''status'' = Some (JStr ''PENDING'') \<or> job ''status'' = Some (JStr ''RUNNING'')
         then response\<lparr>
                g_estimatedCompletion :=
                  Some (case elapsed_minutes e (job ''createdAt'') of
                          None \<Rightarrow> ''Processing is taking longer than expected. Please check back in a few minutes.''
                        | Some elapsedMinutes \<Rightarrow>
                            if elapsedMinutes < 2
                            then ''Processing... First inference may take up to 60 seconds due to cold start.''
                            else if elapsedMinutes < 5
                            then ''Processing... Should complete within the next few minutes.''
                            else ''Processing is taking longer than expected. Please check back in a few minutes.'')\<rparr>
         else response)"

definition get_job_try :: "env \<Rightarrow> APIGatewayProxyEvent \<Rightarrow> world \<Rightarrow> error + response" where
  "get_job_try e event w =
     (if httpMethod event = ''OPTIONS'' then Inr optionsResponse
      else
        (case path_id event of
           None \<Rightarrow> Inl (ValidationError ''Job ID is required'' None)
         | Some jobId \<Rightarrow>
             (if jobId = [] then Inl (ValidationError ''Job ID is required'' None)
              else
                (case extractUserContext event of
                   Inl err \<Rightarrow> Inl err
                 | Inr userContext \<Rightarrow>
                     (case getJob jobId (jobs w) of
                        Inl err \<Rightarrow> Inl err
                      | Inr None \<Rightarrow> Inl (NotFoundError ''Job not found'')
                      | Inr (Some job) \<Rightarrow>
                          (case validateResourceAccess userContext (job ''userId'') of
                             Inl err \<Rightarrow> Inl err
                           | Inr u \<Rightarrow> Inr (successResponse (JobView (job_response e job)) 200)))))))"

definition get_job_handler :: "env \<Rightarrow> APIGatewayProxyEvent \<Rightarrow> world \<Rightarrow> response" where
  "get_job_handler e event w =
     (case get_job_try e event w of
        Inl err \<Rightarrow> errorResponse (development e) err
      | Inr r \<Rightarrow> r)"

subsection \<open>The deployed handler (lambda-src/get-job.js)\<close>

definition js_job_response :: "env \<Rightarrow> item \<Rightarrow> GetJobResponse" where
  "js_job_response e job =
     (let response = \<lparr>g_jobId = job ''jobId'', g_status = job ''status'', g_createdAt = job ''createdAt'',
                      g_updatedAt = job ''updatedAt'', g_inputParams = job ''inputParams'',
                      g_imageUrl = None, g_metadata = None, g_timings = None, g_error = None,
                      g_estimatedCompletion = None\<rparr>
      in if job ''status'' = Some (JStr ''SUCCEEDED'')
         then response\<lparr>
                g_imageUrl :=
                  (if truthy (job ''imageUrl'') then job ''imageUrl''
                   else
                     (case job ''outputKey'' of
                        None \<Rightarrow> None
                      | Some k \<Rightarrow>
                          if truthy (Some k)
                          then (case presign e k of
                                  Inl m \<Rightarrow> None
                                | Inr url \<Rightarrow> if url = [] then None else Some (JStr url))
                          else None)),
                g_metadata := if_truthy (job ''metadata''),
                g_timings := if_truthy (job ''timings'')\<rparr>
         else if job ''status'' = Some (JStr ''FAILED'')
         then response\<lparr>g_error := if_truthy (job ''error'')\<rparr>
         else if job ''status'' = Some (JStr ''PENDING'') \<or> job ''status'' = Some (JStr ''RUNNING'')
         then response\<lparr>
                g_estimatedCompletion :=
                  Some (case elapsed_minutes e (job ''createdAt'') of
                          None \<Rightarrow> ''Processing... Should complete within the next few minutes.''
                        | Some elapsedMinutes \<Rightarrow>
                            if elapsedMinutes < 2
                            then ''Processing... First inference may take up to 60 seconds due to cold start.''
                            else ''Processing... Should complete within the next few minutes.'')\<rparr>
         else response)"

definition get_job_js_handler :: "env \<Rightarrow> APIGatewayProxyEvent \<Rightarrow> world \<Rightarrow> response" where
  "get_job_js_handler e event w =
     (case path_id event of
        None \<Rightarrow> js_response ''OPTIONS,GET'' 400 (Failure ''Job ID is required'' None None)
      | Some jobId \<Rightarrow>
          (if jobId = [] then js_response ''OPTIONS,GET'' 400 (Failure ''Job ID is required'' None None)
           else
             (case jobs w jobId of
                None \<Rightarrow> js_response ''OPTIONS,GET'' 404 (Failure ''Job not found'' None None)
              | Some job \<Rightarrow>
                  (if job ''userId'' \<noteq> Some (JStr (getUserId event)) \<and> getUserId event \<noteq> ''admin''
                   then js_response ''OPTIONS,GET'' 403 (Failure ''Access denied'' None None)
                   else js_response ''OPTIONS,GET'' 200 (JobView (js_job_response e job))))))"

section \<open>Reading the table, and callers that issue several calls\<close>

text \<open>An attribute of a stored job; \<open>None\<close> when the job or the attribute is absent.\<close>

definition job_attr :: "table \<Rightarrow> string \<Rightarrow> string \<Rightarrow> json option" where
  "job_attr tbl jobId k = (case tbl jobId of None \<Rightarrow> None | Some it \<Rightarrow> it k)"

definition is_terminal :: "json option \<Rightarrow> bool" where
  "is_terminal st = (st = Some (JStr ''SUCCEEDED'') \<or> st = Some (JStr ''FAILED''))"

text \<open>
  The calls the job-store service offers for writing, and a caller that issues a list of
  them one after the other. A rejected call throws and leaves the table as it was.
\<close>

datatype store_call =
    CreateJob item
  | UpdateJobStatus string string string JobStatus "(string \<times> json option) list"

fun run_call :: "store_call \<Rightarrow> table \<Rightarrow> table" where
  "run_call (CreateJob job) tbl = (case createJob job tbl of Inl err \<Rightarrow> tbl | Inr tbl' \<Rightarrow> tbl')"
| "run_call (UpdateJobStatus t_updated t_completed jobId status updates) tbl =
     (case updateJobStatus t_updated t_completed jobId status updates tbl of
        Inl err \<Rightarrow> tbl
      | Inr tbl' \<Rightarrow> tbl')"

fun run_calls :: "store_call list \<Rightarrow> table \<Rightarrow> table" where
  "run_calls [] tbl = tbl"
| "run_calls (c # cs) tbl = run_calls cs (run_call c tbl)"

text \<open>Whether a call leaves a given job's status alone or sets a final one.\<close>

fun keeps_final :: "string \<Rightarrow> store_call \<Rightarrow> bool" where
  "keeps_final j (CreateJob job) = True"
| "keeps_final j (UpdateJobStatus t_updated t_completed jobId status updates) =
     (jobId \<noteq> j \<or> status = SUCCEEDED \<or> status = FAILED)"

text \<open>Whether a call creates, if it creates, a record in the state \<open>PENDING\<close>.\<close>

fun creates_pending :: "store_call \<Rightarrow> bool" where
  "creates_pending (CreateJob job) = (job ''status'' = Some (JStr ''PENDING''))"
| "creates_pending (UpdateJobStatus t_updated t_completed jobId status updates) = True"

text \<open>
  The invariant of the completion timestamp: a stored job carries \<open>completedAt\<close> exactly
  when its status is final.
\<close>

definition completedAt_iff_terminal :: "table \<Rightarrow> bool" where
  "completedAt_iff_terminal tbl =
     (\<forall>j it. tbl j = Some it \<longrightarrow> (it ''completedAt'' \<noteq> None \<longleftrightarrow> is_terminal (it ''status'')))"

text \<open>Updates all of whose values are strings, as those the handlers pass are.\<close>

definition string_valued :: "(string \<times> json option) list \<Rightarrow> bool" where
  "string_valued updates =
     list_all (\<lambda>(key, val). case val of None \<Rightarrow> True | Some (JStr s) \<Rightarrow> True | Some other \<Rightarrow> False)
       updates"

text \<open>An event with its authorizer replaced by the claims of an authenticated user.\<close>

definition as_user :: "string \<Rightarrow> APIGatewayProxyEvent \<Rightarrow> APIGatewayProxyEvent" where
  "as_user uid event =
     event\<lparr>requestContext := (requestContext event)\<lparr>authorizer := Some \<lparr>jwt = Some \<lparr>claims = Some
       \<lparr>claim_sub = Some uid, claim_cognito_username = None, claim_email = None,
        claim_preferred_username = None, claim_cognito_groups = None\<rparr>\<rparr>\<rparr>\<rparr>\<rparr>"

text \<open>The issues of a parse, none when it succeeded.\<close>

definition issues_of :: "'a parsed \<Rightarrow> ZodIssue list" where
  "issues_of r = (case r of Inl iss \<Rightarrow> iss | Inr a \<Rightarrow> [])"

section \<open>Sample requests\<close>

text \<open>
  Concrete inputs on which the handlers are run below: three request bodies with the JSON
  they denote, a worker response, an environment in which every outside call succeeds, and
  an event of an authenticated caller.
\<close>

definition async_body :: string where
  \<open>async_body = ''{"prompt":"a beautiful sunset over mountains","mode":"async","steps":20}''\<close>

definition async_json :: json where
  "async_json =
     JObj [(''prompt'', JStr ''a beautiful sunset over mountains''), (''mode'', JStr ''async''),
           (''steps'', JNum 20)]"

definition sync_body :: string where
  \<open>sync_body = ''{"prompt":"a cat","mode":"sync"}''\<close>

definition sync_json :: json where
  "sync_json = JObj [(''prompt'', JStr ''a cat''), (''mode'', JStr ''sync'')]"

definition bad_body :: string where
  \<open>bad_body = ''{"prompt":"a cat","steps":100,"width":500}''\<close>

definition bad_json :: json where
  "bad_json = JObj [(''prompt'', JStr ''a cat''), (''steps'', JNum 100), (''width'', JNum 500)]"

definition worker_text :: string where
  \<open>worker_text = ''{"generated_image":"aGVsbG8=","metadata":{"model_id":"sdxl"}}''\<close>

definition worker_json :: json where
  "worker_json =
     JObj [(''generated_image'', JStr ''aGVsbG8=''), (''metadata'', JObj [(''model_id'', JStr ''sdxl'')])]"

definition sample_parse :: "string \<Rightarrow> string + json" where
  "sample_parse text =
     (if text = async_body then Inr async_json
      else if text = sync_body then Inr sync_json
      else if text = bad_body then Inr bad_json
      else if text = worker_text then Inr worker_json
      else if text = ''{}'' then Inr (JObj [])
      else Inl ''Unexpected token'')"

definition sample_clock :: "nat \<Rightarrow> string" where
  "sample_clock n =
     (if n = 0 then ''2024-01-01T00:00:00.000Z''
      else if n = 1 then ''2024-01-01T00:00:01.000Z''
      else if n = 2 then ''2024-01-01T00:00:02.000Z''
      else ''2024-01-01T00:00:03.000Z'')"

definition sample_env :: env where
  "sample_env =
     \<lparr>JSON_parse = sample_parse,
      JSON_stringify = (\<lambda>v. ''json''),
      to_number = (\<lambda>v. None),
      new_id = ''01HKJOB1'',
      clock = sample_clock,
      epoch_seconds = 1704067200,
      random_seed = 42,
      s3_put = None,
      endpoint_async = Inr (Some ''s3://output/location''),
      endpoint_sync = Inr (Some worker_text),
      development = False,
      to_string = (\<lambda>v. ''value''),
      presign = (\<lambda>k. Inr ''https://images.example/signed''),
      elapsed_minutes = (\<lambda>c. Some 0),
      put_rejection = ''One or more parameter values are not valid''\<rparr>"

definition sample_event :: "string \<Rightarrow> string option \<Rightarrow> string option \<Rightarrow> APIGatewayProxyEvent" where
  "sample_event uid path_job text =
     \<lparr>httpMethod = (if path_job = None then ''POST'' else ''GET''),
      body = text,
      pathParameters = map_option (\<lambda>j. [(''id'', j)]) path_job,
      requestContext =
        \<lparr>requestId = ''test-request-id'',
         authorizer = Some \<lparr>jwt = Some \<lparr>claims = Some
           \<lparr>claim_sub = Some uid, claim_cognito_username = None, claim_email = None,
            claim_preferred_username = None, claim_cognito_groups = None\<rparr>\<rparr>\<rparr>\<rparr>\<rparr>"

text \<open>A status query by a member of the given groups, and events that carry no claims.\<close>

definition group_event :: "string \<Rightarrow> json \<Rightarrow> string \<Rightarrow> APIGatewayProxyEvent" where
  "group_event uid groups path_job =
     \<lparr>httpMethod = ''GET'', body = None, pathParameters = Some [(''id'', path_job)],
      requestContext =
        \<lparr>requestId = ''test-request-id'',
         authorizer = Some \<lparr>jwt = Some \<lparr>claims = Some
           \<lparr>claim_sub = Some uid, claim_cognito_username = None, claim_email = None,
            claim_preferred_username = None, claim_cognito_groups = Some groups\<rparr>\<rparr>\<rparr>\<rparr>\<rparr>"

definition anonymous_query :: "string \<Rightarrow> APIGatewayProxyEvent" where
  "anonymous_query path_job =
     \<lparr>httpMethod = ''GET'', body = None, pathParameters = Some [(''id'', path_job)],
      requestContext = \<lparr>requestId = ''test-request-id'', authorizer = None\<rparr>\<rparr>"

definition anonymous_event :: "string option \<Rightarrow> APIGatewayProxyEvent" where
  "anonymous_event text =
     \<lparr>httpMethod = ''POST'', body = text, pathParameters = None,
      requestContext = \<lparr>requestId = ''test-request-id'', authorizer = None\<rparr>\<rparr>"

definition empty_world :: world where
  "empty_world = \<lparr>jobs = Map.empty, staging = Map.empty\<rparr>"

text \<open>A world holding one running job of user \<open>u1\<close>.\<close>

definition stored_job :: item where
  "stored_job =
     map_of [(''jobId'', JStr ''01HKJOB1''), (''userId'', JStr ''u1''), (''status'', JStr ''RUNNING''),
             (''createdAt'', JStr ''2024-01-01T00:00:00.000Z''),
             (''updatedAt'', JStr ''2024-01-01T00:00:01.000Z'')]"

definition stored_world :: world where
  "stored_world = \<lparr>jobs = [''01HKJOB1'' \<mapsto> stored_job], staging = Map.empty\<rparr>"

text \<open>What the callback finds for an output without an image and with metadata.\<close>

definition sample_output :: callback_env where
  "sample_output =
     \<lparr>metadata_file = Some (JObj [(''model_id'', JStr ''sdxl'')]), image_found = False,
      copy_failure = None, cb_stringify = (\<lambda>v. ''json''),
      cb_rejection = ''One or more parameter values are not valid''\<rparr>"

text \<open>The request that the schema makes of \<open>async_json\<close>.\<close>

definition async_request :: SubmitJobRequest where
  "async_request =
     \<lparr>prompt = ''a beautiful sunset over mountains'', modelId = ''stable-diffusion-xl'', steps = 20,
      guidanceScale = 7.5, width = 1024, height = 1024, seed = None, quality = MEDIUM, mode = ASYNC,
      negativePrompt = None\<rparr>"

text \<open>
  Calls on that job: a success signal, the same signal delivered again later, an error
  signal, and the dispatcher's update to \<open>RUNNING\<close>.
\<close>

definition success_signal :: store_call where
  "success_signal =
     UpdateJobStatus ''2024-01-01T00:05:00.000Z'' ''2024-01-01T00:05:00.001Z'' ''01HKJOB1'' SUCCEEDED
       [(''imageUrl'', Some (JStr ''https://images.example/generated/01HKJOB1/1.png''))]"

definition success_signal_again :: store_call where
  "success_signal_again =
     UpdateJobStatus ''2024-01-01T00:06:00.000Z'' ''2024-01-01T00:06:00.001Z'' ''01HKJOB1'' SUCCEEDED
       [(''imageUrl'', Some (JStr ''https://images.example/generated/01HKJOB1/1.png''))]"

definition error_signal :: store_call where
  "error_signal =
     UpdateJobStatus ''2024-01-01T00:07:00.000Z'' ''2024-01-01T00:07:00.001Z'' ''01HKJOB1'' FAILED
       [(''error'', Some (JStr ''Inference failed''))]"

definition running_update :: store_call where
  "running_update =
     UpdateJobStatus ''2024-01-01T00:08:00.000Z'' ''2024-01-01T00:08:00.001Z'' ''01HKJOB1'' RUNNING []"

section \<open>The caller's identity\<close>

lemmas auth_defs = extractUserContext_def extractUserContext_try_def getUserId_def str_or_def

lemmas sample_defs = sample_env_def sample_event_def anonymous_event_def empty_world_def
  stored_world_def stored_job_def sample_parse_def sample_clock_def async_body_def async_json_def
  sync_body_def sync_json_def bad_body_def bad_json_def worker_text_def worker_json_def
  group_event_def anonymous_query_def

lemma valid_placeholder_names:
  shows "valid_placeholder ''status''" and "valid_placeholder ''updatedAt''"
    and "valid_placeholder ''completedAt''" and "valid_placeholder ''error''"
    and "valid_placeholder ''metadata''" and "valid_placeholder ''imageUrl''"
  by (simp_all add: valid_placeholder_def is_word_char_def)

lemma put_accepted_js_job_item:
  "put_accepted (js_job_item j u t params md secs) \<longleftrightarrow> j \<noteq> [] \<and> u \<noteq> [] \<and> t \<noteq> []"
  by (simp add: put_accepted_def index_keys_ok_def index_key_ok_def js_job_item_def)

lemma put_accepted_new_job_item:
  "put_accepted (new_job_item j u t request secs) \<longleftrightarrow> j \<noteq> [] \<and> u \<noteq> [] \<and> t \<noteq> []"
  by (simp add: put_accepted_def index_keys_ok_def index_key_ok_def new_job_item_def)

lemmas js_submit_defs = submit_job_js_handler_def submit_job_js_try_def validateInput_def js_gt_def
  js_rem_def trim_def is_space_def inferenceParams_def or_default_def put_accepted_def
  index_keys_ok_def index_key_ok_def js_job_item_def inputData_def params_json_def js_response_def
  js_headers_def Let_def job_attr_def

lemma getUserId_nonempty: "getUserId event \<noteq> []"
  by (simp add: getUserId_def str_or_def split: option.splits)

lemma getUserId_as_user: "uid \<noteq> [] \<Longrightarrow> getUserId (as_user uid event) = uid"
  by (simp add: getUserId_def str_or_def as_user_def)

lemma js_get_identity:
  "pathParameters event' = pathParameters event \<Longrightarrow> getUserId event' = getUserId event \<Longrightarrow>
   get_job_js_handler e event' w = get_job_js_handler e event w"
  by (simp add: get_job_js_handler_def path_id_def cong: option.case_cong if_cong)

text \<open>
  The deployed submit handler either answers before it stores anything, with an answer
  made from the body alone, or it has a validated body with a string as its prompt. After
  validation its answer is made of the job id, the mode and the outcomes of the outside
  calls; the caller's identity goes into the stored record only.
\<close>

lemma js_submit_cases:
  obtains (early) r where "\<And>ev. body ev = body event \<Longrightarrow> submit_job_js_try e ev w = (r, w)"
  | (stored) bdy p where
      "JSON_parse e (case body event of None \<Rightarrow> ''{}'' | Some text \<Rightarrow> if text = [] then ''{}'' else text)
         = Inr bdy"
      and "validateInput (to_number e) bdy = Inr []"
      and "js_get bdy ''prompt'' = Some (JStr p)"
proof (cases "JSON_parse e (case body event of None \<Rightarrow> ''{}'' | Some text \<Rightarrow> if text = [] then ''{}'' else text)")
  case (Inl m)
  then show ?thesis
    by (intro early) (simp add: submit_job_js_try_def)
next
  case (Inr bdy)
  note parsed = this
  show ?thesis
  proof (cases "validateInput (to_number e) bdy")
    case (Inl err)
    with parsed show ?thesis
      by (intro early) (simp add: submit_job_js_try_def)
  next
    case (Inr validationErrors)
    show ?thesis
    proof (cases "validationErrors = []")
      case False
      with parsed Inr show ?thesis
        by (intro early) (simp add: submit_job_js_try_def)
    next
      case True
      show ?thesis
      proof (cases "\<exists>p. js_get bdy ''prompt'' = Some (JStr p)")
        case True
        then obtain p where "js_get bdy ''prompt'' = Some (JStr p)" ..
        with parsed Inr \<open>validationErrors = []\<close> show ?thesis
          by (intro stored) simp_all
      next
        case False
        with parsed Inr \<open>validationErrors = []\<close> show ?thesis
          by (intro early [of "Inl (Error ''body.prompt.trim is not a function'')"])
             (simp add: submit_job_js_try_def split: option.splits json.splits)
      qed
    qed
  qed
qed

lemma js_submit_answer:
  assumes "body event' = body event"
  shows "fst (submit_job_js_handler e event' w) = fst (submit_job_js_handler e event w)"
proof (cases rule: js_submit_cases [of event e w])
  case (early r)
  from early [of event] early [of event'] assms show ?thesis
    by (simp add: submit_job_js_handler_def)
next
  case (stored bdy p)
  with assms show ?thesis
    by (simp add: submit_job_js_handler_def submit_job_js_try_def Let_def put_accepted_js_job_item
          getUserId_nonempty split: sum.splits option.splits)
qed

lemma js_submit_owner:
  assumes "jobs (snd (submit_job_js_handler e event w)) k = Some it" and "jobs w k \<noteq> Some it"
  shows "it ''userId'' = Some (JStr (getUserId event))"
proof (cases rule: js_submit_cases [of event e w])
  case (early r)
  from early [of event] assms show ?thesis
    by (simp add: submit_job_js_handler_def split: sum.splits)
next
  case (stored bdy p)
  with assms show ?thesis
    by (auto simp add: submit_job_js_handler_def submit_job_js_try_def Let_def js_job_item_def
          split: sum.splits option.splits if_splits)
qed

lemma js_submit_identity:
  assumes "body event' = body event" and "getUserId event' = getUserId event"
  shows "submit_job_js_handler e event' w = submit_job_js_handler e event w"
proof (cases rule: js_submit_cases [of event e w])
  case (early r)
  from early [of event] early [of event'] assms show ?thesis
    by (simp add: submit_job_js_handler_def)
next
  case (stored bdy p)
  with assms show ?thesis
    by (simp add: submit_job_js_handler_def submit_job_js_try_def)
qed

lemma no_context_anonymous:
  assumes "\<nexists>ctx. extractUserContext event = Inr ctx"
  shows "extractUserContext event = Inl (UnauthorizedError ''Invalid authentication'')"
    and "getUserId event = ''anonymous''"
proof -
  from assms show "extractUserContext event = Inl (UnauthorizedError ''Invalid authentication'')"
    by (simp add: extractUserContext_def split: sum.splits)
  from assms show "getUserId event = ''anonymous''"
    by (auto simp add: auth_defs split: option.splits if_splits)
qed

lemma context_iff_claims:
  "(\<exists>ctx. extractUserContext event = Inr ctx) \<longleftrightarrow>
     (\<exists>a j c u. authorizer (requestContext event) = Some a \<and> jwt a = Some j \<and> claims j = Some c
        \<and> u \<noteq> [] \<and> (claim_sub c = Some u \<or> claim_cognito_username c = Some u))"
proof (cases "authorizer (requestContext event)")
  case None
  then show ?thesis by (simp add: auth_defs)
next
  case (Some a)
  note A = this
  show ?thesis
  proof (cases "jwt a")
    case None
    with A show ?thesis by (simp add: auth_defs)
  next
    case (Some j)
    note J = this
    show ?thesis
    proof (cases "claims j")
      case None
      with A J show ?thesis by (simp add: auth_defs)
    next
      case (Some c)
      with A J show ?thesis
        by (cases "claim_sub c"; cases "claim_cognito_username c")
           (auto simp add: auth_defs split: option.splits if_splits)
    qed
  qed
qed

lemma context_user_id:
  "extractUserContext event = Inr ctx \<Longrightarrow> getUserId event = userId ctx"
  by (auto simp add: auth_defs split: option.splits if_splits sum.splits)

text \<open>
  Claim C10. \<open>extractUserContext\<close> returns a user context exactly when the event carries
  JWT claims with a non-empty \<open>sub\<close> or \<open>cognito:username\<close>; in every other case it throws
  the \<open>UnauthorizedError\<close> that \<open>errorResponse\<close> turns into status 403: the submit handler
  of submit-job.ts answers with that response and leaves the stores untouched, and the
  status query of get-job.ts answers 403 once it has a job id. \<open>getUserId\<close> of the deployed
  handlers never throws: it returns the same id where there is one and \<open>anonymous\<close> where
  there is none, and the deployed handlers then process the request as that of a caller
  authenticated as \<open>anonymous\<close>: they return what they return for such a caller, and
  every record the submit handler stores is owned by \<open>anonymous\<close>. The answer of the
  deployed submit handler does not depend on the caller at all. (A claim that is the empty
  string is falsy in JavaScript and counts as no user id.)
\<close>

theorem user_identity:
  "((\<exists>ctx. extractUserContext event = Inr ctx) \<longleftrightarrow>
      (\<exists>a j c u. authorizer (requestContext event) = Some a \<and> jwt a = Some j \<and> claims j = Some c
         \<and> u \<noteq> [] \<and> (claim_sub c = Some u \<or> claim_cognito_username c = Some u)))
   \<and> (\<forall>ctx. extractUserContext event = Inr ctx \<longrightarrow> getUserId event = userId ctx)
   \<and> ((\<nexists>ctx. extractUserContext event = Inr ctx) \<longrightarrow>
        extractUserContext event = Inl (UnauthorizedError ''Invalid authentication'')
        \<and> statusCode (errorResponse (development e) (UnauthorizedError ''Invalid authentication'')) = 403
        \<and> (httpMethod event \<noteq> ''OPTIONS'' \<longrightarrow>
             submit_job_handler e event w
               = (errorResponse (development e) (UnauthorizedError ''Invalid authentication''), w))
        \<and> (\<forall>jobId. httpMethod event \<noteq> ''OPTIONS'' \<and> path_id event = Some jobId \<and> jobId \<noteq> [] \<longrightarrow>
             get_job_handler e event w
               = errorResponse (development e) (UnauthorizedError ''Invalid authentication''))
        \<and> getUserId event = ''anonymous''
        \<and> submit_job_js_handler e event w = submit_job_js_handler e (as_user ''anonymous'' event) w
        \<and> get_job_js_handler e event w = get_job_js_handler e (as_user ''anonymous'' event) w
        \<and> (\<forall>k it. jobs (snd (submit_job_js_handler e event w)) k = Some it \<and> jobs w k \<noteq> Some it
              \<longrightarrow> it ''userId'' = Some (JStr ''anonymous'')))
   \<and> (\<forall>event'. body event' = body event \<longrightarrow>
         fst (submit_job_js_handler e event' w) = fst (submit_job_js_handler e event w))"
proof (intro conjI allI impI)
  show "(\<exists>ctx. extractUserContext event = Inr ctx) \<longleftrightarrow>
      (\<exists>a j c u. authorizer (requestContext event) = Some a \<and> jwt a = Some j \<and> claims j = Some c
         \<and> u \<noteq> [] \<and> (claim_sub c = Some u \<or> claim_cognito_username c = Some u))"
    by (rule context_iff_claims)
next
  fix ctx assume "extractUserContext event = Inr ctx"
  then show "getUserId event = userId ctx" by (rule context_user_id)
next
  assume n: "\<nexists>ctx. extractUserContext event = Inr ctx"
  note anon = no_context_anonymous [OF n]
  show "extractUserContext event = Inl (UnauthorizedError ''Invalid authentication'')"
    by (rule anon(1))
  show "statusCode (errorResponse (development e) (UnauthorizedError ''Invalid authentication'')) = 403"
    by simp
  show "getUserId event = ''anonymous''"
    by (rule anon(2))
  have u: "getUserId (as_user ''anonymous'' event) = getUserId event"
    by (simp add: anon(2) getUserId_as_user)
  show "submit_job_js_handler e event w = submit_job_js_handler e (as_user ''anonymous'' event) w"
    by (rule js_submit_identity [symmetric]) (simp_all add: u, simp add: as_user_def)
  show "get_job_js_handler e event w = get_job_js_handler e (as_user ''anonymous'' event) w"
    by (rule js_get_identity [symmetric]) (simp_all add: u, simp add: as_user_def)
  {
    assume "httpMethod event \<noteq> ''OPTIONS''"
    with anon(1) show "submit_job_handler e event w
               = (errorResponse (development e) (UnauthorizedError ''Invalid authentication''), w)"
      by (simp add: submit_job_handler_def submit_job_try_def)
  }
  {
    fix jobId
    assume "httpMethod event \<noteq> ''OPTIONS'' \<and> path_id event = Some jobId \<and> jobId \<noteq> []"
    with anon(1) show "get_job_handler e event w
               = errorResponse (development e) (UnauthorizedError ''Invalid authentication'')"
      by (simp add: get_job_handler_def get_job_try_def)
  }
  {
    fix k it
    assume "jobs (snd (submit_job_js_handler e event w)) k = Some it \<and> jobs w k \<noteq> Some it"
    then show "it ''userId'' = Some (JStr ''anonymous'')"
      using js_submit_owner [of e event w k it] by (simp add: anon(2))
  }
next
  fix event' :: APIGatewayProxyEvent
  assume "body event' = body event"
  then show "fst (submit_job_js_handler e event' w) = fst (submit_job_js_handler e event w)"
    by (rule js_submit_answer)
qed

theorem user_identity_witness:
  "extractUserContext (anonymous_event (Some async_body)) = Inl (UnauthorizedError ''Invalid authentication'')
   \<and> statusCode (fst (submit_job_handler sample_env (anonymous_event (Some async_body)) empty_world)) = 403
   \<and> snd (submit_job_handler sample_env (anonymous_event (Some async_body)) empty_world) = empty_world
   \<and> getUserId (anonymous_event (Some async_body)) = ''anonymous''
   \<and> statusCode (fst (submit_job_js_handler sample_env (anonymous_event (Some async_body)) empty_world)) = 202
   \<and> job_attr (jobs (snd (submit_job_js_handler sample_env (anonymous_event (Some async_body)) empty_world)))
        ''01HKJOB1'' ''userId'' = Some (JStr ''anonymous'')
   \<and> statusCode (fst (submit_job_js_handler sample_env (sample_event ''u1'' None (Some async_body)) empty_world))
        = 202
   \<and> statusCode (get_job_js_handler sample_env (anonymous_query ''01HKJOB1'')
        (snd (submit_job_js_handler sample_env (anonymous_event (Some async_body)) empty_world))) = 200
   \<and> statusCode (get_job_handler sample_env (anonymous_query ''01HKJOB1'')
        (snd (submit_job_js_handler sample_env (anonymous_event (Some async_body)) empty_world))) = 403
   \<and> getUserId (sample_event ''u1'' None None) = ''u1''"
proof -
  have n: "\<nexists>ctx. extractUserContext (anonymous_event (Some async_body)) = Inr ctx"
    and q: "\<nexists>ctx. extractUserContext (anonymous_query ''01HKJOB1'') = Inr ctx"
    by (simp_all add: anonymous_event_def anonymous_query_def auth_defs)
  have m: "httpMethod (anonymous_event (Some async_body)) \<noteq> ''OPTIONS''"
    by (simp add: anonymous_event_def)
  note a = user_identity [of "anonymous_event (Some async_body)" sample_env empty_world,
      THEN conjunct2, THEN conjunct2, THEN conjunct1, THEN mp, OF n]
  note b = user_identity [of "anonymous_event (Some async_body)" sample_env empty_world,
      THEN conjunct2, THEN conjunct2, THEN conjunct2, THEN spec,
      of "sample_event ''u1'' None (Some async_body)", THEN mp]
  note c = user_identity [of "anonymous_query ''01HKJOB1''" sample_env
      "snd (submit_job_js_handler sample_env (anonymous_event (Some async_body)) empty_world)",
      THEN conjunct2, THEN conjunct2, THEN conjunct1, THEN mp, OF q]
  note d = user_identity [of "sample_event ''u1'' None None" sample_env empty_world,
      THEN conjunct2, THEN conjunct1]
  have 1: "extractUserContext (anonymous_event (Some async_body))
             = Inl (UnauthorizedError ''Invalid authentication'')"
    using a by simp
  have 2: "submit_job_handler sample_env (anonymous_event (Some async_body)) empty_world
             = (errorResponse (development sample_env) (UnauthorizedError ''Invalid authentication''),
                empty_world)"
    using a m by simp
  have 3: "getUserId (anonymous_event (Some async_body)) = ''anonymous''"
    using a by simp
  have 4: "statusCode (fst (submit_job_js_handler sample_env (anonymous_event (Some async_body))
             empty_world)) = 202"
    by (simp add: js_submit_defs sample_defs auth_defs)
  have s: "jobs (snd (submit_job_js_handler sample_env (anonymous_event (Some async_body)) empty_world))
             ''01HKJOB1''
           = Some (js_job_item ''01HKJOB1'' (getUserId (anonymous_event (Some async_body)))
               ''2024-01-01T00:00:00.000Z''
               (inferenceParams sample_env async_json ''a beautiful sunset over mountains'')
               (JStr ''async'') 1704067200)"
    by (simp add: submit_job_js_handler_def submit_job_js_try_def validateInput_def js_gt_def
          js_rem_def trim_def is_space_def or_default_def put_accepted_js_job_item Let_def
          getUserId_nonempty sample_env_def sample_parse_def async_body_def async_json_def
          anonymous_event_def empty_world_def sample_clock_def)
  have "jobs empty_world ''01HKJOB1''
          \<noteq> Some (js_job_item ''01HKJOB1'' (getUserId (anonymous_event (Some async_body)))
               ''2024-01-01T00:00:00.000Z''
               (inferenceParams sample_env async_json ''a beautiful sunset over mountains'')
               (JStr ''async'') 1704067200)"
    by (simp add: empty_world_def)
  with s a have "js_job_item ''01HKJOB1'' (getUserId (anonymous_event (Some async_body)))
               ''2024-01-01T00:00:00.000Z''
               (inferenceParams sample_env async_json ''a beautiful sunset over mountains'')
               (JStr ''async'') 1704067200 ''userId'' = Some (JStr ''anonymous'')"
    by blast
  with s have 5: "job_attr (jobs (snd (submit_job_js_handler sample_env (anonymous_event (Some async_body))
             empty_world))) ''01HKJOB1'' ''userId'' = Some (JStr ''anonymous'')"
    by (simp add: job_attr_def)
  have "body (sample_event ''u1'' None (Some async_body)) = body (anonymous_event (Some async_body))"
    by (simp add: sample_event_def anonymous_event_def)
  from b [OF this] 4
  have 6: "statusCode (fst (submit_job_js_handler sample_env (sample_event ''u1'' None (Some async_body))
             empty_world)) = 202"
    by simp
  have o: "job_attr (jobs (snd (submit_job_js_handler sample_env (anonymous_event (Some async_body))
             empty_world))) ''01HKJOB1'' ''userId'' = Some (JStr (getUserId (anonymous_query ''01HKJOB1'')))"
    using 5 c by simp
  have 7: "statusCode (get_job_js_handler sample_env (anonymous_query ''01HKJOB1'')
        (snd (submit_job_js_handler sample_env (anonymous_event (Some async_body)) empty_world))) = 200"
    using o s
    by (simp add: get_job_js_handler_def path_id_def anonymous_query_def js_response_def job_attr_def)
  have "httpMethod (anonymous_query ''01HKJOB1'') \<noteq> ''OPTIONS''
        \<and> path_id (anonymous_query ''01HKJOB1'') = Some ''01HKJOB1'' \<and> ''01HKJOB1'' \<noteq> []"
    by (simp add: anonymous_query_def path_id_def)
  with c have 8: "statusCode (get_job_handler sample_env (anonymous_query ''01HKJOB1'')
        (snd (submit_job_js_handler sample_env (anonymous_event (Some async_body)) empty_world))) = 403"
    by simp
  have "extractUserContext (sample_event ''u1'' None None)
          = Inr \<lparr>userId = ''u1'', email = None, username = None, isAdmin = False\<rparr>"
    by (simp add: sample_event_def auth_defs js_or_def)
  with d have 9: "getUserId (sample_event ''u1'' None None) = ''u1''"
    by simp
  from 1 2 3 4 5 6 7 8 9 show ?thesis by simp
qed


section \<open>Authorization of the status query\<close>

lemmas get_defs = get_job_handler_def get_job_try_def getJob_def validateResourceAccess_def
  successResponse_def get_job_js_handler_def js_response_def

lemma isAdmin_iff_groups:
  assumes "extractUserContext event = Inr ctx"
  shows "isAdmin ctx \<longleftrightarrow>
           (\<exists>a j c gs. authorizer (requestContext event) = Some a \<and> jwt a = Some j \<and> claims j = Some c
              \<and> claim_cognito_groups c = Some (JArr gs) \<and> JStr ''admin'' \<in> set gs)"
proof -
  from assms obtain a j c where a: "authorizer (requestContext event) = Some a" "jwt a = Some j"
    "claims j = Some c"
    by (auto simp add: auth_defs split: option.splits sum.splits)
  show ?thesis
  proof (cases "claim_cognito_groups c")
    case None
    with assms a show ?thesis
      by (auto simp add: auth_defs js_or_def split: option.splits if_splits)
  next
    case (Some g)
    with assms a show ?thesis
      by (cases g) (auto simp add: auth_defs js_or_def split: option.splits if_splits)
  qed
qed

lemma group_event_facts:
  shows "path_id (group_event uid groups j) = Some j"
    and "httpMethod (group_event uid groups j) \<noteq> ''OPTIONS''"
    and "uid \<noteq> [] \<Longrightarrow> extractUserContext (group_event uid (JArr gs) j)
           = Inr \<lparr>userId = uid, email = None, username = None, isAdmin = (JStr ''admin'' \<in> set gs)\<rparr>"
    and "uid \<noteq> [] \<Longrightarrow> getUserId (group_event uid groups j) = uid"
  by (simp_all add: group_event_def path_id_def auth_defs js_or_def)

lemma get_status:
  "path_id event = Some jobId \<Longrightarrow> jobId \<noteq> [] \<Longrightarrow> jobs w jobId = Some job \<Longrightarrow>
   (httpMethod event \<noteq> ''OPTIONS'' \<longrightarrow>
      (\<forall>ctx. extractUserContext event = Inr ctx \<longrightarrow>
         statusCode (get_job_handler e event w)
           = (if isAdmin ctx \<or> job ''userId'' = Some (JStr (userId ctx)) then 200 else 403))
      \<and> ((\<nexists>ctx. extractUserContext event = Inr ctx) \<longrightarrow> statusCode (get_job_handler e event w) = 403))
   \<and> statusCode (get_job_js_handler e event w)
       = (if job ''userId'' = Some (JStr (getUserId event)) \<or> getUserId event = ''admin'' then 200 else 403)"
proof (cases "extractUserContext event")
  case (Inl err)
  assume "path_id event = Some jobId" "jobId \<noteq> []" "jobs w jobId = Some job"
  with Inl show ?thesis
    by (cases err) (auto simp add: get_defs extractUserContext_def split: sum.splits)
next
  case (Inr ctx)
  assume "path_id event = Some jobId" "jobId \<noteq> []" "jobs w jobId = Some job"
  with Inr show ?thesis
    by (auto simp add: get_defs)
qed

text \<open>
  Claim C6. A status query for an existing job is to succeed exactly for the job's owner
  and for a requester who holds the admin role, and to answer 403 otherwise. The handler
  of get-job.ts does so, the role being membership of the group \<open>admin\<close> in
  \<open>cognito:groups\<close>. The deployed get-job.js reads no role: it lets the owner through and
  the requester whose user id is the string \<open>admin\<close>. On the job of user \<open>u1\<close> a member
  of the admin group is answered 200 by get-job.ts and 403 by get-job.js, and a requester
  without the role whose user id is \<open>admin\<close> is answered 403 by get-job.ts and 200 by
  get-job.js.
\<close>

theorem js_get_ignores_admin_role:
  "job_attr (jobs stored_world) ''01HKJOB1'' ''userId'' = Some (JStr ''u1'')
   \<and> statusCode (get_job_handler sample_env (group_event ''u2'' (JArr [JStr ''admin'']) ''01HKJOB1'')
        stored_world) = 200
   \<and> statusCode (get_job_js_handler sample_env (group_event ''u2'' (JArr [JStr ''admin'']) ''01HKJOB1'')
        stored_world) = 403
   \<and> statusCode (get_job_handler sample_env (group_event ''admin'' (JArr []) ''01HKJOB1'')
        stored_world) = 403
   \<and> statusCode (get_job_js_handler sample_env (group_event ''admin'' (JArr []) ''01HKJOB1'')
        stored_world) = 200"
  by (simp add: get_defs group_event_def stored_world_def stored_job_def path_id_def auth_defs
        js_or_def job_attr_def)

text \<open>
  What each of the two handlers does for every query with a job id of an existing job. In
  get-job.ts the query is answered 200 when the requester is an admin, which is to say
  that the \<open>cognito:groups\<close> claim is an array that contains \<open>admin\<close>, or is the owner of
  the job, and 403 otherwise, also when the requester has no user id. In get-job.js it is
  answered 200 when the requester's user id, \<open>anonymous\<close> where there is none, is the
  owner's or is \<open>admin\<close>, and 403 otherwise. Neither answers 404 for an existing job.
\<close>

theorem get_authorization:
  "path_id event = Some jobId \<Longrightarrow> jobId \<noteq> [] \<Longrightarrow> jobs w jobId = Some job \<Longrightarrow>
   (httpMethod event \<noteq> ''OPTIONS'' \<longrightarrow>
      (\<forall>ctx. extractUserContext event = Inr ctx \<longrightarrow>
         statusCode (get_job_handler e event w)
           = (if isAdmin ctx \<or> job ''userId'' = Some (JStr (userId ctx)) then 200 else 403)
         \<and> (isAdmin ctx \<longleftrightarrow>
              (\<exists>a j c gs. authorizer (requestContext event) = Some a \<and> jwt a = Some j
                 \<and> claims j = Some c \<and> claim_cognito_groups c = Some (JArr gs)
                 \<and> JStr ''admin'' \<in> set gs)))
      \<and> ((\<nexists>ctx. extractUserContext event = Inr ctx) \<longrightarrow> statusCode (get_job_handler e event w) = 403))
   \<and> statusCode (get_job_js_handler e event w)
       = (if job ''userId'' = Some (JStr (getUserId event)) \<or> getUserId event = ''admin'' then 200 else 403)"
proof -
  assume p: "path_id event = Some jobId" "jobId \<noteq> []" "jobs w jobId = Some job"
  note status = get_status [OF p, of e]
  show ?thesis
  proof (intro conjI impI allI)
    fix ctx
    assume m: "httpMethod event \<noteq> ''OPTIONS''" and c: "extractUserContext event = Inr ctx"
    from status [THEN conjunct1, THEN mp, OF m, THEN conjunct1, THEN spec, THEN mp, OF c]
    show "statusCode (get_job_handler e event w)
           = (if isAdmin ctx \<or> job ''userId'' = Some (JStr (userId ctx)) then 200 else 403)" .
    from isAdmin_iff_groups [OF c]
    show "isAdmin ctx \<longleftrightarrow>
              (\<exists>a j c gs. authorizer (requestContext event) = Some a \<and> jwt a = Some j
                 \<and> claims j = Some c \<and> claim_cognito_groups c = Some (JArr gs)
                 \<and> JStr ''admin'' \<in> set gs)" .
  next
    assume m: "httpMethod event \<noteq> ''OPTIONS''" and n: "\<nexists>ctx. extractUserContext event = Inr ctx"
    from status [THEN conjunct1, THEN mp, OF m, THEN conjunct2, THEN mp, OF n]
    show "statusCode (get_job_handler e event w) = 403" .
  next
    from status [THEN conjunct2]
    show "statusCode (get_job_js_handler e event w)
       = (if job ''userId'' = Some (JStr (getUserId event)) \<or> getUserId event = ''admin'' then 200 else 403)" .
  qed
qed

theorem get_authorization_witness:
  "statusCode (get_job_handler sample_env (group_event ''u2'' (JArr []) ''01HKJOB1'') stored_world) = 403
   \<and> statusCode (get_job_js_handler sample_env (group_event ''u2'' (JArr []) ''01HKJOB1'') stored_world) = 403
   \<and> statusCode (get_job_handler sample_env (group_event ''u1'' (JArr []) ''01HKJOB1'') stored_world) = 200
   \<and> statusCode (get_job_js_handler sample_env (group_event ''u1'' (JArr []) ''01HKJOB1'') stored_world) = 200
   \<and> statusCode (get_job_handler sample_env (group_event ''u2'' (JArr [JStr ''users'', JStr ''admin''])
        ''01HKJOB1'') stored_world) = 200"
proof -
  have s: "''01HKJOB1'' \<noteq> []" "jobs stored_world ''01HKJOB1'' = Some stored_job"
    by (simp_all add: stored_world_def)
  have o: "stored_job ''userId'' = Some (JStr ''u1'')"
    by (simp add: stored_job_def)
  have n: "''u1'' \<noteq> []" "''u2'' \<noteq> []"
    by simp_all
  note other = get_authorization [where event = "group_event ''u2'' (JArr []) ''01HKJOB1''"
      and e = sample_env, OF group_event_facts(1) s]
  note owner = get_authorization [where event = "group_event ''u1'' (JArr []) ''01HKJOB1''"
      and e = sample_env, OF group_event_facts(1) s]
  note admin = get_authorization [where event = "group_event ''u2'' (JArr [JStr ''users'', JStr ''admin''])
      ''01HKJOB1''" and e = sample_env, OF group_event_facts(1) s]
  from other [THEN conjunct1, THEN mp, OF group_event_facts(2), THEN conjunct1, THEN spec, THEN mp,
      OF group_event_facts(3) [OF n(2)], THEN conjunct1]
  have 1: "statusCode (get_job_handler sample_env (group_event ''u2'' (JArr []) ''01HKJOB1'')
             stored_world) = 403"
    by (simp add: o)
  from other [THEN conjunct2]
  have 2: "statusCode (get_job_js_handler sample_env (group_event ''u2'' (JArr []) ''01HKJOB1'')
             stored_world) = 403"
    by (simp add: o group_event_facts(4) [OF n(2)])
  from owner [THEN conjunct1, THEN mp, OF group_event_facts(2), THEN conjunct1, THEN spec, THEN mp,
      OF group_event_facts(3) [OF n(1)], THEN conjunct1]
  have 3: "statusCode (get_job_handler sample_env (group_event ''u1'' (JArr []) ''01HKJOB1'')
             stored_world) = 200"
    by (simp add: o)
  from owner [THEN conjunct2]
  have 4: "statusCode (get_job_js_handler sample_env (group_event ''u1'' (JArr []) ''01HKJOB1'')
             stored_world) = 200"
    by (simp add: o group_event_facts(4) [OF n(1)])
  from admin [THEN conjunct1, THEN mp, OF group_event_facts(2), THEN conjunct1, THEN spec, THEN mp,
      OF group_event_facts(3) [OF n(2)], THEN conjunct1]
  have 5: "statusCode (get_job_handler sample_env (group_event ''u2'' (JArr [JStr ''users'', JStr ''admin''])
             ''01HKJOB1'') stored_world) = 200"
    by simp
  from 1 2 3 4 5 show ?thesis by (intro conjI)
qed


section \<open>Writes to a stored job\<close>

lemma assignment_keys:
  "map fst (update_assignments tu tc st ups) = map fst (update_assignments tu' tc' st ups)"
  by (simp add: update_assignments_def)

lemma assignment_status:
  "map_of (update_assignments tu tc st ups) ''status'' = Some (JStr (status_str st))"
  by (simp add: update_assignments_def)

lemma assignment_completedAt:
  "st = SUCCEEDED \<or> st = FAILED \<Longrightarrow>
   map_of (update_assignments tu tc st ups) ''completedAt'' = Some (JStr tc)"
  by (auto simp add: update_assignments_def)

lemma assignment_other:
  "k \<noteq> ''updatedAt'' \<Longrightarrow> k \<noteq> ''completedAt'' \<Longrightarrow>
   map_of (update_assignments tu tc st ups) k = map_of (update_assignments tu' tc' st ups) k"
  by (simp add: update_assignments_def)

text \<open>Whether the table accepts an update does not depend on the readings of the clock.\<close>

lemma accepted_any_time:
  "update_accepted j (update_assignments tu tc st ups)
     \<longleftrightarrow> update_accepted j (update_assignments tu' tc' st ups)"
proof -
  have "index_keys_ok (map_of (update_assignments tu tc st ups))
          \<longleftrightarrow> index_keys_ok (map_of (update_assignments tu' tc' st ups))"
    using assignment_other [of "''userId''" tu tc st ups tu' tc']
          assignment_other [of "''createdAt''" tu tc st ups tu' tc']
          assignment_other [of "''status''" tu tc st ups tu' tc']
    by (simp add: index_keys_ok_def)
  then show ?thesis
    using assignment_keys [of tu tc st ups tu' tc'] by (simp add: update_accepted_def)
qed

lemma updateJobStatus_Inr:
  "updateJobStatus tu tc j st ups tbl = Inr tbl' \<longleftrightarrow>
     update_accepted j (update_assignments tu tc st ups)
     \<and> (\<exists>it. tbl j = Some it \<and> tbl' = tbl(j \<mapsto> it ++ map_of (update_assignments tu tc st ups)))"
  by (auto simp add: updateJobStatus_def Let_def split: option.splits)

lemma createJob_Inr:
  "createJob job tbl = Inr tbl' \<longleftrightarrow>
     put_accepted job \<and> (\<exists>k. job ''jobId'' = Some (JStr k) \<and> tbl k = None \<and> tbl' = tbl(k \<mapsto> job))"
  by (auto simp add: createJob_def split: option.splits json.splits)

lemmas table_defs = update_accepted_def put_accepted_def index_keys_ok_def index_key_ok_def
  valid_placeholder_def is_word_char_def

lemmas call_defs = success_signal_def success_signal_again_def error_signal_def running_update_def
  stored_world_def stored_job_def updateJobStatus_def update_assignments_def createJob_def job_attr_def
  map_add_def table_defs

text \<open>
  Claim C1, as amended. \<open>updateJobStatus\<close> is a conditional update keyed on the existence
  of the record only, never on its state. A call whose request the table rejects (the job
  id is empty; an update key is not made of letters, digits and underscores; one
  attribute is set twice, as \<open>completedAt\<close> is by an update that names it together with a
  final status; \<open>userId\<close> or \<open>createdAt\<close> is set to something other than a non-empty
  string) fails with \<open>InternalError\<close>, whatever the table holds. A call whose request the
  table accepts and whose update values are strings fails with \<open>NotFoundError\<close> on an
  unknown id, and on an existing job is applied whatever the job's current status, and sets
  the status it was given. Delivering the same update again leaves the table as it is when
  the clock readings are the same, and with later readings changes nothing of the job but
  \<open>updatedAt\<close> and \<open>completedAt\<close>: the status and every other attribute, the result
  reference among them, are those of the first delivery. No other job is touched.
\<close>

theorem update_keyed_on_existence:
  "(\<not> update_accepted jobId (update_assignments tu tc st ups) \<longrightarrow>
      updateJobStatus tu tc jobId st ups tbl = Inl (InternalError ''Failed to update job status''))
   \<and> (update_accepted jobId (update_assignments tu tc st ups) \<and> string_valued ups \<longrightarrow>
        (tbl jobId = None \<longrightarrow>
           updateJobStatus tu tc jobId st ups tbl = Inl (NotFoundError (''Job '' @ jobId @ '' not found'')))
        \<and> (tbl jobId \<noteq> None \<longrightarrow>
             (\<exists>tbl1 tbl2.
                updateJobStatus tu tc jobId st ups tbl = Inr tbl1
                \<and> job_attr tbl1 jobId ''status'' = Some (JStr (status_str st))
                \<and> updateJobStatus tu tc jobId st ups tbl1 = Inr tbl1
                \<and> updateJobStatus tu' tc' jobId st ups tbl1 = Inr tbl2
                \<and> (\<forall>k. k \<noteq> ''updatedAt'' \<and> k \<noteq> ''completedAt'' \<longrightarrow>
                       job_attr tbl2 jobId k = job_attr tbl1 jobId k)
                \<and> (\<forall>j. j \<noteq> jobId \<longrightarrow> tbl2 j = tbl1 j \<and> tbl1 j = tbl j))))"
proof (intro conjI impI)
  assume "\<not> update_accepted jobId (update_assignments tu tc st ups)"
  then show "updateJobStatus tu tc jobId st ups tbl = Inl (InternalError ''Failed to update job status'')"
    by (simp add: updateJobStatus_def)
next
  assume "update_accepted jobId (update_assignments tu tc st ups) \<and> string_valued ups"
    and "tbl jobId = None"
  then show "updateJobStatus tu tc jobId st ups tbl = Inl (NotFoundError (''Job '' @ jobId @ '' not found''))"
    by (simp add: updateJobStatus_def)
next
  assume "update_accepted jobId (update_assignments tu tc st ups) \<and> string_valued ups"
    and "tbl jobId \<noteq> None"
  then have d: "update_accepted jobId (update_assignments tu tc st ups)"
    and d': "update_accepted jobId (update_assignments tu' tc' st ups)"
    using accepted_any_time [of jobId tu tc st ups tu' tc'] by simp_all
  from \<open>tbl jobId \<noteq> None\<close> obtain it where Some: "tbl jobId = Some it"
    by (cases "tbl jobId") simp_all
  define a where "a = map_of (update_assignments tu tc st ups)"
  define a' where "a' = map_of (update_assignments tu' tc' st ups)"
  define tbl1 where "tbl1 = tbl(jobId \<mapsto> it ++ a)"
  define tbl2 where "tbl2 = tbl1(jobId \<mapsto> (it ++ a) ++ a')"
  have 1: "updateJobStatus tu tc jobId st ups tbl = Inr tbl1"
    unfolding updateJobStatus_Inr using d Some by (simp add: tbl1_def flip: a_def)
  have 2: "job_attr tbl1 jobId ''status'' = Some (JStr (status_str st))"
    by (simp add: job_attr_def tbl1_def a_def map_add_def assignment_status)
  have idem: "it ++ a ++ a = it ++ a"
    by (rule ext) (simp add: map_add_def split: option.splits)
  have 3: "updateJobStatus tu tc jobId st ups tbl1 = Inr tbl1"
    unfolding updateJobStatus_Inr using d by (simp add: tbl1_def idem flip: a_def)
  have 4: "updateJobStatus tu' tc' jobId st ups tbl1 = Inr tbl2"
    unfolding updateJobStatus_Inr using d' by (simp add: tbl1_def tbl2_def flip: a'_def)
  have "job_attr tbl2 jobId k = job_attr tbl1 jobId k"
    if "k \<noteq> ''updatedAt'' \<and> k \<noteq> ''completedAt''" for k
    using that assignment_other [of k tu tc st ups tu' tc']
    by (simp add: job_attr_def tbl1_def tbl2_def a_def a'_def map_add_def split: option.splits)
  then have 5: "\<forall>k. k \<noteq> ''updatedAt'' \<and> k \<noteq> ''completedAt'' \<longrightarrow>
                  job_attr tbl2 jobId k = job_attr tbl1 jobId k"
    by (intro allI impI)
  have 6: "\<forall>j. j \<noteq> jobId \<longrightarrow> tbl2 j = tbl1 j \<and> tbl1 j = tbl j"
    by (simp add: tbl1_def tbl2_def)
  show "\<exists>tbl1 tbl2.
           updateJobStatus tu tc jobId st ups tbl = Inr tbl1
           \<and> job_attr tbl1 jobId ''status'' = Some (JStr (status_str st))
           \<and> updateJobStatus tu tc jobId st ups tbl1 = Inr tbl1
           \<and> updateJobStatus tu' tc' jobId st ups tbl1 = Inr tbl2
           \<and> (\<forall>k. k \<noteq> ''updatedAt'' \<and> k \<noteq> ''completedAt'' \<longrightarrow>
                  job_attr tbl2 jobId k = job_attr tbl1 jobId k)
           \<and> (\<forall>j. j \<noteq> jobId \<longrightarrow> tbl2 j = tbl1 j \<and> tbl1 j = tbl j)"
    by (rule exI [of _ tbl1], rule exI [of _ tbl2]) (intro conjI 1 2 3 4 5 6)
qed

theorem update_keyed_on_existence_witness:
  "updateJobStatus ''2024-01-01T00:07:00.000Z'' ''2024-01-01T00:07:00.001Z'' ''01HKJOB2'' FAILED
       [(''error'', Some (JStr ''Inference failed''))] (jobs stored_world)
     = Inl (NotFoundError (''Job '' @ ''01HKJOB2'' @ '' not found''))
   \<and> (\<exists>tbl1 tbl2.
         updateJobStatus ''2024-01-01T00:07:00.000Z'' ''2024-01-01T00:07:00.001Z'' ''01HKJOB1'' FAILED
             [(''error'', Some (JStr ''Inference failed''))] (jobs stored_world) = Inr tbl1
         \<and> job_attr tbl1 ''01HKJOB1'' ''status'' = Some (JStr (status_str FAILED))
         \<and> updateJobStatus ''2024-01-01T00:07:00.000Z'' ''2024-01-01T00:07:00.001Z'' ''01HKJOB1'' FAILED
             [(''error'', Some (JStr ''Inference failed''))] tbl1 = Inr tbl1
         \<and> updateJobStatus ''2024-01-01T00:09:00.000Z'' ''2024-01-01T00:09:00.001Z'' ''01HKJOB1'' FAILED
             [(''error'', Some (JStr ''Inference failed''))] tbl1 = Inr tbl2
         \<and> (\<forall>k. k \<noteq> ''updatedAt'' \<and> k \<noteq> ''completedAt'' \<longrightarrow>
                job_attr tbl2 ''01HKJOB1'' k = job_attr tbl1 ''01HKJOB1'' k)
         \<and> (\<forall>j. j \<noteq> ''01HKJOB1'' \<longrightarrow> tbl2 j = tbl1 j \<and> tbl1 j = jobs stored_world j))
   \<and> updateJobStatus ''2024-01-01T00:07:00.000Z'' ''2024-01-01T00:07:00.001Z'' ''01HKJOB1'' FAILED
       [(''completedAt'', Some (JStr ''2024-01-01T00:00:00.000Z''))] (jobs stored_world)
     = Inl (InternalError ''Failed to update job status'')
   \<and> updateJobStatus ''2024-01-01T00:07:00.000Z'' ''2024-01-01T00:07:00.001Z'' [] FAILED
       [(''error'', Some (JStr ''Inference failed''))] (jobs stored_world)
     = Inl (InternalError ''Failed to update job status'')
   \<and> updateJobStatus ''2024-01-01T00:07:00.000Z'' ''2024-01-01T00:07:00.001Z'' ''01HKJOB1'' FAILED
       [(''error-message'', Some (JStr ''Inference failed''))] (jobs stored_world)
     = Inl (InternalError ''Failed to update job status'')"
proof -
  have d: "update_accepted j (update_assignments ''2024-01-01T00:07:00.000Z'' ''2024-01-01T00:07:00.001Z''
              FAILED [(''error'', Some (JStr ''Inference failed''))])
           \<and> string_valued [(''error'', Some (JStr ''Inference failed''))]" if "j \<noteq> []" for j
    using that by (simp add: update_assignments_def table_defs string_valued_def)
  have n: "jobs stored_world ''01HKJOB2'' = None" and m: "jobs stored_world ''01HKJOB1'' \<noteq> None"
    by (simp_all add: stored_world_def)
  have r1: "\<not> update_accepted ''01HKJOB1'' (update_assignments ''2024-01-01T00:07:00.000Z''
              ''2024-01-01T00:07:00.001Z'' FAILED [(''completedAt'', Some (JStr ''2024-01-01T00:00:00.000Z''))])"
    by (simp add: update_assignments_def update_accepted_def)
  have r2: "\<not> update_accepted [] (update_assignments ''2024-01-01T00:07:00.000Z''
              ''2024-01-01T00:07:00.001Z'' FAILED [(''error'', Some (JStr ''Inference failed''))])"
    by (simp add: update_accepted_def)
  have r3: "\<not> update_accepted ''01HKJOB1'' (update_assignments ''2024-01-01T00:07:00.000Z''
              ''2024-01-01T00:07:00.001Z'' FAILED [(''error-message'', Some (JStr ''Inference failed''))])"
    by (simp add: update_assignments_def table_defs)
  note absent = update_keyed_on_existence [where tbl = "jobs stored_world" and jobId = "''01HKJOB2''",
      THEN conjunct2, THEN mp, OF d, THEN conjunct1, THEN mp, OF _ n]
  note present = update_keyed_on_existence [where tbl = "jobs stored_world" and jobId = "''01HKJOB1''"
      and tu' = "''2024-01-01T00:09:00.000Z''" and tc' = "''2024-01-01T00:09:00.001Z''",
      THEN conjunct2, THEN mp, OF d, THEN conjunct2, THEN mp, OF _ m]
  note rejected1 = update_keyed_on_existence [where tbl = "jobs stored_world", THEN conjunct1, THEN mp, OF r1]
  note rejected2 = update_keyed_on_existence [where tbl = "jobs stored_world", THEN conjunct1, THEN mp, OF r2]
  note rejected3 = update_keyed_on_existence [where tbl = "jobs stored_world", THEN conjunct1, THEN mp, OF r3]
  have "''01HKJOB2'' \<noteq> []" and "''01HKJOB1'' \<noteq> []" by simp_all
  with absent present rejected1 rejected2 rejected3 show ?thesis by (intro conjI)
qed

text \<open>
  The claim as stated fails: on the running sample job a success signal is applied, and an
  error signal delivered after it is applied as well and turns the \<open>SUCCEEDED\<close> job into a
  \<open>FAILED\<close> one; the success signal delivered a second time moves \<open>updatedAt\<close>.
\<close>

theorem completion_accepted_in_any_state:
  "job_attr (jobs stored_world) ''01HKJOB1'' ''status'' = Some (JStr ''RUNNING'')
   \<and> job_attr (run_calls [success_signal] (jobs stored_world)) ''01HKJOB1'' ''status'' = Some (JStr ''SUCCEEDED'')
   \<and> job_attr (run_calls [success_signal, error_signal] (jobs stored_world)) ''01HKJOB1'' ''status''
       = Some (JStr ''FAILED'')
   \<and> job_attr (run_calls [success_signal] (jobs stored_world)) ''01HKJOB1'' ''updatedAt''
       = Some (JStr ''2024-01-01T00:05:00.000Z'')
   \<and> job_attr (run_calls [success_signal, success_signal_again] (jobs stored_world)) ''01HKJOB1'' ''updatedAt''
       = Some (JStr ''2024-01-01T00:06:00.000Z'')"
  by (simp add: call_defs)


section \<open>Final states\<close>

lemma run_call_keeps_final:
  "keeps_final j c \<Longrightarrow> is_terminal (job_attr tbl j ''status'') \<Longrightarrow>
   is_terminal (job_attr (run_call c tbl) j ''status'')"
proof (cases c)
  case (CreateJob job)
  assume t: "is_terminal (job_attr tbl j ''status'')"
  show ?thesis
  proof (cases "createJob job tbl")
    case (Inl err)
    with t CreateJob show ?thesis by simp
  next
    case (Inr tbl')
    then obtain k where "tbl k = None" and "tbl' = tbl(k \<mapsto> job)"
      by (auto simp add: createJob_Inr)
    moreover from t have "tbl j \<noteq> None"
      by (auto simp add: job_attr_def is_terminal_def split: option.splits)
    ultimately have "job_attr tbl' j ''status'' = job_attr tbl j ''status''"
      by (auto simp add: job_attr_def)
    with t Inr CreateJob show ?thesis by simp
  qed
next
  case (UpdateJobStatus tu tc j' st ups)
  assume k: "keeps_final j c" and t: "is_terminal (job_attr tbl j ''status'')"
  show ?thesis
  proof (cases "updateJobStatus tu tc j' st ups tbl")
    case (Inl err)
    with t UpdateJobStatus show ?thesis by simp
  next
    case (Inr tbl')
    then obtain it where it: "tbl j' = Some it"
      and tbl': "tbl' = tbl(j' \<mapsto> it ++ map_of (update_assignments tu tc st ups))"
      by (auto simp add: updateJobStatus_Inr)
    show ?thesis
    proof (cases "j' = j")
      case False
      with t Inr UpdateJobStatus tbl' show ?thesis by (simp add: job_attr_def)
    next
      case True
      with k UpdateJobStatus have "st = SUCCEEDED \<or> st = FAILED" by simp
      with True Inr UpdateJobStatus tbl' show ?thesis
        by (auto simp add: job_attr_def map_add_def assignment_status is_terminal_def)
    qed
  qed
qed

text \<open>
  Claim C3, as amended. A job that has reached \<open>SUCCEEDED\<close> or \<open>FAILED\<close> stays in a final
  state along every sequence of job-store calls in which no \<open>updateJobStatus\<close> on that job
  carries the status \<open>PENDING\<close> or \<open>RUNNING\<close>: a \<open>createJob\<close> on its id is rejected, an
  update of another job does not touch it, and an update with a final status leaves it
  final. The job store itself does not refuse the call that is excluded here.
\<close>

theorem terminal_stays_terminal:
  "list_all (keeps_final j) calls \<Longrightarrow> is_terminal (job_attr tbl j ''status'') \<Longrightarrow>
   is_terminal (job_attr (run_calls calls tbl) j ''status'')"
proof (induction calls arbitrary: tbl)
  case Nil
  then show ?case by simp
next
  case (Cons c cs)
  then show ?case by (simp add: run_call_keeps_final)
qed

theorem terminal_stays_terminal_witness:
  "list_all (keeps_final ''01HKJOB1'') [CreateJob stored_job, error_signal, success_signal_again]
   \<and> is_terminal (job_attr (run_calls [success_signal] (jobs stored_world)) ''01HKJOB1'' ''status'')
   \<and> is_terminal (job_attr (run_calls [CreateJob stored_job, error_signal, success_signal_again]
         (run_calls [success_signal] (jobs stored_world))) ''01HKJOB1'' ''status'')"
proof -
  have a: "list_all (keeps_final ''01HKJOB1'') [CreateJob stored_job, error_signal, success_signal_again]"
    by (simp add: error_signal_def success_signal_again_def)
  have b: "is_terminal (job_attr (run_calls [success_signal] (jobs stored_world)) ''01HKJOB1'' ''status'')"
    by (simp add: call_defs is_terminal_def)
  from a b terminal_stays_terminal [OF a b] show ?thesis by (intro conjI)
qed

text \<open>
  The claim as stated fails: the dispatcher's update to \<open>RUNNING\<close>, issued after the
  success signal, is accepted and moves the \<open>SUCCEEDED\<close> job back.
\<close>

theorem terminal_job_moved_back:
  "job_attr (run_calls [success_signal] (jobs stored_world)) ''01HKJOB1'' ''status'' = Some (JStr ''SUCCEEDED'')
   \<and> job_attr (run_calls [success_signal, running_update] (jobs stored_world)) ''01HKJOB1'' ''status''
       = Some (JStr ''RUNNING'')"
  by (simp add: call_defs)

section \<open>The completion timestamp\<close>

lemma is_terminal_status_str:
  "is_terminal (Some (JStr (status_str st))) \<longleftrightarrow> st = SUCCEEDED \<or> st = FAILED"
  by (cases st) (simp_all add: is_terminal_def)

lemma updateJobStatus_completedAt:
  "st = SUCCEEDED \<or> st = FAILED \<Longrightarrow> updateJobStatus tu tc j st ups tbl = Inr tbl' \<Longrightarrow>
   job_attr tbl' j ''completedAt'' = Some (JStr tc)"
  by (auto simp add: updateJobStatus_Inr job_attr_def map_add_def assignment_completedAt)

lemma run_call_completedAt:
  assumes c: "creates_pending c"
    and inv: "\<forall>j. is_terminal (job_attr tbl j ''status'') \<longrightarrow> job_attr tbl j ''completedAt'' \<noteq> None"
    and t: "is_terminal (job_attr (run_call c tbl) j ''status'')"
  shows "job_attr (run_call c tbl) j ''completedAt'' \<noteq> None"
proof (cases c)
  case (CreateJob job)
  show ?thesis
  proof (cases "createJob job tbl")
    case (Inl err)
    with inv t CreateJob show ?thesis by simp
  next
    case (Inr tbl')
    then obtain k where k: "tbl' = tbl(k \<mapsto> job)"
      by (auto simp add: createJob_Inr)
    from c CreateJob have p: "job ''status'' = Some (JStr ''PENDING'')" by simp
    show ?thesis
    proof (cases "j = k")
      case True
      with t Inr CreateJob k p show ?thesis
        by (simp add: job_attr_def is_terminal_def)
    next
      case False
      with k have "job_attr tbl' j = job_attr tbl j"
        by (simp add: job_attr_def fun_eq_iff)
      with inv t Inr CreateJob show ?thesis by simp
    qed
  qed
next
  case (UpdateJobStatus tu tc j' st ups)
  show ?thesis
  proof (cases "updateJobStatus tu tc j' st ups tbl")
    case (Inl err)
    with inv t UpdateJobStatus show ?thesis by simp
  next
    case (Inr tbl')
    then obtain it where tbl': "tbl' = tbl(j' \<mapsto> it ++ map_of (update_assignments tu tc st ups))"
      by (auto simp add: updateJobStatus_Inr)
    show ?thesis
    proof (cases "j = j'")
      case True
      with t Inr UpdateJobStatus tbl' have "is_terminal (Some (JStr (status_str st)))"
        by (simp add: job_attr_def map_add_def assignment_status)
      then have "st = SUCCEEDED \<or> st = FAILED"
        by (simp add: is_terminal_status_str)
      from updateJobStatus_completedAt [OF this Inr] True Inr UpdateJobStatus show ?thesis
        by simp
    next
      case False
      with tbl' have "job_attr tbl' j = job_attr tbl j"
        by (simp add: job_attr_def fun_eq_iff)
      with inv t Inr UpdateJobStatus show ?thesis by simp
    qed
  qed
qed

lemma run_calls_completedAt:
  "list_all creates_pending calls \<Longrightarrow>
   \<forall>j. is_terminal (job_attr tbl j ''status'') \<longrightarrow> job_attr tbl j ''completedAt'' \<noteq> None \<Longrightarrow>
   \<forall>j. is_terminal (job_attr (run_calls calls tbl) j ''status'')
        \<longrightarrow> job_attr (run_calls calls tbl) j ''completedAt'' \<noteq> None"
proof (induction calls arbitrary: tbl)
  case Nil
  then show ?case by simp
next
  case (Cons c cs)
  from Cons.prems have "creates_pending c" and cs: "list_all creates_pending cs"
    by simp_all
  with Cons.prems(2) have
    "\<forall>j. is_terminal (job_attr (run_call c tbl) j ''status'')
         \<longrightarrow> job_attr (run_call c tbl) j ''completedAt'' \<noteq> None"
    using run_call_completedAt [of c tbl] by blast
  from Cons.IH [OF cs this] show ?case by simp
qed

text \<open>
  Every \<open>updateJobStatus\<close> into \<open>SUCCEEDED\<close> or \<open>FAILED\<close> records \<open>completedAt\<close>, the
  second reading of the clock; hence along every sequence of job-store calls whose
  \<open>createJob\<close> calls create \<open>PENDING\<close> records (as the submit handler builds them), every
  record in a final state carries \<open>completedAt\<close>.
\<close>

theorem completedAt_on_final_states:
  "((st = SUCCEEDED \<or> st = FAILED) \<and> updateJobStatus tu tc j st ups tbl = Inr tbl'
      \<longrightarrow> job_attr tbl' j ''completedAt'' = Some (JStr tc))
   \<and> (list_all creates_pending calls
        \<and> (\<forall>i. is_terminal (job_attr tbl i ''status'') \<longrightarrow> job_attr tbl i ''completedAt'' \<noteq> None)
      \<longrightarrow> (\<forall>i. is_terminal (job_attr (run_calls calls tbl) i ''status'')
               \<longrightarrow> job_attr (run_calls calls tbl) i ''completedAt'' \<noteq> None))"
  using updateJobStatus_completedAt [of st tu tc j ups tbl tbl'] run_calls_completedAt [of calls tbl]
  by (intro conjI impI) (simp, elim conjE, simp)

theorem completedAt_on_final_states_witness:
  "list_all creates_pending [CreateJob (stored_job(''status'' \<mapsto> JStr ''PENDING'')), error_signal, running_update, success_signal]
   \<and> is_terminal (job_attr (run_calls [CreateJob (stored_job(''status'' \<mapsto> JStr ''PENDING'')), error_signal, running_update, success_signal]
                     Map.empty) ''01HKJOB1'' ''status'')
   \<and> job_attr (run_calls [CreateJob (stored_job(''status'' \<mapsto> JStr ''PENDING'')), error_signal, running_update, success_signal]
        Map.empty) ''01HKJOB1'' ''completedAt'' \<noteq> None"
proof -
  have a: "list_all creates_pending [CreateJob (stored_job(''status'' \<mapsto> JStr ''PENDING'')), error_signal, running_update, success_signal]"
    by (simp add: error_signal_def running_update_def success_signal_def stored_job_def)
  have b: "\<forall>i. is_terminal (job_attr Map.empty i ''status'') \<longrightarrow> job_attr Map.empty i ''completedAt'' \<noteq> None"
    by (simp add: job_attr_def is_terminal_def)
  have c: "is_terminal (job_attr (run_calls [CreateJob (stored_job(''status'' \<mapsto> JStr ''PENDING'')), error_signal, running_update, success_signal]
                     Map.empty) ''01HKJOB1'' ''status'')"
    by (simp add: call_defs is_terminal_def)
  note inv = completedAt_on_final_states [where tbl = Map.empty
      and calls = "[CreateJob (stored_job(''status'' \<mapsto> JStr ''PENDING'')), error_signal, running_update, success_signal]",
      THEN conjunct2, THEN mp, OF conjI [OF a b], THEN spec, THEN mp, OF c]
  from a c inv show ?thesis by (intro conjI)
qed

text \<open>
  Claim C8. A stored job is to carry \<open>completedAt\<close> exactly when its state is final, every
  transition into \<open>SUCCEEDED\<close> or \<open>FAILED\<close> recording it. \<open>updateJobStatus\<close> records it
  (above). The synchronous branch of the deployed submit-job.js does not go through
  \<open>updateJobStatus\<close>: it puts the record again with its final status, \<open>SUCCEEDED\<close> on a
  result and \<open>FAILED\<close> on an inference error, and with no \<open>completedAt\<close>.
\<close>

theorem js_sync_submit_without_completedAt:
  "job_attr (jobs (snd (submit_job_js_handler sample_env (sample_event ''u1'' None (Some sync_body))
       empty_world))) ''01HKJOB1'' ''status'' = Some (JStr ''SUCCEEDED'')
   \<and> job_attr (jobs (snd (submit_job_js_handler sample_env (sample_event ''u1'' None (Some sync_body))
       empty_world))) ''01HKJOB1'' ''completedAt'' = None
   \<and> job_attr (jobs (snd (submit_job_js_handler (sample_env\<lparr>endpoint_sync := Inl ''model error''\<rparr>)
       (sample_event ''u1'' None (Some sync_body)) empty_world))) ''01HKJOB1'' ''status'' = Some (JStr ''FAILED'')
   \<and> job_attr (jobs (snd (submit_job_js_handler (sample_env\<lparr>endpoint_sync := Inl ''model error''\<rparr>)
       (sample_event ''u1'' None (Some sync_body)) empty_world))) ''01HKJOB1'' ''completedAt'' = None"
  by (simp add: js_submit_defs sample_defs auth_defs)


section \<open>Admission validation\<close>

lemma issues_of_z_field: "issues_of (z_field f x) = issues_of f @ issues_of x"
  by (simp add: issues_of_def z_field_def split: sum.splits)

lemma z_field_ok:
  "(\<exists>b. z_field f x = Inr b) \<longleftrightarrow> (\<exists>g. f = Inr g) \<and> (\<exists>a. x = Inr a)"
  by (cases f; cases x) (simp_all add: z_field_def)

lemma z_field_not_empty: "f \<noteq> Inl [] \<Longrightarrow> x \<noteq> Inl [] \<Longrightarrow> z_field f x \<noteq> Inl []"
  by (cases f; cases x) (simp_all add: z_field_def)

lemma isInteger_iff: "Number_isInteger x \<longleftrightarrow> (\<exists>n::int. x = of_int n)"
  by (auto simp add: Number_isInteger_def intro: sym)

lemma js_rem_64: "js_rem (of_int n) 64 = 0 \<longleftrightarrow> n mod 64 = 0"
proof
  assume "js_rem (of_int n) 64 = 0"
  then obtain q :: int where "(of_int n :: real) = 64 * of_int q"
    by (auto simp add: js_rem_def split: if_splits)
  then have "(of_int n :: real) = of_int (64 * q)" by simp
  then have "n = 64 * q" by (simp only: of_int_eq_iff)
  then show "n mod 64 = 0" by simp
next
  assume "n mod 64 = 0"
  then obtain q where n: "n = 64 * q" by (auto simp add: mod_eq_0_iff_dvd)
  then have "(of_int n :: real) / 64 = of_int q" by simp
  then show "js_rem (of_int n) 64 = 0"
    using n by (simp add: js_rem_def)
qed

lemma default_ok:
  "(\<exists>a. z_default d inner p v = Inr a) \<longleftrightarrow> (v = None \<or> (\<exists>a. inner p v = Inr a))"
  by (cases v) (simp_all add: z_default_def)

lemma optional_ok:
  "(\<exists>a. z_optional inner p v = Inr a) \<longleftrightarrow> (v = None \<or> (\<exists>a. inner p v = Inr a))"
  by (cases v) (auto simp add: z_optional_def split: sum.splits)

lemma string_range_ok:
  "(\<exists>a. z_string [str_min lo m1, str_max hi m2] p v = Inr a)
     \<longleftrightarrow> (\<exists>s. v = Some (JStr s) \<and> lo \<le> length s \<and> length s \<le> hi)"
  by (auto simp add: z_string_def str_min_def str_max_def Let_def split: option.splits json.splits)

lemma string_max_ok:
  "(\<exists>a. z_string [str_max hi m2] p v = Inr a) \<longleftrightarrow> (\<exists>s. v = Some (JStr s) \<and> length s \<le> hi)"
  by (auto simp add: z_string_def str_max_def Let_def split: option.splits json.splits)

lemma string_any_ok:
  "(\<exists>a. z_string [] p v = Inr a) \<longleftrightarrow> (\<exists>s. v = Some (JStr s))"
  by (auto simp add: z_string_def Let_def split: option.splits json.splits)

lemma number_range_ok:
  "(\<exists>a. z_number [num_min lo m1, num_max hi m2] p v = Inr a)
     \<longleftrightarrow> (\<exists>x. v = Some (JNum x) \<and> lo \<le> x \<and> x \<le> hi)"
  by (auto simp add: z_number_def num_min_def num_max_def Let_def split: option.splits json.splits)

lemma int_range_ok:
  "(\<exists>a. z_number [num_int, num_min lo m1, num_max hi m2] p v = Inr a)
     \<longleftrightarrow> (\<exists>n::int. v = Some (JNum (of_int n)) \<and> lo \<le> of_int n \<and> of_int n \<le> hi)"
  by (auto simp add: z_number_def num_int_def num_min_def num_max_def Let_def isInteger_iff
           split: option.splits json.splits)

lemma int_range_64_ok:
  "(\<exists>a. z_number_refine [num_int, num_min lo m1, num_max hi m2] divisible_by_64 msg p v = Inr a)
     \<longleftrightarrow> (\<exists>n::int. v = Some (JNum (of_int n)) \<and> lo \<le> of_int n \<and> of_int n \<le> hi \<and> n mod 64 = 0)"
  by (auto simp add: z_number_refine_def num_int_def num_min_def num_max_def Let_def isInteger_iff
           divisible_by_64_def js_rem_64 split: option.splits json.splits)

lemma enum_ok:
  "(\<exists>a. z_enum options p v = Inr a) \<longleftrightarrow> (\<exists>s. v = Some (JStr s) \<and> s \<in> fst ` set options)"
proof (cases v)
  case None
  then show ?thesis by (simp add: z_enum_def)
next
  case (Some u)
  show ?thesis
  proof (cases u)
    case (JStr s)
    have "(\<exists>a. map_of options s = Some a) \<longleftrightarrow> s \<in> fst ` set options"
      by (metis map_of_eq_None_iff not_Some_eq)
    with Some JStr show ?thesis
      by (auto simp add: z_enum_def split: option.splits)
  qed (simp_all add: Some z_enum_def)
qed


lemma schema_JObj_ok:
  "(\<exists>request. SubmitJobRequestSchema (JObj kvs) = Inr request) \<longleftrightarrow>
     (\<exists>s. map_of kvs ''prompt'' = Some (JStr s) \<and> 1 \<le> length s \<and> length s \<le> 1000)
     \<and> (map_of kvs ''modelId'' = None \<or> (\<exists>s. map_of kvs ''modelId'' = Some (JStr s)))
     \<and> (map_of kvs ''steps'' = None
          \<or> (\<exists>n::int. map_of kvs ''steps'' = Some (JNum (of_int n)) \<and> 1 \<le> n \<and> n \<le> 50))
     \<and> (map_of kvs ''guidanceScale'' = None
          \<or> (\<exists>x. map_of kvs ''guidanceScale'' = Some (JNum x) \<and> 1 \<le> x \<and> x \<le> 20))
     \<and> (map_of kvs ''width'' = None
          \<or> (\<exists>n::int. map_of kvs ''width'' = Some (JNum (of_int n)) \<and> 256 \<le> n \<and> n \<le> 1024 \<and> n mod 64 = 0))
     \<and> (map_of kvs ''height'' = None
          \<or> (\<exists>n::int. map_of kvs ''height'' = Some (JNum (of_int n)) \<and> 256 \<le> n \<and> n \<le> 1024 \<and> n mod 64 = 0))
     \<and> (map_of kvs ''seed'' = None
          \<or> (\<exists>n::int. map_of kvs ''seed'' = Some (JNum (of_int n)) \<and> 0 \<le> n \<and> n \<le> 2147483647))
     \<and> (map_of kvs ''quality'' = None
          \<or> (\<exists>s. map_of kvs ''quality'' = Some (JStr s) \<and> s \<in> {''low'', ''medium'', ''high''}))
     \<and> (map_of kvs ''mode'' = None
          \<or> (\<exists>s. map_of kvs ''mode'' = Some (JStr s) \<and> s \<in> {''async'', ''sync''}))
     \<and> (map_of kvs ''negativePrompt'' = None
          \<or> (\<exists>s. map_of kvs ''negativePrompt'' = Some (JStr s) \<and> length s \<le> 500))"
  by (simp add: SubmitJobRequestSchema_def z_field_ok default_ok optional_ok string_range_ok
        string_max_ok string_any_ok number_range_ok int_range_ok int_range_64_ok enum_ok)


lemma z_field_Inr:
  "z_field f x = Inr b \<longleftrightarrow> (\<exists>g a. f = Inr g \<and> x = Inr a \<and> b = g a)"
  by (cases f; cases x) (auto simp add: z_field_def)

lemma default_Inr:
  "z_default d inner p v = Inr a \<longleftrightarrow> (v = None \<and> a = d) \<or> (v \<noteq> None \<and> inner p v = Inr a)"
  by (cases v) (auto simp add: z_default_def)

lemma optional_Inr:
  "z_optional inner p v = Inr a \<longleftrightarrow> (v = None \<and> a = None) \<or> (\<exists>b. v \<noteq> None \<and> inner p v = Inr b \<and> a = Some b)"
  by (cases v) (auto simp add: z_optional_def split: sum.splits)

lemma string_range_Inr:
  "z_string [str_min lo m1, str_max hi m2] p v = Inr s
     \<longleftrightarrow> v = Some (JStr s) \<and> lo \<le> length s \<and> length s \<le> hi"
  by (auto simp add: z_string_def str_min_def str_max_def Let_def split: option.splits json.splits)

lemma string_max_Inr:
  "z_string [str_max hi m2] p v = Inr s \<longleftrightarrow> v = Some (JStr s) \<and> length s \<le> hi"
  by (auto simp add: z_string_def str_max_def Let_def split: option.splits json.splits)

lemma number_range_Inr:
  "z_number [num_min lo m1, num_max hi m2] p v = Inr x \<longleftrightarrow> v = Some (JNum x) \<and> lo \<le> x \<and> x \<le> hi"
  by (auto simp add: z_number_def num_min_def num_max_def Let_def split: option.splits json.splits)

lemma int_range_Inr:
  "z_number [num_int, num_min lo m1, num_max hi m2] p v = Inr x
     \<longleftrightarrow> v = Some (JNum x) \<and> (\<exists>n::int. x = of_int n) \<and> lo \<le> x \<and> x \<le> hi"
  by (auto simp add: z_number_def num_int_def num_min_def num_max_def Let_def isInteger_iff
           split: option.splits json.splits)

lemma int_range_64_Inr:
  "z_number_refine [num_int, num_min lo m1, num_max hi m2] divisible_by_64 msg p v = Inr x
     \<longleftrightarrow> v = Some (JNum x) \<and> (\<exists>n::int. x = of_int n \<and> n mod 64 = 0) \<and> lo \<le> x \<and> x \<le> hi"
  by (auto simp add: z_number_refine_def num_int_def num_min_def num_max_def Let_def isInteger_iff
           divisible_by_64_def js_rem_64 split: option.splits json.splits)

lemma schema_request_ranges:
  assumes "SubmitJobRequestSchema input = Inr request"
  shows "1 \<le> length (prompt request) \<and> length (prompt request) \<le> 1000
     \<and> 1 \<le> steps request \<and> steps request \<le> 50
     \<and> 1 \<le> guidanceScale request \<and> guidanceScale request \<le> 20
     \<and> 256 \<le> width request \<and> width request \<le> 1024 \<and> width request mod 64 = 0
     \<and> 256 \<le> height request \<and> height request \<le> 1024 \<and> height request mod 64 = 0
     \<and> (\<forall>n. seed request = Some n \<longrightarrow> 0 \<le> n \<and> n \<le> 2147483647)
     \<and> (\<forall>s. negativePrompt request = Some s \<longrightarrow> length s \<le> 500)"
proof -
  from assms obtain kvs where kvs: "input = JObj kvs"
    by (cases input) (simp_all add: SubmitJobRequestSchema_def)
  from assms [unfolded kvs SubmitJobRequestSchema_def json.case z_field_Inr]
  obtain p m s g w h sd q md np where
    r: "request = mk_request p m s g w h sd q md np"
    and p: "z_string [str_min 1 (Some ''Prompt cannot be empty''),
                       str_max 1000 (Some ''Prompt too long (max 1000 characters)'')]
               [''prompt''] (map_of kvs ''prompt'') = Inr p"
    and s: "z_default 20
               (z_number [num_int, num_min 1 (Some ''Steps must be at least 1''),
                          num_max 50 (Some ''Steps cannot exceed 50'')])
               [''steps''] (map_of kvs ''steps'') = Inr s"
    and g: "z_default 7.5
               (z_number [num_min 1.0 (Some ''Guidance scale must be at least 1.0''),
                          num_max 20.0 (Some ''Guidance scale cannot exceed 20.0'')])
               [''guidanceScale''] (map_of kvs ''guidanceScale'') = Inr g"
    and w: "z_default 1024
               (z_number_refine [num_int, num_min 256 (Some ''Width must be at least 256''),
                                 num_max 1024 (Some ''Width cannot exceed 1024'')]
                  divisible_by_64 ''Width must be divisible by 64'')
               [''width''] (map_of kvs ''width'') = Inr w"
    and h: "z_default 1024
               (z_number_refine [num_int, num_min 256 (Some ''Height must be at least 256''),
                                 num_max 1024 (Some ''Height cannot exceed 1024'')]
                  divisible_by_64 ''Height must be divisible by 64'')
               [''height''] (map_of kvs ''height'') = Inr h"
    and sd: "z_optional (z_number [num_int, num_min 0 None, num_max 2147483647 None])
               [''seed''] (map_of kvs ''seed'') = Inr sd"
    and np: "z_optional (z_string [str_max 500 None])
               [''negativePrompt''] (map_of kvs ''negativePrompt'') = Inr np"
    by auto
  from p have 1: "1 \<le> length p \<and> length p \<le> 1000"
    by (simp add: string_range_Inr)
  from s have 2: "1 \<le> \<lfloor>s\<rfloor> \<and> \<lfloor>s\<rfloor> \<le> 50"
    by (auto simp add: default_Inr int_range_Inr)
  from g have 3: "1 \<le> g \<and> g \<le> 20"
    by (auto simp add: default_Inr number_range_Inr)
  from w have 4: "256 \<le> \<lfloor>w\<rfloor> \<and> \<lfloor>w\<rfloor> \<le> 1024 \<and> \<lfloor>w\<rfloor> mod 64 = 0"
    by (auto simp add: default_Inr int_range_64_Inr)
  from h have 5: "256 \<le> \<lfloor>h\<rfloor> \<and> \<lfloor>h\<rfloor> \<le> 1024 \<and> \<lfloor>h\<rfloor> mod 64 = 0"
    by (auto simp add: default_Inr int_range_64_Inr)
  from sd have 6: "\<forall>n. map_option floor sd = Some n \<longrightarrow> 0 \<le> n \<and> n \<le> 2147483647"
    by (auto simp add: optional_Inr int_range_Inr)
  from np have 7: "\<forall>t. np = Some t \<longrightarrow> length t \<le> 500"
    by (auto simp add: optional_Inr string_max_Inr)
  from 1 2 3 4 5 6 7 show ?thesis
    by (simp add: r mk_request_def)
qed


lemma issues_default:
  "issues_of (z_default d inner p v) = (if v = None then [] else issues_of (inner p v))"
  by (cases v) (simp_all add: z_default_def issues_of_def)

lemma issues_optional:
  "issues_of (z_optional inner p v) = (if v = None then [] else issues_of (inner p v))"
  by (cases v) (simp_all add: z_optional_def issues_of_def split: sum.splits)

lemma issues_string:
  "issues_of (z_string checks p v) =
     (case v of Some (JStr s) \<Rightarrow> concat (map (\<lambda>c. c p s) checks) | _ \<Rightarrow> [ZodIssue invalid_type p None])"
  by (simp add: z_string_def issues_of_def Let_def split: option.splits json.splits)

lemma issues_number:
  "issues_of (z_number checks p v) =
     (case v of Some (JNum x) \<Rightarrow> concat (map (\<lambda>c. c p x) checks) | _ \<Rightarrow> [ZodIssue invalid_type p None])"
  by (simp add: z_number_def issues_of_def Let_def split: option.splits json.splits)

lemma issues_number_refine:
  "issues_of (z_number_refine checks pred msg p v) =
     (case v of
        Some (JNum x) \<Rightarrow> concat (map (\<lambda>c. c p x) checks) @ (if pred x then [] else [ZodIssue custom p (Some msg)])
      | _ \<Rightarrow> [ZodIssue invalid_type p None])"
  by (simp add: z_number_refine_def issues_of_def Let_def split: option.splits json.splits)

lemma issues_enum:
  "issues_of (z_enum options p v) =
     (case v of
        Some (JStr s) \<Rightarrow> (if s \<in> fst ` set options then [] else [ZodIssue invalid_enum_value p None])
      | _ \<Rightarrow> [ZodIssue invalid_type p None])"
proof (cases v)
  case None
  then show ?thesis by (simp add: z_enum_def issues_of_def)
next
  case (Some u)
  show ?thesis
  proof (cases u)
    case (JStr s)
    show ?thesis
    proof (cases "map_of options s")
      case None
      then have "s \<notin> fst ` set options" by (simp add: map_of_eq_None_iff)
      with None Some JStr show ?thesis by (simp add: z_enum_def issues_of_def)
    next
      case (Some a)
      then have "s \<in> fst ` set options" by (metis map_of_eq_None_iff option.distinct(1))
      with Some \<open>v = Some u\<close> JStr show ?thesis by (simp add: z_enum_def issues_of_def)
    qed
  qed (simp_all add: Some z_enum_def issues_of_def)
qed

lemma schema_issues:
  "issues_of (SubmitJobRequestSchema (JObj kvs)) =
     issues_of (z_string [str_min 1 (Some ''Prompt cannot be empty''),
                       str_max 1000 (Some ''Prompt too long (max 1000 characters)'')]
               [''prompt''] (map_of kvs ''prompt''))
     @ issues_of (z_default ''stable-diffusion-xl'' (z_string []) [''modelId''] (map_of kvs ''modelId''))
     @ issues_of (z_default 20
               (z_number [num_int, num_min 1 (Some ''Steps must be at least 1''),
                          num_max 50 (Some ''Steps cannot exceed 50'')])
               [''steps''] (map_of kvs ''steps''))
     @ issues_of (z_default 7.5
               (z_number [num_min 1.0 (Some ''Guidance scale must be at least 1.0''),
                          num_max 20.0 (Some ''Guidance scale cannot exceed 20.0'')])
               [''guidanceScale''] (map_of kvs ''guidanceScale''))
     @ issues_of (z_default 1024
               (z_number_refine [num_int, num_min 256 (Some ''Width must be at least 256''),
                                 num_max 1024 (Some ''Width cannot exceed 1024'')]
                  divisible_by_64 ''Width must be divisible by 64'')
               [''width''] (map_of kvs ''width''))
     @ issues_of (z_default 1024
               (z_number_refine [num_int, num_min 256 (Some ''Height must be at least 256''),
                                 num_max 1024 (Some ''Height cannot exceed 1024'')]
                  divisible_by_64 ''Height must be divisible by 64'')
               [''height''] (map_of kvs ''height''))
     @ issues_of (z_optional (z_number [num_int, num_min 0 None, num_max 2147483647 None])
               [''seed''] (map_of kvs ''seed''))
     @ issues_of (z_default MEDIUM (z_enum [(''low'', LOW), (''medium'', MEDIUM), (''high'', HIGH)])
               [''quality''] (map_of kvs ''quality''))
     @ issues_of (z_default ASYNC (z_enum [(''async'', ASYNC), (''sync'', SYNC)])
               [''mode''] (map_of kvs ''mode''))
     @ issues_of (z_optional (z_string [str_max 500 None])
               [''negativePrompt''] (map_of kvs ''negativePrompt''))"
  by (simp add: SubmitJobRequestSchema_def issues_of_z_field issues_of_def [of "Inr mk_request"])

lemmas issue_simps = schema_issues issues_default issues_optional issues_string issues_number
  issues_number_refine issues_enum str_min_def str_max_def num_int_def num_min_def num_max_def

lemma field_issues:
  shows "map_of kvs ''prompt'' = Some (JStr s) \<Longrightarrow> length s > 1000 \<Longrightarrow>
           ZodIssue too_big [''prompt''] (Some ''Prompt too long (max 1000 characters)'')
             \<in> set (issues_of (SubmitJobRequestSchema (JObj kvs)))"
    and "map_of kvs ''prompt'' = Some (JStr []) \<Longrightarrow>
           ZodIssue too_small [''prompt''] (Some ''Prompt cannot be empty'')
             \<in> set (issues_of (SubmitJobRequestSchema (JObj kvs)))"
    and "map_of kvs ''steps'' = Some (JNum x) \<Longrightarrow> x < 1 \<Longrightarrow>
           ZodIssue too_small [''steps''] (Some ''Steps must be at least 1'')
             \<in> set (issues_of (SubmitJobRequestSchema (JObj kvs)))"
    and "map_of kvs ''steps'' = Some (JNum x) \<Longrightarrow> x > 50 \<Longrightarrow>
           ZodIssue too_big [''steps''] (Some ''Steps cannot exceed 50'')
             \<in> set (issues_of (SubmitJobRequestSchema (JObj kvs)))"
    and "map_of kvs ''guidanceScale'' = Some (JNum x) \<Longrightarrow> x < 1 \<Longrightarrow>
           ZodIssue too_small [''guidanceScale''] (Some ''Guidance scale must be at least 1.0'')
             \<in> set (issues_of (SubmitJobRequestSchema (JObj kvs)))"
    and "map_of kvs ''guidanceScale'' = Some (JNum x) \<Longrightarrow> x > 20 \<Longrightarrow>
           ZodIssue too_big [''guidanceScale''] (Some ''Guidance scale cannot exceed 20.0'')
             \<in> set (issues_of (SubmitJobRequestSchema (JObj kvs)))"
    and "map_of kvs ''width'' = Some (JNum x) \<Longrightarrow> x < 256 \<Longrightarrow>
           ZodIssue too_small [''width''] (Some ''Width must be at least 256'')
             \<in> set (issues_of (SubmitJobRequestSchema (JObj kvs)))"
    and "map_of kvs ''width'' = Some (JNum x) \<Longrightarrow> x > 1024 \<Longrightarrow>
           ZodIssue too_big [''width''] (Some ''Width cannot exceed 1024'')
             \<in> set (issues_of (SubmitJobRequestSchema (JObj kvs)))"
    and "map_of kvs ''width'' = Some (JNum x) \<Longrightarrow> js_rem x 64 \<noteq> 0 \<Longrightarrow>
           ZodIssue custom [''width''] (Some ''Width must be divisible by 64'')
             \<in> set (issues_of (SubmitJobRequestSchema (JObj kvs)))"
    and "map_of kvs ''height'' = Some (JNum x) \<Longrightarrow> x < 256 \<Longrightarrow>
           ZodIssue too_small [''height''] (Some ''Height must be at least 256'')
             \<in> set (issues_of (SubmitJobRequestSchema (JObj kvs)))"
    and "map_of kvs ''height'' = Some (JNum x) \<Longrightarrow> x > 1024 \<Longrightarrow>
           ZodIssue too_big [''height''] (Some ''Height cannot exceed 1024'')
             \<in> set (issues_of (SubmitJobRequestSchema (JObj kvs)))"
    and "map_of kvs ''height'' = Some (JNum x) \<Longrightarrow> js_rem x 64 \<noteq> 0 \<Longrightarrow>
           ZodIssue custom [''height''] (Some ''Height must be divisible by 64'')
             \<in> set (issues_of (SubmitJobRequestSchema (JObj kvs)))"
    and "map_of kvs ''seed'' = Some (JNum x) \<Longrightarrow> x < 0 \<Longrightarrow>
           ZodIssue too_small [''seed''] None \<in> set (issues_of (SubmitJobRequestSchema (JObj kvs)))"
    and "map_of kvs ''seed'' = Some (JNum x) \<Longrightarrow> x > 2147483647 \<Longrightarrow>
           ZodIssue too_big [''seed''] None \<in> set (issues_of (SubmitJobRequestSchema (JObj kvs)))"
    and "map_of kvs ''quality'' = Some (JStr s) \<Longrightarrow> s \<notin> {''low'', ''medium'', ''high''} \<Longrightarrow>
           ZodIssue invalid_enum_value [''quality''] None \<in> set (issues_of (SubmitJobRequestSchema (JObj kvs)))"
    and "map_of kvs ''mode'' = Some (JStr s) \<Longrightarrow> s \<notin> {''async'', ''sync''} \<Longrightarrow>
           ZodIssue invalid_enum_value [''mode''] None \<in> set (issues_of (SubmitJobRequestSchema (JObj kvs)))"
    and "map_of kvs ''negativePrompt'' = Some (JStr s) \<Longrightarrow> length s > 500 \<Longrightarrow>
           ZodIssue too_big [''negativePrompt''] None \<in> set (issues_of (SubmitJobRequestSchema (JObj kvs)))"
  by (simp_all add: issue_simps divisible_by_64_def)

lemma schema_Inl_issues:
  "SubmitJobRequestSchema input = Inl issues \<Longrightarrow> issues = issues_of (SubmitJobRequestSchema input)"
  by (simp add: issues_of_def)

lemma leaf_not_empty:
  shows "z_string checks p v \<noteq> Inl []"
    and "z_number nchecks p v \<noteq> Inl []"
    and "z_number_refine nchecks pred msg p v \<noteq> Inl []"
    and "z_enum options p v \<noteq> Inl []"
  by (simp_all add: z_string_def z_number_def z_number_refine_def z_enum_def Let_def
        split: option.splits json.splits)

lemma wrapper_not_empty:
  shows "(\<And>u. inner p u \<noteq> Inl []) \<Longrightarrow> z_default d inner p v \<noteq> Inl []"
    and "(\<And>u. inner' p u \<noteq> Inl []) \<Longrightarrow> z_optional inner' p v \<noteq> Inl []"
proof -
  assume "\<And>u. inner p u \<noteq> Inl []"
  then show "z_default d inner p v \<noteq> Inl []"
    by (cases v) (simp_all add: z_default_def)
next
  assume a: "\<And>u. inner' p u \<noteq> Inl []"
  show "z_optional inner' p v \<noteq> Inl []"
  proof (cases v)
    case None
    then show ?thesis by (simp add: z_optional_def)
  next
    case (Some u)
    with a [of "Some u"] show ?thesis
      by (cases "inner' p (Some u)") (simp_all add: z_optional_def)
  qed
qed

lemma schema_not_empty: "SubmitJobRequestSchema input \<noteq> Inl []"
  by (cases input)
     (simp_all add: SubmitJobRequestSchema_def z_field_not_empty leaf_not_empty wrapper_not_empty)

lemma check_paths:
  shows "i \<in> set (str_min n m p s) \<Longrightarrow> issue_path i = p"
    and "i \<in> set (str_max n m p s) \<Longrightarrow> issue_path i = p"
    and "i \<in> set (num_int p x) \<Longrightarrow> issue_path i = p"
    and "i \<in> set (num_min lo m p x) \<Longrightarrow> issue_path i = p"
    and "i \<in> set (num_max hi m p x) \<Longrightarrow> issue_path i = p"
  by (simp_all add: str_min_def str_max_def num_int_def num_min_def num_max_def split: if_splits)

lemma leaf_paths:
  shows "i \<in> set (issues_of (z_string [] p v)) \<Longrightarrow> issue_path i = p"
    and "i \<in> set (issues_of (z_string [str_max hi m2] p v)) \<Longrightarrow> issue_path i = p"
    and "i \<in> set (issues_of (z_string [str_min n m1, str_max hi m2] p v)) \<Longrightarrow> issue_path i = p"
    and "i \<in> set (issues_of (z_number [num_min lo m1, num_max up m2] p v)) \<Longrightarrow> issue_path i = p"
    and "i \<in> set (issues_of (z_number [num_int, num_min lo m1, num_max up m2] p v)) \<Longrightarrow> issue_path i = p"
    and "i \<in> set (issues_of (z_number_refine [num_int, num_min lo m1, num_max up m2] pred msg p v))
           \<Longrightarrow> issue_path i = p"
    and "i \<in> set (issues_of (z_enum options p v)) \<Longrightarrow> issue_path i = p"
  by (auto simp add: issues_string issues_number issues_number_refine issues_enum
        str_min_def str_max_def num_int_def num_min_def num_max_def
        split: option.splits json.splits if_splits)



lemma wrapper_paths:
  shows "(\<And>u. i \<in> set (issues_of (inner p u)) \<Longrightarrow> issue_path i = p) \<Longrightarrow>
           i \<in> set (issues_of (z_default d inner p v)) \<Longrightarrow> issue_path i = p"
    and "(\<And>u. i \<in> set (issues_of (inner' p u)) \<Longrightarrow> issue_path i = p) \<Longrightarrow>
           i \<in> set (issues_of (z_optional inner' p v)) \<Longrightarrow> issue_path i = p"
  by (simp_all add: issues_default issues_optional split: if_splits)


lemma schema_issue_paths:
  assumes "i \<in> set (issues_of (SubmitJobRequestSchema (JObj kvs)))"
  shows "issue_path i \<in> set [[''prompt''], [''modelId''], [''steps''], [''guidanceScale''], [''width''],
           [''height''], [''seed''], [''quality''], [''mode''], [''negativePrompt'']]"
proof -
  from assms consider
      "i \<in> set (issues_of (z_string [str_min 1 (Some ''Prompt cannot be empty''),
                       str_max 1000 (Some ''Prompt too long (max 1000 characters)'')]
               [''prompt''] (map_of kvs ''prompt'')))"
    | "i \<in> set (issues_of (z_string [] [''modelId''] (map_of kvs ''modelId'')))"
    | "i \<in> set (issues_of (z_number [num_int, num_min 1 (Some ''Steps must be at least 1''),
                          num_max 50 (Some ''Steps cannot exceed 50'')]
               [''steps''] (map_of kvs ''steps'')))"
    | "i \<in> set (issues_of (z_number [num_min 1.0 (Some ''Guidance scale must be at least 1.0''),
                          num_max 20.0 (Some ''Guidance scale cannot exceed 20.0'')]
               [''guidanceScale''] (map_of kvs ''guidanceScale'')))"
    | "i \<in> set (issues_of (z_number_refine [num_int, num_min 256 (Some ''Width must be at least 256''),
                                 num_max 1024 (Some ''Width cannot exceed 1024'')]
                  divisible_by_64 ''Width must be divisible by 64''
               [''width''] (map_of kvs ''width'')))"
    | "i \<in> set (issues_of (z_number_refine [num_int, num_min 256 (Some ''Height must be at least 256''),
                                 num_max 1024 (Some ''Height cannot exceed 1024'')]
                  divisible_by_64 ''Height must be divisible by 64''
               [''height''] (map_of kvs ''height'')))"
    | "i \<in> set (issues_of (z_number [num_int, num_min 0 None, num_max 2147483647 None]
               [''seed''] (map_of kvs ''seed'')))"
    | "i \<in> set (issues_of (z_enum [(''low'', LOW), (''medium'', MEDIUM), (''high'', HIGH)]
               [''quality''] (map_of kvs ''quality'')))"
    | "i \<in> set (issues_of (z_enum [(''async'', ASYNC), (''sync'', SYNC)]
               [''mode''] (map_of kvs ''mode'')))"
    | "i \<in> set (issues_of (z_string [str_max 500 None]
               [''negativePrompt''] (map_of kvs ''negativePrompt'')))"
    unfolding schema_issues set_append Un_iff issues_default issues_optional
    by (elim disjE) (simp_all split: if_splits)
  then show ?thesis
    by cases (simp_all add: leaf_paths)
qed

text \<open>
  Claim C5, as amended. The shared schema accepts a request exactly when it is a JSON
  object in which \<open>prompt\<close> is a string of 1 to 1000 characters; \<open>steps\<close>, if given, is
  an integer in [1, 50]; \<open>guidanceScale\<close>, if given, is a number in [1, 20]; \<open>width\<close> and
  \<open>height\<close>, if given, are integers in [256, 1024] divisible by 64; \<open>seed\<close>, if given, is
  an integer in [0, 2^31 - 1]; \<open>quality\<close>, if given, is low, medium or high; \<open>mode\<close>, if
  given, is async or sync; and, beyond what the claim lists, \<open>modelId\<close>, if given, is a
  string and \<open>negativePrompt\<close>, if given, is a string of at most 500 characters. The
  validated request, with the defaults filled in, has every one of these fields in its
  range. Each field out of its range puts an issue with the field's own path, and with
  the schema's message for it where there is one, into the issues of the rejection.
\<close>

theorem schema_validation:
  "((\<exists>request. SubmitJobRequestSchema input = Inr request) \<longleftrightarrow>
      (\<exists>kvs. input = JObj kvs
         \<and> (\<exists>s. map_of kvs ''prompt'' = Some (JStr s) \<and> 1 \<le> length s \<and> length s \<le> 1000)
         \<and> (map_of kvs ''modelId'' = None \<or> (\<exists>s. map_of kvs ''modelId'' = Some (JStr s)))
         \<and> (map_of kvs ''steps'' = None
              \<or> (\<exists>n::int. map_of kvs ''steps'' = Some (JNum (of_int n)) \<and> 1 \<le> n \<and> n \<le> 50))
         \<and> (map_of kvs ''guidanceScale'' = None
              \<or> (\<exists>x. map_of kvs ''guidanceScale'' = Some (JNum x) \<and> 1 \<le> x \<and> x \<le> 20))
         \<and> (map_of kvs ''width'' = None
              \<or> (\<exists>n::int. map_of kvs ''width'' = Some (JNum (of_int n))
                    \<and> 256 \<le> n \<and> n \<le> 1024 \<and> n mod 64 = 0))
         \<and> (map_of kvs ''height'' = None
              \<or> (\<exists>n::int. map_of kvs ''height'' = Some (JNum (of_int n))
                    \<and> 256 \<le> n \<and> n \<le> 1024 \<and> n mod 64 = 0))
         \<and> (map_of kvs ''seed'' = None
              \<or> (\<exists>n::int. map_of kvs ''seed'' = Some (JNum (of_int n)) \<and> 0 \<le> n \<and> n \<le> 2147483647))
         \<and> (map_of kvs ''quality'' = None
              \<or> (\<exists>s. map_of kvs ''quality'' = Some (JStr s) \<and> s \<in> {''low'', ''medium'', ''high''}))
         \<and> (map_of kvs ''mode'' = None
              \<or> (\<exists>s. map_of kvs ''mode'' = Some (JStr s) \<and> s \<in> {''async'', ''sync''}))
         \<and> (map_of kvs ''negativePrompt'' = None
              \<or> (\<exists>s. map_of kvs ''negativePrompt'' = Some (JStr s) \<and> length s \<le> 500))))
   \<and> (\<forall>request. SubmitJobRequestSchema input = Inr request \<longrightarrow>
          1 \<le> length (prompt request) \<and> length (prompt request) \<le> 1000
          \<and> 1 \<le> steps request \<and> steps request \<le> 50
          \<and> 1 \<le> guidanceScale request \<and> guidanceScale request \<le> 20
          \<and> 256 \<le> width request \<and> width request \<le> 1024 \<and> width request mod 64 = 0
          \<and> 256 \<le> height request \<and> height request \<le> 1024 \<and> height request mod 64 = 0
          \<and> (\<forall>n. seed request = Some n \<longrightarrow> 0 \<le> n \<and> n \<le> 2147483647)
          \<and> (\<forall>s. negativePrompt request = Some s \<longrightarrow> length s \<le> 500))
   \<and> (\<forall>kvs s x. input = JObj kvs \<longrightarrow>
          (map_of kvs ''prompt'' = Some (JStr s) \<and> length s > 1000 \<longrightarrow>
             ZodIssue too_big [''prompt''] (Some ''Prompt too long (max 1000 characters)'')
               \<in> set (issues_of (SubmitJobRequestSchema input)))
          \<and> (map_of kvs ''prompt'' = Some (JStr []) \<longrightarrow>
             ZodIssue too_small [''prompt''] (Some ''Prompt cannot be empty'')
               \<in> set (issues_of (SubmitJobRequestSchema input)))
          \<and> (map_of kvs ''steps'' = Some (JNum x) \<and> x < 1 \<longrightarrow>
             ZodIssue too_small [''steps''] (Some ''Steps must be at least 1'')
               \<in> set (issues_of (SubmitJobRequestSchema input)))
          \<and> (map_of kvs ''steps'' = Some (JNum x) \<and> x > 50 \<longrightarrow>
             ZodIssue too_big [''steps''] (Some ''Steps cannot exceed 50'')
               \<in> set (issues_of (SubmitJobRequestSchema input)))
          \<and> (map_of kvs ''guidanceScale'' = Some (JNum x) \<and> x < 1 \<longrightarrow>
             ZodIssue too_small [''guidanceScale''] (Some ''Guidance scale must be at least 1.0'')
               \<in> set (issues_of (SubmitJobRequestSchema input)))
          \<and> (map_of kvs ''guidanceScale'' = Some (JNum x) \<and> x > 20 \<longrightarrow>
             ZodIssue too_big [''guidanceScale''] (Some ''Guidance scale cannot exceed 20.0'')
               \<in> set (issues_of (SubmitJobRequestSchema input)))
          \<and> (map_of kvs ''width'' = Some (JNum x) \<and> x < 256 \<longrightarrow>
             ZodIssue too_small [''width''] (Some ''Width must be at least 256'')
               \<in> set (issues_of (SubmitJobRequestSchema input)))
          \<and> (map_of kvs ''width'' = Some (JNum x) \<and> x > 1024 \<longrightarrow>
             ZodIssue too_big [''width''] (Some ''Width cannot exceed 1024'')
               \<in> set (issues_of (SubmitJobRequestSchema input)))
          \<and> (map_of kvs ''width'' = Some (JNum x) \<and> js_rem x 64 \<noteq> 0 \<longrightarrow>
             ZodIssue custom [''width''] (Some ''Width must be divisible by 64'')
               \<in> set (issues_of (SubmitJobRequestSchema input)))
          \<and> (map_of kvs ''height'' = Some (JNum x) \<and> x < 256 \<longrightarrow>
             ZodIssue too_small [''height''] (Some ''Height must be at least 256'')
               \<in> set (issues_of (SubmitJobRequestSchema input)))
          \<and> (map_of kvs ''height'' = Some (JNum x) \<and> x > 1024 \<longrightarrow>
             ZodIssue too_big [''height''] (Some ''Height cannot exceed 1024'')
               \<in> set (issues_of (SubmitJobRequestSchema input)))
          \<and> (map_of kvs ''height'' = Some (JNum x) \<and> js_rem x 64 \<noteq> 0 \<longrightarrow>
             ZodIssue custom [''height''] (Some ''Height must be divisible by 64'')
               \<in> set (issues_of (SubmitJobRequestSchema input)))
          \<and> (map_of kvs ''seed'' = Some (JNum x) \<and> x < 0 \<longrightarrow>
             ZodIssue too_small [''seed''] None \<in> set (issues_of (SubmitJobRequestSchema input)))
          \<and> (map_of kvs ''seed'' = Some (JNum x) \<and> x > 2147483647 \<longrightarrow>
             ZodIssue too_big [''seed''] None \<in> set (issues_of (SubmitJobRequestSchema input)))
          \<and> (map_of kvs ''quality'' = Some (JStr s) \<and> s \<notin> {''low'', ''medium'', ''high''} \<longrightarrow>
             ZodIssue invalid_enum_value [''quality''] None \<in> set (issues_of (SubmitJobRequestSchema input)))
          \<and> (map_of kvs ''mode'' = Some (JStr s) \<and> s \<notin> {''async'', ''sync''} \<longrightarrow>
             ZodIssue invalid_enum_value [''mode''] None \<in> set (issues_of (SubmitJobRequestSchema input)))
          \<and> (map_of kvs ''negativePrompt'' = Some (JStr s) \<and> length s > 500 \<longrightarrow>
             ZodIssue too_big [''negativePrompt''] None \<in> set (issues_of (SubmitJobRequestSchema input))))"
proof (intro conjI)
  show "(\<exists>request. SubmitJobRequestSchema input = Inr request) \<longleftrightarrow>
      (\<exists>kvs. input = JObj kvs
         \<and> (\<exists>s. map_of kvs ''prompt'' = Some (JStr s) \<and> 1 \<le> length s \<and> length s \<le> 1000)
         \<and> (map_of kvs ''modelId'' = None \<or> (\<exists>s. map_of kvs ''modelId'' = Some (JStr s)))
         \<and> (map_of kvs ''steps'' = None
              \<or> (\<exists>n::int. map_of kvs ''steps'' = Some (JNum (of_int n)) \<and> 1 \<le> n \<and> n \<le> 50))
         \<and> (map_of kvs ''guidanceScale'' = None
              \<or> (\<exists>x. map_of kvs ''guidanceScale'' = Some (JNum x) \<and> 1 \<le> x \<and> x \<le> 20))
         \<and> (map_of kvs ''width'' = None
              \<or> (\<exists>n::int. map_of kvs ''width'' = Some (JNum (of_int n))
                    \<and> 256 \<le> n \<and> n \<le> 1024 \<and> n mod 64 = 0))
         \<and> (map_of kvs ''height'' = None
              \<or> (\<exists>n::int. map_of kvs ''height'' = Some (JNum (of_int n))
                    \<and> 256 \<le> n \<and> n \<le> 1024 \<and> n mod 64 = 0))
         \<and> (map_of kvs ''seed'' = None
              \<or> (\<exists>n::int. map_of kvs ''seed'' = Some (JNum (of_int n)) \<and> 0 \<le> n \<and> n \<le> 2147483647))
         \<and> (map_of kvs ''quality'' = None
              \<or> (\<exists>s. map_of kvs ''quality'' = Some (JStr s) \<and> s \<in> {''low'', ''medium'', ''high''}))
         \<and> (map_of kvs ''mode'' = None
              \<or> (\<exists>s. map_of kvs ''mode'' = Some (JStr s) \<and> s \<in> {''async'', ''sync''}))
         \<and> (map_of kvs ''negativePrompt'' = None
              \<or> (\<exists>s. map_of kvs ''negativePrompt'' = Some (JStr s) \<and> length s \<le> 500)))"
  proof (cases input)
    case (JObj kvs)
    then show ?thesis by (simp only: schema_JObj_ok json.inject simp_thms ex_simps)
  qed (simp_all add: SubmitJobRequestSchema_def)
next
  show "\<forall>request. SubmitJobRequestSchema input = Inr request \<longrightarrow>
          1 \<le> length (prompt request) \<and> length (prompt request) \<le> 1000
          \<and> 1 \<le> steps request \<and> steps request \<le> 50
          \<and> 1 \<le> guidanceScale request \<and> guidanceScale request \<le> 20
          \<and> 256 \<le> width request \<and> width request \<le> 1024 \<and> width request mod 64 = 0
          \<and> 256 \<le> height request \<and> height request \<le> 1024 \<and> height request mod 64 = 0
          \<and> (\<forall>n. seed request = Some n \<longrightarrow> 0 \<le> n \<and> n \<le> 2147483647)
          \<and> (\<forall>s. negativePrompt request = Some s \<longrightarrow> length s \<le> 500)"
    by (intro allI impI) (rule schema_request_ranges)
qed (intro allI impI conjI; (elim conjE)?; hypsubst; (rule field_issues; assumption))


lemmas zod_defs = SubmitJobRequestSchema_def z_field_def z_string_def z_number_def z_number_refine_def
  z_enum_def z_optional_def z_default_def str_min_def str_max_def num_int_def num_min_def num_max_def
  divisible_by_64_def js_rem_def Number_isInteger_def mk_request_def

lemmas validateInput_defs = validateInput_def js_gt_def js_rem_def trim_def is_space_def

theorem schema_validation_witness:
  "(\<exists>request. SubmitJobRequestSchema async_json = Inr request)
   \<and> ZodIssue too_big [''steps''] (Some ''Steps cannot exceed 50'')
        \<in> set (issues_of (SubmitJobRequestSchema bad_json))
   \<and> ZodIssue custom [''width''] (Some ''Width must be divisible by 64'')
        \<in> set (issues_of (SubmitJobRequestSchema bad_json))"
proof -
  note accepts = schema_validation [of async_json, THEN conjunct1]
  note rejects = schema_validation [of bad_json, THEN conjunct2, THEN conjunct2]
  have "\<exists>n::int. (20::real) = of_int n \<and> 1 \<le> n \<and> n \<le> 50"
    by (rule exI [of _ 20]) simp
  then have 1: "\<exists>request. SubmitJobRequestSchema async_json = Inr request"
    unfolding accepts by (simp add: async_json_def)
  from rejects [THEN spec [where x = "[(''prompt'', JStr ''a cat''), (''steps'', JNum 100), (''width'', JNum 500)]"],
      THEN spec [where x = "[]"], THEN spec [where x = 100]]
  have 2: "ZodIssue too_big [''steps''] (Some ''Steps cannot exceed 50'')
        \<in> set (issues_of (SubmitJobRequestSchema bad_json))"
    by (simp add: bad_json_def)
  from rejects [THEN spec [where x = "[(''prompt'', JStr ''a cat''), (''steps'', JNum 100), (''width'', JNum 500)]"],
      THEN spec [where x = "[]"], THEN spec [where x = 500]]
  have 3: "ZodIssue custom [''width''] (Some ''Width must be divisible by 64'')
        \<in> set (issues_of (SubmitJobRequestSchema bad_json))"
    by (simp add: bad_json_def js_rem_def)
  from 1 2 3 show ?thesis by (intro conjI)
qed

text \<open>
  The claim as stated fails: a request that meets every condition the claim lists is
  rejected by the schema for its \<open>negativePrompt\<close> of 501 characters; and
  \<open>validateInput\<close> of the deployed handler accepts \<open>steps = 0\<close> and \<open>steps = 1.5\<close>.
\<close>

theorem listed_conditions_not_sufficient:
  "SubmitJobRequestSchema
     (JObj [(''prompt'', JStr ''a cat''), (''steps'', JNum 20), (''guidanceScale'', JNum 7.5),
            (''width'', JNum 512), (''height'', JNum 512), (''seed'', JNum 42),
            (''quality'', JStr ''high''), (''mode'', JStr ''async''),
            (''negativePrompt'', JStr (replicate 501 CHR ''x''))])
     = Inl [ZodIssue too_big [''negativePrompt''] None]
   \<and> validateInput (\<lambda>v. None) (JObj [(''prompt'', JStr ''a cat''), (''steps'', JNum 0)]) = Inr []
   \<and> validateInput (\<lambda>v. None) (JObj [(''prompt'', JStr ''a cat''), (''steps'', JNum 1.5)]) = Inr []"
  by (simp add: zod_defs validateInput_defs)

section \<open>Rejected requests\<close>

lemma update_error_status:
  "updateJobStatus tu tc j st ups tbl = Inl err \<Longrightarrow> statusCode (errorResponse d err) \<noteq> 400"
  by (auto simp add: updateJobStatus_def Let_def split: if_splits option.splits)

lemma dispatch_failed_status:
  assumes "statusCode (errorResponse d err) \<noteq> 400"
    and "dispatch_failed e n j err w = (res, w')"
  shows "\<exists>err'. res = Inl err' \<and> statusCode (errorResponse d err') \<noteq> 400"
proof (cases "updateJobStatus (clock e n) (clock e (n + 1)) j FAILED
                [(''error'', Some (JStr (error_message err)))] (jobs w)")
  case (Inl err2)
  with assms(2) update_error_status [OF Inl, of d] show ?thesis
    by (auto simp add: dispatch_failed_def)
next
  case (Inr tbl)
  with assms show ?thesis
    by (auto simp add: dispatch_failed_def)
qed

lemma invoke_error_status:
  shows "invokeSync e request = Inl err \<Longrightarrow> statusCode (errorResponse d err) \<noteq> 400"
    and "invokeAsync e j request stg = (Inl err, stg') \<Longrightarrow> statusCode (errorResponse d err) \<noteq> 400"
  by (auto simp add: invokeSync_def invokeAsync_def Let_def split: sum.splits option.splits if_splits)

lemma submit_sync_status:
  assumes "submit_sync e j request w = (res, w')"
  shows "case res of Inl err \<Rightarrow> statusCode (errorResponse d err) \<noteq> 400 | Inr r \<Rightarrow> statusCode r \<noteq> 400"
proof (cases "invokeSync e request")
  case (Inl err)
  with assms have "dispatch_failed e 1 j err w = (res, w')"
    by (simp add: submit_sync_def)
  from dispatch_failed_status [where d = d, OF invoke_error_status(1) [OF Inl] this] show ?thesis
    by auto
next
  case (Inr result)
  show ?thesis
  proof (cases "updateJobStatus (clock e 1) (clock e 2) j SUCCEEDED
                  [(''metadata'', map_option (\<lambda>m. JStr (JSON_stringify e m)) (js_get result ''metadata''))]
                  (jobs w)")
    case (Inl err)
    with Inr assms have "dispatch_failed e 3 j err w = (res, w')"
      by (simp add: submit_sync_def)
    from dispatch_failed_status [where d = d, OF update_error_status [OF Inl] this] show ?thesis
      by auto
  next
    case (Inr tbl)
    have s: "statusCode (errorResponse d (Error m)) \<noteq> 400" for m by simp
    show ?thesis
    proof (cases "js_get result ''metadata''")
      case None
      with \<open>invokeSync e request = Inr result\<close> Inr assms
      have "dispatch_failed e 3 j (Error (cannot_read ''undefined'' ''generation_time_seconds''))
              (w\<lparr>jobs := tbl\<rparr>) = (res, w')"
        by (simp add: submit_sync_def)
      from dispatch_failed_status [where d = d, OF s this] show ?thesis by auto
    next
      case (Some metadata)
      show ?thesis
      proof (cases "metadata = JNull")
        case True
        with Some \<open>invokeSync e request = Inr result\<close> Inr assms
        have "dispatch_failed e 3 j (Error (cannot_read ''null'' ''generation_time_seconds''))
              (w\<lparr>jobs := tbl\<rparr>) = (res, w')"
          by (simp add: submit_sync_def)
        from dispatch_failed_status [where d = d, OF s this] show ?thesis by auto
      next
        case False
        with Some \<open>invokeSync e request = Inr result\<close> Inr assms show ?thesis
          by (cases metadata) (auto simp add: submit_sync_def successResponse_def)
      qed
    qed
  qed
qed

lemma submit_async_status:
  assumes "submit_async e j request w = (res, w')"
  shows "case res of Inl err \<Rightarrow> statusCode (errorResponse d err) \<noteq> 400 | Inr r \<Rightarrow> statusCode r \<noteq> 400"
proof (cases "invokeAsync e j request (staging w)")
  case (Pair out stg)
  show ?thesis
  proof (cases out)
    case (Inl err)
    with Pair assms have f: "dispatch_failed e 2 j err (w\<lparr>staging := stg\<rparr>) = (res, w')"
      by (simp add: submit_async_def)
    from Pair Inl have "invokeAsync e j request (staging w) = (Inl err, stg)" by simp
    from dispatch_failed_status [where d = d, OF invoke_error_status(2) [OF this] f] show ?thesis
      by auto
  next
    case (Inr outputLocation)
    show ?thesis
    proof (cases "updateJobStatus (clock e 2) (clock e 3) j RUNNING [] (jobs w)")
      case (Inl err)
      with Pair Inr assms have "dispatch_failed e 3 j err (w\<lparr>staging := stg\<rparr>) = (res, w')"
        by (simp add: submit_async_def)
      from dispatch_failed_status [where d = d, OF update_error_status [OF Inl] this] show ?thesis
        by auto
    next
      case (Inr tbl)
      with Pair \<open>out = Inr outputLocation\<close> assms show ?thesis
        by (auto simp add: submit_async_def successResponse_def)
    qed
  qed
qed


lemma submit_400_writes_nothing:
  assumes "statusCode (fst (submit_job_handler e event w)) = 400"
  shows "snd (submit_job_handler e event w) = w"
proof (cases "submit_job_try e event w")
  case (Pair res w')
  show ?thesis
  proof (cases "w' = w")
    case True
    with Pair show ?thesis by (simp add: submit_job_handler_def split: sum.splits)
  next
    case False
    with Pair obtain j request w1 where
      "submit_sync e j request w1 = (res, w') \<or> submit_async e j request w1 = (res, w')"
      by (auto simp add: submit_job_try_def split: if_splits sum.splits option.splits)
    then have "case res of Inl err \<Rightarrow> statusCode (errorResponse (development e) err) \<noteq> 400
                | Inr r \<Rightarrow> statusCode r \<noteq> 400"
      using submit_sync_status [of e j request w1 res w' "development e"]
            submit_async_status [of e j request w1 res w' "development e"]
      by blast
    with assms Pair show ?thesis
      by (simp add: submit_job_handler_def split: sum.splits)
  qed
qed

lemma js_dispatch_status:
  assumes "JSON_parse e (case body event of None \<Rightarrow> ''{}'' | Some text \<Rightarrow> if text = [] then ''{}'' else text)
             = Inr bdy"
    and "validateInput (to_number e) bdy = Inr []"
    and "js_get bdy ''prompt'' = Some (JStr p)"
  shows "statusCode (fst (submit_job_js_handler e event w)) \<noteq> 400"
  using assms
  by (simp add: submit_job_js_handler_def submit_job_js_try_def js_response_def Let_def
        split: sum.splits option.splits)

lemma js_submit_400_writes_nothing:
  assumes "statusCode (fst (submit_job_js_handler e event w)) = 400"
  shows "snd (submit_job_js_handler e event w) = w"
proof (cases "JSON_parse e (case body event of None \<Rightarrow> ''{}'' | Some text \<Rightarrow> if text = [] then ''{}'' else text)")
  case (Inl m)
  then show ?thesis
    by (simp add: submit_job_js_handler_def submit_job_js_try_def)
next
  case (Inr bdy)
  note parsed = this
  show ?thesis
  proof (cases "validateInput (to_number e) bdy")
    case (Inl err)
    with parsed show ?thesis
      by (simp add: submit_job_js_handler_def submit_job_js_try_def)
  next
    case (Inr validationErrors)
    show ?thesis
    proof (cases "validationErrors = []")
      case False
      with parsed Inr show ?thesis
        by (simp add: submit_job_js_handler_def submit_job_js_try_def)
    next
      case True
      show ?thesis
      proof (cases "\<exists>p. js_get bdy ''prompt'' = Some (JStr p)")
        case True
        then obtain p where "js_get bdy ''prompt'' = Some (JStr p)" ..
        from js_dispatch_status [OF parsed _ this, of w] Inr \<open>validationErrors = []\<close> assms
        show ?thesis by simp
      next
        case False
        with parsed Inr \<open>validationErrors = []\<close> show ?thesis
          by (simp add: submit_job_js_handler_def submit_job_js_try_def
                split: option.splits json.splits)
      qed
    qed
  qed
qed

text \<open>
  Claim C9. A submit call whose request fails validation is answered with status 400 and
  the list of violations, and writes nothing: in submit-job.ts, for an authenticated call
  whose body parses, the response carries the schema's issues (at least one; for an object
  body each under the path of one request field); in the deployed submit-job.js it carries
  the messages of \<open>validateInput\<close>. In both handlers every response with status 400 leaves
  the job table and the staging bucket as they were.
\<close>

theorem rejected_request_writes_nothing:
  "(httpMethod event \<noteq> ''OPTIONS'' \<and> extractUserContext event = Inr ctx
      \<and> body event = Some text \<and> text \<noteq> [] \<and> JSON_parse e text = Inr requestBody
      \<and> SubmitJobRequestSchema requestBody = Inl issues
    \<longrightarrow> submit_job_handler e event w
          = (\<lparr>statusCode = 400, headers = CORS_HEADERS,
              payload = Failure ''Validation failed'' (Some ''Invalid request parameters'')
                          (Some (Issues issues))\<rparr>, w)
        \<and> issues \<noteq> []
        \<and> (\<forall>kvs i. requestBody = JObj kvs \<and> i \<in> set issues \<longrightarrow>
              issue_path i \<in> set [[''prompt''], [''modelId''], [''steps''], [''guidanceScale''],
                [''width''], [''height''], [''seed''], [''quality''], [''mode''], [''negativePrompt'']]))
   \<and> (JSON_parse e (case body event of None \<Rightarrow> ''{}'' | Some text \<Rightarrow> if text = [] then ''{}'' else text)
        = Inr bdy
      \<and> validateInput (to_number e) bdy = Inr errors \<and> errors \<noteq> []
    \<longrightarrow> submit_job_js_handler e event w
          = (js_response ''OPTIONS,POST'' 400 (Failure ''Validation failed'' None (Some (Messages errors))), w))
   \<and> (statusCode (fst (submit_job_handler e event w)) = 400 \<longrightarrow> snd (submit_job_handler e event w) = w)
   \<and> (statusCode (fst (submit_job_js_handler e event w)) = 400
        \<longrightarrow> snd (submit_job_js_handler e event w) = w)"
proof (intro conjI impI)
  assume a: "httpMethod event \<noteq> ''OPTIONS'' \<and> extractUserContext event = Inr ctx
      \<and> body event = Some text \<and> text \<noteq> [] \<and> JSON_parse e text = Inr requestBody
      \<and> SubmitJobRequestSchema requestBody = Inl issues"
  then show "submit_job_handler e event w
          = (\<lparr>statusCode = 400, headers = CORS_HEADERS,
              payload = Failure ''Validation failed'' (Some ''Invalid request parameters'')
                          (Some (Issues issues))\<rparr>, w)"
    by (simp add: submit_job_handler_def submit_job_try_def)
  from a schema_not_empty [of requestBody] show "issues \<noteq> []"
    by auto
  from a have i: "issues = issues_of (SubmitJobRequestSchema requestBody)"
    by (simp add: issues_of_def)
  show "\<forall>kvs i. requestBody = JObj kvs \<and> i \<in> set issues \<longrightarrow>
              issue_path i \<in> set [[''prompt''], [''modelId''], [''steps''], [''guidanceScale''],
                [''width''], [''height''], [''seed''], [''quality''], [''mode''], [''negativePrompt'']]"
    unfolding i using schema_issue_paths by blast
next
  assume "JSON_parse e (case body event of None \<Rightarrow> ''{}'' | Some text \<Rightarrow> if text = [] then ''{}'' else text)
        = Inr bdy
      \<and> validateInput (to_number e) bdy = Inr errors \<and> errors \<noteq> []"
  then show "submit_job_js_handler e event w
          = (js_response ''OPTIONS,POST'' 400 (Failure ''Validation failed'' None (Some (Messages errors))), w)"
    by (simp add: submit_job_js_handler_def submit_job_js_try_def)
next
  assume "statusCode (fst (submit_job_handler e event w)) = 400"
  then show "snd (submit_job_handler e event w) = w"
    by (rule submit_400_writes_nothing)
next
  assume "statusCode (fst (submit_job_js_handler e event w)) = 400"
  then show "snd (submit_job_js_handler e event w) = w"
    by (rule js_submit_400_writes_nothing)
qed

theorem rejected_request_writes_nothing_witness:
  "submit_job_handler sample_env (sample_event ''u1'' None (Some bad_body)) empty_world
     = (\<lparr>statusCode = 400, headers = CORS_HEADERS,
         payload = Failure ''Validation failed'' (Some ''Invalid request parameters'')
           (Some (Issues [ZodIssue too_big [''steps''] (Some ''Steps cannot exceed 50''),
                          ZodIssue custom [''width''] (Some ''Width must be divisible by 64'')]))\<rparr>,
        empty_world)
   \<and> submit_job_js_handler sample_env (sample_event ''u1'' None (Some bad_body)) empty_world
     = (js_response ''OPTIONS,POST'' 400
          (Failure ''Validation failed'' None
             (Some (Messages [''steps must be a number between 1 and 50'',
                              ''width must be a number between 256 and 1024, divisible by 64'']))),
        empty_world)"
proof -
  have 1: "httpMethod (sample_event ''u1'' None (Some bad_body)) \<noteq> ''OPTIONS''
      \<and> extractUserContext (sample_event ''u1'' None (Some bad_body))
          = Inr \<lparr>userId = ''u1'', email = None, username = None, isAdmin = False\<rparr>
      \<and> body (sample_event ''u1'' None (Some bad_body)) = Some bad_body \<and> bad_body \<noteq> []
      \<and> JSON_parse sample_env bad_body = Inr bad_json
      \<and> SubmitJobRequestSchema bad_json
          = Inl [ZodIssue too_big [''steps''] (Some ''Steps cannot exceed 50''),
                 ZodIssue custom [''width''] (Some ''Width must be divisible by 64'')]"
    by (simp add: sample_defs auth_defs js_or_def zod_defs)
  have 2: "JSON_parse sample_env (case body (sample_event ''u1'' None (Some bad_body)) of None \<Rightarrow> ''{}''
              | Some text \<Rightarrow> if text = [] then ''{}'' else text) = Inr bad_json
      \<and> validateInput (to_number sample_env) bad_json
          = Inr [''steps must be a number between 1 and 50'',
                 ''width must be a number between 256 and 1024, divisible by 64'']
      \<and> [''steps must be a number between 1 and 50'',
          ''width must be a number between 256 and 1024, divisible by 64''] \<noteq> []"
    by (simp add: sample_defs validateInput_defs)
  note ts = rejected_request_writes_nothing [where e = sample_env and w = empty_world,
      THEN conjunct1, THEN mp, OF 1, THEN conjunct1]
  note js = rejected_request_writes_nothing [where e = sample_env and w = empty_world,
      THEN conjunct2, THEN conjunct1, THEN mp, OF 2]
  from ts js show ?thesis by (rule conjI)
qed

section \<open>Dispatch\<close>

lemma context_user_nonempty:
  "extractUserContext event = Inr ctx \<Longrightarrow> userId ctx \<noteq> []"
  by (auto simp add: auth_defs split: option.splits if_splits sum.splits)

lemma submit_reaches_dispatch:
  assumes "httpMethod event \<noteq> ''OPTIONS''"
    and "extractUserContext event = Inr ctx"
    and "body event = Some text" and "text \<noteq> []"
    and "JSON_parse e text = Inr requestBody"
    and "SubmitJobRequestSchema requestBody = Inr request"
    and "new_id e \<noteq> []" and "clock e 0 \<noteq> []"
    and "jobs w (new_id e) = None"
  shows "submit_job_try e event w =
     (if mode request = SYNC
      then submit_sync e (new_id e) request
             (w\<lparr>jobs := (jobs w)(new_id e \<mapsto>
                new_job_item (new_id e) (userId ctx) (clock e 0) request (epoch_seconds e))\<rparr>)
      else submit_async e (new_id e) request
             (w\<lparr>jobs := (jobs w)(new_id e \<mapsto>
                new_job_item (new_id e) (userId ctx) (clock e 0) request (epoch_seconds e))\<rparr>))"
proof -
  have "new_job_item (new_id e) (userId ctx) (clock e 0) request (epoch_seconds e) ''jobId''
          = Some (JStr (new_id e))"
    by (simp add: new_job_item_def)
  moreover have "put_accepted (new_job_item (new_id e) (userId ctx) (clock e 0) request (epoch_seconds e))"
    using assms(7,8) context_user_nonempty [OF assms(2)] by (simp add: put_accepted_new_job_item)
  ultimately show ?thesis
    using assms by (simp add: submit_job_try_def createJob_def)
qed

lemma failed_update_accepted:
  "jobId \<noteq> [] \<Longrightarrow> update_accepted jobId (update_assignments tu tc FAILED [(''error'', Some (JStr m))])"
  by (simp add: update_assignments_def table_defs)

lemma running_update_accepted:
  "jobId \<noteq> [] \<Longrightarrow> update_accepted jobId (update_assignments tu tc RUNNING [])"
  by (simp add: update_assignments_def table_defs)

lemma dispatch_failed_existing:
  assumes "jobs w jobId = Some it" and "jobId \<noteq> []"
  shows "dispatch_failed e n jobId err w =
           (Inl err, w\<lparr>jobs := (jobs w)(jobId \<mapsto> it ++ map_of (update_assignments (clock e n)
              (clock e (n + 1)) FAILED [(''error'', Some (JStr (error_message err)))]))\<rparr>)"
  using assms failed_update_accepted [OF assms(2), of "clock e n" "clock e (n + 1)" "error_message err"]
  by (simp add: dispatch_failed_def updateJobStatus_def)

lemma sample_reaches_dispatch:
  shows "httpMethod (sample_event ''u1'' None (Some async_body)) \<noteq> ''OPTIONS''"
    and "extractUserContext (sample_event ''u1'' None (Some async_body))
           = Inr \<lparr>userId = ''u1'', email = None, username = None, isAdmin = False\<rparr>"
    and "body (sample_event ''u1'' None (Some async_body)) = Some async_body"
    and "async_body \<noteq> []"
    and "JSON_parse (sample_env\<lparr>s3_put := put\<rparr>) async_body = Inr async_json"
    and "SubmitJobRequestSchema async_json = Inr async_request"
    and "new_id (sample_env\<lparr>s3_put := put\<rparr>) \<noteq> []"
    and "clock (sample_env\<lparr>s3_put := put\<rparr>) 0 \<noteq> []"
    and "jobs empty_world (new_id (sample_env\<lparr>s3_put := put\<rparr>)) = None"
    and "mode async_request = ASYNC"
  by (simp_all add: sample_defs auth_defs js_or_def zod_defs async_request_def)

text \<open>
  In submit-job.ts a valid asynchronous submit whose dispatch succeeds stages the input,
  marks the created job \<open>RUNNING\<close> and answers 202 with the job id, the status \<open>PENDING\<close>
  and the wait estimate. The job id is a fresh one, and like the timestamp of the creation
  it is not the empty string (\<open>ulid\<close> and \<open>toISOString\<close> never return it).
\<close>

theorem async_submit_marks_running:
  assumes "httpMethod event \<noteq> ''OPTIONS''"
    and "extractUserContext event = Inr ctx"
    and "body event = Some text" and "text \<noteq> []"
    and "JSON_parse e text = Inr requestBody"
    and "SubmitJobRequestSchema requestBody = Inr request"
    and "new_id e \<noteq> []" and "clock e 0 \<noteq> []"
    and "jobs w (new_id e) = None"
    and "mode request = ASYNC"
    and "s3_put e = None"
    and "endpoint_async e = Inr (Some outputLocation)" and "outputLocation \<noteq> []"
  shows "fst (submit_job_handler e event w)
           = successResponse
               (Submitted \<lparr>r_jobId = new_id e, r_status = PENDING,
                  r_message = Some ''Job submitted successfully. First inference may take up to 60 seconds due to cold start.'',
                  r_estimatedWaitTime = Some ''60-120 seconds'', r_result = None\<rparr>) 202
         \<and> job_attr (jobs (snd (submit_job_handler e event w))) (new_id e) ''status''
             = Some (JStr ''RUNNING'')
         \<and> job_attr (jobs (snd (submit_job_handler e event w))) (new_id e) ''updatedAt''
             = Some (JStr (clock e 2))
         \<and> staging (snd (submit_job_handler e event w)) (''jobs/'' @ new_id e @ ''/input.json'')
             = Some (createInferenceInput request)"
proof -
  note reach = submit_reaches_dispatch [OF assms(1-9)]
  note d = running_update_accepted [OF assms(7), of "clock e 2" "clock e 3"]
  show ?thesis
    using assms(10-13) d
    by (simp add: submit_job_handler_def reach submit_async_def invokeAsync_def Let_def
          updateJobStatus_def job_attr_def map_add_def)
       (simp add: update_assignments_def)
qed

theorem async_submit_marks_running_witness:
  "fst (submit_job_handler (sample_env\<lparr>s3_put := None\<rparr>) (sample_event ''u1'' None (Some async_body))
          empty_world)
     = successResponse
         (Submitted \<lparr>r_jobId = new_id (sample_env\<lparr>s3_put := None\<rparr>), r_status = PENDING,
            r_message = Some ''Job submitted successfully. First inference may take up to 60 seconds due to cold start.'',
            r_estimatedWaitTime = Some ''60-120 seconds'', r_result = None\<rparr>) 202
   \<and> job_attr (jobs (snd (submit_job_handler (sample_env\<lparr>s3_put := None\<rparr>)
         (sample_event ''u1'' None (Some async_body)) empty_world)))
         (new_id (sample_env\<lparr>s3_put := None\<rparr>)) ''status'' = Some (JStr ''RUNNING'')
   \<and> job_attr (jobs (snd (submit_job_handler (sample_env\<lparr>s3_put := None\<rparr>)
         (sample_event ''u1'' None (Some async_body)) empty_world)))
         (new_id (sample_env\<lparr>s3_put := None\<rparr>)) ''updatedAt''
       = Some (JStr (clock (sample_env\<lparr>s3_put := None\<rparr>) 2))
   \<and> staging (snd (submit_job_handler (sample_env\<lparr>s3_put := None\<rparr>)
         (sample_event ''u1'' None (Some async_body)) empty_world))
         (''jobs/'' @ new_id (sample_env\<lparr>s3_put := None\<rparr>) @ ''/input.json'')
       = Some (createInferenceInput async_request)"
proof -
  have a: "s3_put (sample_env\<lparr>s3_put := None\<rparr>) = None"
    and b: "endpoint_async (sample_env\<lparr>s3_put := None\<rparr>) = Inr (Some ''s3://output/location'')"
    and c: "''s3://output/location'' \<noteq> []"
    by (simp_all add: sample_env_def)
  show ?thesis
    by (rule async_submit_marks_running [OF sample_reaches_dispatch a b c])
qed

text \<open>
  Claim C7. A valid asynchronous submit that dispatches successfully is to leave the stored
  job \<open>RUNNING\<close> and answer 202 with the job id, \<open>PENDING\<close> and the wait estimate. The
  deployed submit-job.js answers so but never writes \<open>RUNNING\<close>: on the sample request the
  stored job is still \<open>PENDING\<close> when the handler returns.
\<close>

theorem js_async_submit_stays_pending:
  "fst (submit_job_js_handler sample_env (sample_event ''u1'' None (Some async_body)) empty_world)
     = js_response ''OPTIONS,POST'' 202
         (Submitted \<lparr>r_jobId = ''01HKJOB1'', r_status = PENDING,
            r_message = Some ''Job submitted successfully. First inference may take up to 60 seconds due to cold start.'',
            r_estimatedWaitTime = Some ''60-120 seconds'', r_result = None\<rparr>)
   \<and> job_attr (jobs (snd (submit_job_js_handler sample_env (sample_event ''u1'' None (Some async_body))
         empty_world))) ''01HKJOB1'' ''status'' = Some (JStr ''PENDING'')"
  by (simp add: js_submit_defs sample_defs auth_defs)

text \<open>
  In submit-job.ts a failing dispatch step, in either mode, leaves the created job
  \<open>FAILED\<close> with the message of the error the step threw and with \<open>completedAt\<close>, and the
  caller gets the error response of that same error; nothing is retried. The completion
  timestamp is the second reading of the clock by the update: reading 2 in synchronous
  mode, reading 3 in asynchronous mode, where \<open>invokeAsync\<close> has taken one before.
\<close>

theorem dispatch_failure_marks_failed:
  assumes "httpMethod event \<noteq> ''OPTIONS''"
    and "extractUserContext event = Inr ctx"
    and "body event = Some text" and "text \<noteq> []"
    and "JSON_parse e text = Inr requestBody"
    and "SubmitJobRequestSchema requestBody = Inr request"
    and "new_id e \<noteq> []" and "clock e 0 \<noteq> []"
    and "jobs w (new_id e) = None"
    and "(mode request = SYNC \<and> invokeSync e request = Inl err)
         \<or> (mode request = ASYNC \<and> fst (invokeAsync e (new_id e) request (staging w)) = Inl err)"
  shows "fst (submit_job_handler e event w) = errorResponse (development e) err
         \<and> job_attr (jobs (snd (submit_job_handler e event w))) (new_id e) ''status''
             = Some (JStr ''FAILED'')
         \<and> job_attr (jobs (snd (submit_job_handler e event w))) (new_id e) ''error''
             = Some (JStr (error_message err))
         \<and> job_attr (jobs (snd (submit_job_handler e event w))) (new_id e) ''completedAt''
             = Some (JStr (clock e (if mode request = SYNC then 2 else 3)))"
proof -
  note reach = submit_reaches_dispatch [OF assms(1-9)]
  define item where "item = new_job_item (new_id e) (userId ctx) (clock e 0) request (epoch_seconds e)"
  define w1 where "w1 = w\<lparr>jobs := (jobs w)(new_id e \<mapsto> item)\<rparr>"
  have j: "jobs w1 (new_id e) = Some item" by (simp add: w1_def)
  from assms(10) show ?thesis
  proof
    assume a: "mode request = SYNC \<and> invokeSync e request = Inl err"
    then have "submit_job_try e event w = dispatch_failed e 1 (new_id e) err w1"
      by (simp add: reach submit_sync_def w1_def item_def)
    with a show ?thesis
      by (simp add: submit_job_handler_def dispatch_failed_existing [OF j assms(7)] job_attr_def
            map_add_def update_assignments_def numeral_2_eq_2)
  next
    assume a: "mode request = ASYNC \<and> fst (invokeAsync e (new_id e) request (staging w)) = Inl err"
    define stg where "stg = snd (invokeAsync e (new_id e) request (staging w))"
    from a have i: "invokeAsync e (new_id e) request (staging w1) = (Inl err, stg)"
      by (simp add: stg_def w1_def prod_eq_iff)
    have j': "jobs (w1\<lparr>staging := stg\<rparr>) (new_id e) = Some item" by (simp add: w1_def)
    from a i have "submit_job_try e event w = dispatch_failed e 2 (new_id e) err (w1\<lparr>staging := stg\<rparr>)"
      by (simp add: reach submit_async_def w1_def item_def)
    with a show ?thesis
      by (simp add: submit_job_handler_def dispatch_failed_existing [OF j' assms(7)] job_attr_def
            map_add_def update_assignments_def numeral_3_eq_3)
  qed
qed

theorem dispatch_failure_marks_failed_witness:
  "fst (submit_job_handler (sample_env\<lparr>s3_put := Some ''staging bucket unavailable''\<rparr>)
          (sample_event ''u1'' None (Some async_body)) empty_world)
     = errorResponse (development (sample_env\<lparr>s3_put := Some ''staging bucket unavailable''\<rparr>))
         (InternalError ''Failed to start inference'')
   \<and> job_attr (jobs (snd (submit_job_handler (sample_env\<lparr>s3_put := Some ''staging bucket unavailable''\<rparr>)
         (sample_event ''u1'' None (Some async_body)) empty_world)))
         (new_id (sample_env\<lparr>s3_put := Some ''staging bucket unavailable''\<rparr>)) ''status''
       = Some (JStr ''FAILED'')
   \<and> job_attr (jobs (snd (submit_job_handler (sample_env\<lparr>s3_put := Some ''staging bucket unavailable''\<rparr>)
         (sample_event ''u1'' None (Some async_body)) empty_world)))
         (new_id (sample_env\<lparr>s3_put := Some ''staging bucket unavailable''\<rparr>)) ''error''
       = Some (JStr (error_message (InternalError ''Failed to start inference'')))
   \<and> job_attr (jobs (snd (submit_job_handler (sample_env\<lparr>s3_put := Some ''staging bucket unavailable''\<rparr>)
         (sample_event ''u1'' None (Some async_body)) empty_world)))
         (new_id (sample_env\<lparr>s3_put := Some ''staging bucket unavailable''\<rparr>)) ''completedAt''
       = Some (JStr (clock (sample_env\<lparr>s3_put := Some ''staging bucket unavailable''\<rparr>)
           (if mode async_request = SYNC then 2 else 3)))"
proof -
  have "fst (invokeAsync (sample_env\<lparr>s3_put := Some ''staging bucket unavailable''\<rparr>)
               (new_id (sample_env\<lparr>s3_put := Some ''staging bucket unavailable''\<rparr>)) async_request
               (staging empty_world))
          = Inl (InternalError ''Failed to start inference'')"
    by (simp add: invokeAsync_def sample_env_def)
  with sample_reaches_dispatch(10)
  have f: "(mode async_request = SYNC
              \<and> invokeSync (sample_env\<lparr>s3_put := Some ''staging bucket unavailable''\<rparr>) async_request
                  = Inl (InternalError ''Failed to start inference''))
           \<or> (mode async_request = ASYNC
              \<and> fst (invokeAsync (sample_env\<lparr>s3_put := Some ''staging bucket unavailable''\<rparr>)
                    (new_id (sample_env\<lparr>s3_put := Some ''staging bucket unavailable''\<rparr>)) async_request
                    (staging empty_world))
                  = Inl (InternalError ''Failed to start inference''))"
    by simp
  show ?thesis
    by (rule dispatch_failure_marks_failed [OF sample_reaches_dispatch(1-9) f])
qed

text \<open>
  Claim C4. A submit call whose dispatch step fails is to leave the job \<open>FAILED\<close> with the
  error recorded and to surface the error. In the asynchronous branch of the deployed
  submit-job.js nothing catches a failing staging write or endpoint invocation but the
  handler's outer \<open>catch\<close>: the caller gets status 500, and the stored job stays \<open>PENDING\<close>
  with no error on it.
\<close>

theorem js_dispatch_failure_stays_pending:
  "statusCode (fst (submit_job_js_handler (sample_env\<lparr>s3_put := Some ''staging bucket unavailable''\<rparr>)
      (sample_event ''u1'' None (Some async_body)) empty_world)) = 500
   \<and> job_attr (jobs (snd (submit_job_js_handler (sample_env\<lparr>s3_put := Some ''staging bucket unavailable''\<rparr>)
         (sample_event ''u1'' None (Some async_body)) empty_world))) ''01HKJOB1'' ''status''
       = Some (JStr ''PENDING'')
   \<and> job_attr (jobs (snd (submit_job_js_handler (sample_env\<lparr>s3_put := Some ''staging bucket unavailable''\<rparr>)
         (sample_event ''u1'' None (Some async_body)) empty_world))) ''01HKJOB1'' ''error'' = None
   \<and> job_attr (jobs (snd (submit_job_js_handler (sample_env\<lparr>endpoint_async := Inl ''endpoint unreachable''\<rparr>)
         (sample_event ''u1'' None (Some async_body)) empty_world))) ''01HKJOB1'' ''status''
       = Some (JStr ''PENDING'')"
  by (simp add: js_submit_defs sample_defs auth_defs)

section \<open>The completion timestamp under the submit handler\<close>

lemma inv_upd:
  "completedAt_iff_terminal tbl \<Longrightarrow> (x ''completedAt'' \<noteq> None \<longleftrightarrow> is_terminal (x ''status'')) \<Longrightarrow>
   completedAt_iff_terminal (tbl(j \<mapsto> x))"
  by (simp add: completedAt_iff_terminal_def)

lemma inv_update_final:
  assumes "completedAt_iff_terminal tbl" and "updateJobStatus tu tc j st ups tbl = Inr tbl'"
    and "st = SUCCEEDED \<or> st = FAILED"
  shows "completedAt_iff_terminal tbl'"
proof -
  from assms(2) obtain it where
    tbl': "tbl' = tbl(j \<mapsto> it ++ map_of (update_assignments tu tc st ups))"
    by (auto simp add: updateJobStatus_Inr)
  have c: "(it ++ map_of (update_assignments tu tc st ups)) ''completedAt'' \<noteq> None"
    using assignment_completedAt [OF assms(3), of tu tc ups] by (simp add: map_add_def)
  have s: "is_terminal ((it ++ map_of (update_assignments tu tc st ups)) ''status'')"
    using assignment_status [of tu tc st ups] assms(3) by (auto simp add: map_add_def is_terminal_def)
  from c s show ?thesis
    unfolding tbl' by (intro inv_upd [OF assms(1)]) simp
qed

lemma inv_update_running:
  assumes "completedAt_iff_terminal tbl" and "updateJobStatus tu tc j RUNNING [] tbl = Inr tbl'"
    and "job_attr tbl j ''status'' = Some (JStr ''PENDING'')"
  shows "completedAt_iff_terminal tbl'"
proof -
  from assms(2) obtain it where it: "tbl j = Some it"
    and tbl': "tbl' = tbl(j \<mapsto> it ++ map_of (update_assignments tu tc RUNNING []))"
    by (auto simp add: updateJobStatus_Inr)
  from assms(3) it have p: "it ''status'' = Some (JStr ''PENDING'')"
    by (simp add: job_attr_def)
  with assms(1) [unfolded completedAt_iff_terminal_def, rule_format, OF it]
  have "it ''completedAt'' = None"
    by (simp add: is_terminal_def)
  then have c: "(it ++ map_of (update_assignments tu tc RUNNING [])) ''completedAt'' = None"
    by (simp add: map_add_def update_assignments_def)
  have s: "\<not> is_terminal ((it ++ map_of (update_assignments tu tc RUNNING [])) ''status'')"
    by (simp add: map_add_def update_assignments_def is_terminal_def)
  from c s show ?thesis
    unfolding tbl' by (intro inv_upd [OF assms(1)]) simp
qed

lemma inv_create:
  assumes "completedAt_iff_terminal tbl" and "createJob job tbl = Inr tbl'"
    and "job ''status'' = Some (JStr ''PENDING'')" and "job ''completedAt'' = None"
  shows "completedAt_iff_terminal tbl'"
proof -
  from assms(2) obtain k where "tbl' = tbl(k \<mapsto> job)"
    by (auto simp add: createJob_Inr)
  moreover from assms(3,4) have "job ''completedAt'' \<noteq> None \<longleftrightarrow> is_terminal (job ''status'')"
    by (simp add: is_terminal_def)
  ultimately show ?thesis
    using inv_upd [OF assms(1)] by simp
qed

lemma dispatch_failed_inv:
  assumes "completedAt_iff_terminal (jobs w)"
  shows "completedAt_iff_terminal (jobs (snd (dispatch_failed e n j err w)))"
proof (cases "updateJobStatus (clock e n) (clock e (n + 1)) j FAILED
                [(''error'', Some (JStr (error_message err)))] (jobs w)")
  case (Inl err2)
  with assms show ?thesis by (simp add: dispatch_failed_def)
next
  case (Inr tbl)
  from inv_update_final [OF assms Inr] Inr show ?thesis by (simp add: dispatch_failed_def)
qed

lemma submit_sync_inv:
  assumes "completedAt_iff_terminal (jobs w)"
  shows "completedAt_iff_terminal (jobs (snd (submit_sync e j request w)))"
proof (cases "invokeSync e request")
  case (Inl err)
  with dispatch_failed_inv [OF assms, of e 1 j err] show ?thesis
    by (simp add: submit_sync_def)
next
  case (Inr result)
  note invoked = this
  show ?thesis
  proof (cases "updateJobStatus (clock e 1) (clock e 2) j SUCCEEDED
                  [(''metadata'', map_option (\<lambda>m. JStr (JSON_stringify e m)) (js_get result ''metadata''))]
                  (jobs w)")
    case (Inl err)
    with invoked dispatch_failed_inv [OF assms, of e 3 j err] show ?thesis
      by (simp add: submit_sync_def)
  next
    case (Inr tbl)
    from inv_update_final [OF assms Inr] have i: "completedAt_iff_terminal (jobs (w\<lparr>jobs := tbl\<rparr>))"
      by simp
    show ?thesis
    proof (cases "js_get result ''metadata''")
      case None
      with invoked Inr dispatch_failed_inv [OF i, of e 3 j
          "Error (cannot_read ''undefined'' ''generation_time_seconds'')"]
      show ?thesis by (simp add: submit_sync_def)
    next
      case (Some metadata)
      show ?thesis
      proof (cases "metadata = JNull")
        case True
        with Some invoked Inr dispatch_failed_inv [OF i, of e 3 j
            "Error (cannot_read ''null'' ''generation_time_seconds'')"]
        show ?thesis by (simp add: submit_sync_def)
      next
        case False
        with Some invoked Inr i show ?thesis
          by (cases metadata) (simp_all add: submit_sync_def)
      qed
    qed
  qed
qed

lemma submit_async_inv:
  assumes "completedAt_iff_terminal (jobs w)" and "job_attr (jobs w) j ''status'' = Some (JStr ''PENDING'')"
  shows "completedAt_iff_terminal (jobs (snd (submit_async e j request w)))"
proof (cases "invokeAsync e j request (staging w)")
  case (Pair out stg)
  from assms(1) have i: "completedAt_iff_terminal (jobs (w\<lparr>staging := stg\<rparr>))"
    by simp
  show ?thesis
  proof (cases out)
    case (Inl err)
    with Pair dispatch_failed_inv [OF i, of e 2 j err] show ?thesis
      by (simp add: submit_async_def)
  next
    case (Inr outputLocation)
    show ?thesis
    proof (cases "updateJobStatus (clock e 2) (clock e 3) j RUNNING [] (jobs w)")
      case (Inl err)
      with Pair Inr dispatch_failed_inv [OF i, of e 3 j err] show ?thesis
        by (simp add: submit_async_def)
    next
      case (Inr tbl)
      from inv_update_running [OF assms(1) Inr assms(2)] Pair \<open>out = Inr outputLocation\<close> Inr
      show ?thesis
        by (simp add: submit_async_def)
    qed
  qed
qed

lemma submit_try_cases:
  obtains (early) "snd (submit_job_try e event w) = w"
  | (dispatched) ctx :: UserContext and request and tbl where
      "createJob (new_job_item (new_id e) (userId ctx) (clock e 0) request (epoch_seconds e)) (jobs w)
         = Inr tbl"
      and "submit_job_try e event w
             = (if mode request = SYNC then submit_sync e (new_id e) request (w\<lparr>jobs := tbl\<rparr>)
                else submit_async e (new_id e) request (w\<lparr>jobs := tbl\<rparr>))"
proof (cases "httpMethod event = ''OPTIONS''")
  case True
  then show ?thesis by (intro early) (simp add: submit_job_try_def)
next
  case False
  note m = this
  show ?thesis
  proof (cases "extractUserContext event")
    case (Inl err)
    with m show ?thesis by (intro early) (simp add: submit_job_try_def)
  next
    case (Inr ctx)
    note c = this
    show ?thesis
    proof (cases "body event")
      case None
      with m c show ?thesis by (intro early) (simp add: submit_job_try_def)
    next
      case (Some content)
      note b = this
      show ?thesis
      proof (cases "content = []")
        case True
        with m c b show ?thesis by (intro early) (simp add: submit_job_try_def)
      next
        case False
        note t = this
        show ?thesis
        proof (cases "JSON_parse e content")
          case (Inl msg)
          with m c b t show ?thesis by (intro early) (simp add: submit_job_try_def)
        next
          case (Inr requestBody)
          note p = this
          show ?thesis
          proof (cases "SubmitJobRequestSchema requestBody")
            case (Inl issues)
            with m c b t p show ?thesis by (intro early) (simp add: submit_job_try_def)
          next
            case (Inr request)
            note r = this
            show ?thesis
            proof (cases "createJob (new_job_item (new_id e) (userId ctx) (clock e 0) request
                            (epoch_seconds e)) (jobs w)")
              case (Inl err)
              with m c b t p r show ?thesis by (intro early) (simp add: submit_job_try_def)
            next
              case (Inr tbl)
              with m c b t p r show ?thesis
                by (intro dispatched [of ctx request tbl]) (simp_all add: submit_job_try_def)
            qed
          qed
        qed
      qed
    qed
  qed
qed

lemma submit_try_inv:
  assumes "completedAt_iff_terminal (jobs w)"
  shows "completedAt_iff_terminal (jobs (snd (submit_job_try e event w)))"
proof (cases rule: submit_try_cases [where e = e and event = event and w = w])
  case early
  with assms show ?thesis by simp
next
  case (dispatched ctx request tbl)
  note c = dispatched(1)
  have p: "new_job_item (new_id e) (userId ctx) (clock e 0) request (epoch_seconds e) ''status''
             = Some (JStr ''PENDING'')"
    "new_job_item (new_id e) (userId ctx) (clock e 0) request (epoch_seconds e) ''completedAt'' = None"
    "new_job_item (new_id e) (userId ctx) (clock e 0) request (epoch_seconds e) ''jobId''
       = Some (JStr (new_id e))"
    by (simp_all add: new_job_item_def)
  from inv_create [OF assms c p(1,2)] have i: "completedAt_iff_terminal (jobs (w\<lparr>jobs := tbl\<rparr>))"
    by simp
  from c p have s: "job_attr (jobs (w\<lparr>jobs := tbl\<rparr>)) (new_id e) ''status'' = Some (JStr ''PENDING'')"
    by (auto simp add: createJob_Inr job_attr_def)
  show ?thesis
  proof (cases "mode request = SYNC")
    case True
    with dispatched(2) submit_sync_inv [OF i, of e "new_id e" request] show ?thesis by simp
  next
    case False
    with dispatched(2) submit_async_inv [OF i s, of e request] show ?thesis by simp
  qed
qed

text \<open>
  The handler of submit-job.ts keeps the invariant of the completion timestamp: if every
  stored job carries \<open>completedAt\<close> exactly when its status is final, then so does every
  stored job when the handler returns, whatever the request and the outcomes of the
  outside calls. The job it creates is \<open>PENDING\<close> without \<open>completedAt\<close>, the update to
  \<open>RUNNING\<close> is applied to that job only, and every update to a final status records
  \<open>completedAt\<close>.
\<close>

theorem submit_keeps_completedAt_invariant:
  "completedAt_iff_terminal (jobs w) \<Longrightarrow>
   completedAt_iff_terminal (jobs (snd (submit_job_handler e event w)))"
proof -
  assume "completedAt_iff_terminal (jobs w)"
  from submit_try_inv [OF this, of e event]
  show "completedAt_iff_terminal (jobs (snd (submit_job_handler e event w)))"
    by (cases "submit_job_try e event w"; cases "fst (submit_job_try e event w)")
       (simp_all add: submit_job_handler_def)
qed

theorem submit_keeps_completedAt_invariant_witness:
  "completedAt_iff_terminal (jobs empty_world)
   \<and> completedAt_iff_terminal (jobs (snd (submit_job_handler
        (sample_env\<lparr>s3_put := Some ''staging bucket unavailable''\<rparr>)
        (sample_event ''u1'' None (Some async_body)) empty_world)))
   \<and> job_attr (jobs (snd (submit_job_handler (sample_env\<lparr>s3_put := Some ''staging bucket unavailable''\<rparr>)
        (sample_event ''u1'' None (Some async_body)) empty_world))) ''01HKJOB1'' ''status''
       = Some (JStr ''FAILED'')
   \<and> job_attr (jobs (snd (submit_job_handler (sample_env\<lparr>s3_put := Some ''staging bucket unavailable''\<rparr>)
        (sample_event ''u1'' None (Some async_body)) empty_world))) ''01HKJOB1'' ''completedAt''
       = Some (JStr ''2024-01-01T00:00:03.000Z'')
   \<and> completedAt_iff_terminal (jobs (snd (submit_job_handler (sample_env\<lparr>s3_put := None\<rparr>)
        (sample_event ''u1'' None (Some async_body)) empty_world)))
   \<and> job_attr (jobs (snd (submit_job_handler (sample_env\<lparr>s3_put := None\<rparr>)
        (sample_event ''u1'' None (Some async_body)) empty_world))) ''01HKJOB1'' ''status''
       = Some (JStr ''RUNNING'')
   \<and> job_attr (jobs (snd (submit_job_handler (sample_env\<lparr>s3_put := None\<rparr>)
        (sample_event ''u1'' None (Some async_body)) empty_world))) ''01HKJOB1'' ''completedAt'' = None"
proof -
  have 0: "completedAt_iff_terminal (jobs empty_world)"
    by (simp add: completedAt_iff_terminal_def empty_world_def)
  note 1 = submit_keeps_completedAt_invariant [OF 0,
      of "sample_env\<lparr>s3_put := Some ''staging bucket unavailable''\<rparr>"
         "sample_event ''u1'' None (Some async_body)"]
  note 2 = submit_keeps_completedAt_invariant [OF 0, of "sample_env\<lparr>s3_put := None\<rparr>"
      "sample_event ''u1'' None (Some async_body)"]
  note reach = submit_reaches_dispatch [OF sample_reaches_dispatch(1-9)]
  have 3: "job_attr (jobs (snd (submit_job_handler (sample_env\<lparr>s3_put := Some ''staging bucket unavailable''\<rparr>)
        (sample_event ''u1'' None (Some async_body)) empty_world))) ''01HKJOB1'' ''status''
       = Some (JStr ''FAILED'')"
    and 4: "job_attr (jobs (snd (submit_job_handler (sample_env\<lparr>s3_put := Some ''staging bucket unavailable''\<rparr>)
        (sample_event ''u1'' None (Some async_body)) empty_world))) ''01HKJOB1'' ''completedAt''
       = Some (JStr ''2024-01-01T00:00:03.000Z'')"
    unfolding submit_job_handler_def reach
    by (simp_all add: sample_reaches_dispatch(10) submit_async_def
          invokeAsync_def dispatch_failed_def updateJobStatus_def update_assignments_def table_defs
          job_attr_def map_add_def sample_env_def sample_clock_def empty_world_def)
  have 5: "job_attr (jobs (snd (submit_job_handler (sample_env\<lparr>s3_put := None\<rparr>)
        (sample_event ''u1'' None (Some async_body)) empty_world))) ''01HKJOB1'' ''status''
       = Some (JStr ''RUNNING'')"
    and 6: "job_attr (jobs (snd (submit_job_handler (sample_env\<lparr>s3_put := None\<rparr>)
        (sample_event ''u1'' None (Some async_body)) empty_world))) ''01HKJOB1'' ''completedAt'' = None"
    unfolding submit_job_handler_def reach
    by (simp_all add: sample_reaches_dispatch(10) submit_async_def
          invokeAsync_def Let_def dispatch_failed_def updateJobStatus_def update_assignments_def table_defs
          job_attr_def map_add_def sample_env_def sample_clock_def empty_world_def new_job_item_def)
  from 0 1 2 3 4 5 6 show ?thesis by (intro conjI)
qed


section \<open>Creation\<close>

text \<open>
  \<open>createJob\<close> is write-once: on an id that is taken it fails and leaves the table as it
  was, so a second create with the identifier of a first one is rejected and the first
  record stays. An item the table does not accept fails in the same way.
\<close>

theorem createJob_write_once:
  "(tbl k \<noteq> None \<and> job ''jobId'' = Some (JStr k)
      \<longrightarrow> createJob job tbl = Inl (InternalError ''Failed to create job''))
   \<and> (createJob job tbl = Inr tbl' \<and> job' ''jobId'' = job ''jobId''
      \<longrightarrow> createJob job' tbl' = Inl (InternalError ''Failed to create job'')
          \<and> run_call (CreateJob job') tbl' = tbl'
          \<and> (\<forall>k. job ''jobId'' = Some (JStr k) \<longrightarrow> tbl' k = Some job))
   \<and> (\<not> put_accepted job \<longrightarrow> createJob job tbl = Inl (InternalError ''Failed to create job''))"
  by (auto simp add: createJob_def split: option.splits json.splits if_splits)

theorem createJob_write_once_witness:
  "createJob (stored_job(''userId'' \<mapsto> JStr ''u2'')) (jobs stored_world)
     = Inl (InternalError ''Failed to create job'')"
proof -
  have "jobs stored_world ''01HKJOB1'' \<noteq> None
        \<and> (stored_job(''userId'' \<mapsto> JStr ''u2'')) ''jobId'' = Some (JStr ''01HKJOB1'')"
    by (simp add: stored_world_def stored_job_def)
  from createJob_write_once [where tbl = "jobs stored_world" and k = "''01HKJOB1''"
      and job = "stored_job(''userId'' \<mapsto> JStr ''u2'')", THEN conjunct1, THEN mp, OF this]
  show ?thesis .
qed

text \<open>
  Claim C2. Of two submit calls that produce the same job identifier the second create is
  to be rejected and the first record kept. The deployed submit-job.js stores the job by a
  put without a condition: a second submit under the identifier of the first is answered
  202 and the record of user \<open>u1\<close> is replaced by that of user \<open>u2\<close>.
\<close>

theorem js_create_overwrites:
  "job_attr (jobs (snd (submit_job_js_handler sample_env (sample_event ''u1'' None (Some async_body))
       empty_world))) ''01HKJOB1'' ''userId'' = Some (JStr ''u1'')
   \<and> statusCode (fst (submit_job_js_handler sample_env (sample_event ''u2'' None (Some async_body))
        (snd (submit_job_js_handler sample_env (sample_event ''u1'' None (Some async_body)) empty_world))))
       = 202
   \<and> job_attr (jobs (snd (submit_job_js_handler sample_env (sample_event ''u2'' None (Some async_body))
        (snd (submit_job_js_handler sample_env (sample_event ''u1'' None (Some async_body)) empty_world)))))
        ''01HKJOB1'' ''userId'' = Some (JStr ''u2'')"
  by (simp add: js_submit_defs sample_defs auth_defs)


section \<open>The completion callback\<close>

lemma failed_signal_accepted:
  "j \<noteq> [] \<Longrightarrow>
   update_accepted j [(''status'', JStr ''FAILED''), (''updatedAt'', JStr t), (''error'', JStr m)]"
  by (simp add: table_defs)

text \<open>
  An error signal handled by \<open>processError\<close> is applied whatever the state of the job, and
  also when there is no such job: afterwards a record exists under the id, it is \<open>FAILED\<close>
  with the signal's message, and its \<open>completedAt\<close> is whatever it was before, none for a
  job that was not in a final state.
\<close>

theorem processError_unconditional:
  "j \<noteq> [] \<Longrightarrow>
   processError t j m tbl j \<noteq> None
   \<and> job_attr (processError t j m tbl) j ''status'' = Some (JStr ''FAILED'')
   \<and> job_attr (processError t j m tbl) j ''error'' = Some (JStr m)
   \<and> job_attr (processError t j m tbl) j ''completedAt'' = job_attr tbl j ''completedAt''"
  using failed_signal_accepted [of j t m]
  by (simp add: processError_def update_item_def job_attr_def map_add_def split: option.splits)

theorem processError_unconditional_witness:
  "job_attr (jobs stored_world) ''01HKJOB1'' ''status'' = Some (JStr ''RUNNING'')
   \<and> job_attr (processError ''2024-01-01T00:07:00.000Z'' ''01HKJOB1'' ''Inference failed'' (jobs stored_world))
        ''01HKJOB1'' ''status'' = Some (JStr ''FAILED'')
   \<and> job_attr (processError ''2024-01-01T00:07:00.000Z'' ''01HKJOB1'' ''Inference failed'' (jobs stored_world))
        ''01HKJOB1'' ''completedAt'' = None
   \<and> job_attr (processError ''2024-01-01T00:07:00.000Z'' ''01HKJOB2'' ''Inference failed'' (jobs stored_world))
        ''01HKJOB2'' ''status'' = Some (JStr ''FAILED'')"
proof -
  have n: "''01HKJOB1'' \<noteq> []" "''01HKJOB2'' \<noteq> []"
    by simp_all
  have s: "job_attr (jobs stored_world) ''01HKJOB1'' ''status'' = Some (JStr ''RUNNING'')"
    "job_attr (jobs stored_world) ''01HKJOB1'' ''completedAt'' = None"
    by (simp_all add: stored_world_def stored_job_def job_attr_def)
  note a = processError_unconditional [OF n(1), of "''2024-01-01T00:07:00.000Z''" "''Inference failed''"
      "jobs stored_world"]
  note b = processError_unconditional [OF n(2), of "''2024-01-01T00:07:00.000Z''" "''Inference failed''"
      "jobs stored_world"]
  from s a b show ?thesis by simp
qed

text \<open>
  A success signal handled by \<open>processSuccess\<close>, for a job id that is not empty and an
  output location that parses, is applied whatever the state of the job as well. When an
  image is found the job is marked \<open>FAILED\<close>: with the message of the failing copy, or,
  when the copy succeeds, with that of the ReferenceError for \<open>publicImageKey\<close>; no
  \<open>completedAt\<close> is written. When no image is found (and the metadata file is not the
  JSON \<open>null\<close>) the job is marked \<open>SUCCEEDED\<close> with \<open>completedAt\<close>, and no image URL is
  written. The same signal handled a second time, with the output as it was, changes
  nothing of the job but \<open>updatedAt\<close> and \<open>completedAt\<close>.
\<close>

theorem processSuccess_outcomes:
  assumes "j \<noteq> []" and "parseS3Uri outputLocation = Inr location"
  shows "(image_found c \<longrightarrow>
            (\<exists>tbl'. processSuccess c tu tc tf j outputLocation tbl = Inr tbl'
               \<and> job_attr tbl' j ''status'' = Some (JStr ''FAILED'')
               \<and> job_attr tbl' j ''error''
                   = Some (JStr (''Failed to process inference result: ''
                        @ (case copy_failure c of Some m \<Rightarrow> m | None \<Rightarrow> ''publicImageKey is not defined'')))
               \<and> job_attr tbl' j ''completedAt'' = job_attr tbl j ''completedAt''))
         \<and> (\<not> image_found c \<and> metadata_file c \<noteq> Some JNull \<longrightarrow>
              (\<exists>tbl' tbl''. processSuccess c tu tc tf j outputLocation tbl = Inr tbl'
                 \<and> job_attr tbl' j ''status'' = Some (JStr ''SUCCEEDED'')
                 \<and> job_attr tbl' j ''completedAt'' = Some (JStr tc)
                 \<and> job_attr tbl' j ''imageUrl'' = job_attr tbl j ''imageUrl''
                 \<and> processSuccess c tu' tc' tf' j outputLocation tbl' = Inr tbl''
                 \<and> (\<forall>k. k \<noteq> ''updatedAt'' \<and> k \<noteq> ''completedAt'' \<longrightarrow>
                        job_attr tbl'' j k = job_attr tbl' j k)))"
proof (intro conjI impI)
  assume "image_found c"
  with assms(2) failed_signal_accepted [OF assms(1)]
  show "\<exists>tbl'. processSuccess c tu tc tf j outputLocation tbl = Inr tbl'
               \<and> job_attr tbl' j ''status'' = Some (JStr ''FAILED'')
               \<and> job_attr tbl' j ''error''
                   = Some (JStr (''Failed to process inference result: ''
                        @ (case copy_failure c of Some m \<Rightarrow> m | None \<Rightarrow> ''publicImageKey is not defined'')))
               \<and> job_attr tbl' j ''completedAt'' = job_attr tbl j ''completedAt''"
    by (cases "copy_failure c")
       (simp_all add: processSuccess_def update_item_def job_attr_def map_add_def split: option.splits)
next
  assume a: "\<not> image_found c \<and> metadata_file c \<noteq> Some JNull"
  define metadata where "metadata = (case metadata_file c of None \<Rightarrow> JObj [] | Some m \<Rightarrow> m)"
  from a have "metadata \<noteq> JNull"
    by (auto simp add: metadata_def split: option.splits)
  then have "\<exists>b. has_keys metadata = Some b"
    by (cases metadata) auto
  then obtain b where b: "has_keys metadata = Some b" ..
  define upd where "upd tu tc = [(''status'', JStr ''SUCCEEDED''), (''updatedAt'', JStr tu),
      (''completedAt'', JStr tc)] @ (if b then [(''metadata'', JStr (cb_stringify c metadata))] else [])"
    for tu tc
  have run: "processSuccess c tu tc tf j outputLocation tbl
               = Inr (tbl(j \<mapsto> (case tbl j of None \<Rightarrow> [''jobId'' \<mapsto> JStr j] | Some it \<Rightarrow> it)
                                 ++ map_of (upd tu tc)))" for tu tc tf tbl
    using a assms b
    by (cases b)
       (simp_all add: processSuccess_def update_item_def Let_def upd_def table_defs flip: metadata_def)
  define tbl1 where "tbl1 = tbl(j \<mapsto> (case tbl j of None \<Rightarrow> [''jobId'' \<mapsto> JStr j] | Some it \<Rightarrow> it)
                                 ++ map_of (upd tu tc))"
  define tbl2 where "tbl2 = tbl1(j \<mapsto> (case tbl1 j of None \<Rightarrow> [''jobId'' \<mapsto> JStr j] | Some it \<Rightarrow> it)
                                 ++ map_of (upd tu' tc'))"
  have 1: "processSuccess c tu tc tf j outputLocation tbl = Inr tbl1"
    by (simp add: run tbl1_def)
  have 2: "job_attr tbl1 j ''status'' = Some (JStr ''SUCCEEDED'')"
    and 3: "job_attr tbl1 j ''completedAt'' = Some (JStr tc)"
    and 4: "job_attr tbl1 j ''imageUrl'' = job_attr tbl j ''imageUrl''"
    by (simp_all add: tbl1_def job_attr_def map_add_def upd_def split: option.splits)
  have 5: "processSuccess c tu' tc' tf' j outputLocation tbl1 = Inr tbl2"
    by (simp add: run tbl2_def)
  have "job_attr tbl2 j k = job_attr tbl1 j k" if "k \<noteq> ''updatedAt'' \<and> k \<noteq> ''completedAt''" for k
    using that by (simp add: tbl2_def tbl1_def job_attr_def map_add_def upd_def split: option.splits)
  then have 6: "\<forall>k. k \<noteq> ''updatedAt'' \<and> k \<noteq> ''completedAt'' \<longrightarrow> job_attr tbl2 j k = job_attr tbl1 j k"
    by (intro allI impI)
  show "\<exists>tbl' tbl''. processSuccess c tu tc tf j outputLocation tbl = Inr tbl'
                 \<and> job_attr tbl' j ''status'' = Some (JStr ''SUCCEEDED'')
                 \<and> job_attr tbl' j ''completedAt'' = Some (JStr tc)
                 \<and> job_attr tbl' j ''imageUrl'' = job_attr tbl j ''imageUrl''
                 \<and> processSuccess c tu' tc' tf' j outputLocation tbl' = Inr tbl''
                 \<and> (\<forall>k. k \<noteq> ''updatedAt'' \<and> k \<noteq> ''completedAt'' \<longrightarrow>
                        job_attr tbl'' j k = job_attr tbl' j k)"
    by (rule exI [of _ tbl1], rule exI [of _ tbl2]) (intro conjI 1 2 3 4 5 6)
qed

theorem processSuccess_outcomes_witness:
  "(\<exists>tbl'. processSuccess (sample_output\<lparr>image_found := True\<rparr>) ''2024-01-01T00:05:00.000Z''
        ''2024-01-01T00:05:00.001Z'' ''2024-01-01T00:05:00.002Z'' ''01HKJOB1'' ''s3://output/location''
        (jobs stored_world) = Inr tbl'
      \<and> job_attr tbl' ''01HKJOB1'' ''status'' = Some (JStr ''FAILED'')
      \<and> job_attr tbl' ''01HKJOB1'' ''error''
          = Some (JStr ''Failed to process inference result: publicImageKey is not defined'')
      \<and> job_attr tbl' ''01HKJOB1'' ''completedAt'' = None)
   \<and> (\<exists>tbl'. processSuccess sample_output ''2024-01-01T00:05:00.000Z''
        ''2024-01-01T00:05:00.001Z'' ''2024-01-01T00:05:00.002Z'' ''01HKJOB1'' ''s3://output/location''
        (jobs stored_world) = Inr tbl'
      \<and> job_attr tbl' ''01HKJOB1'' ''status'' = Some (JStr ''SUCCEEDED'')
      \<and> job_attr tbl' ''01HKJOB1'' ''completedAt'' = Some (JStr ''2024-01-01T00:05:00.001Z'')
      \<and> job_attr tbl' ''01HKJOB1'' ''imageUrl'' = None)"
proof -
  have n: "''01HKJOB1'' \<noteq> []"
    by simp
  have p: "parseS3Uri ''s3://output/location'' = Inr (''output'', ''location'')"
    by (simp add: parseS3Uri_def Let_def)
  have f: "image_found (sample_output\<lparr>image_found := True\<rparr>)"
    and c: "copy_failure (sample_output\<lparr>image_found := True\<rparr>) = None"
    and g: "\<not> image_found sample_output \<and> metadata_file sample_output \<noteq> Some JNull"
    by (simp_all add: sample_output_def)
  have s: "job_attr (jobs stored_world) ''01HKJOB1'' ''completedAt'' = None"
    "job_attr (jobs stored_world) ''01HKJOB1'' ''imageUrl'' = None"
    by (simp_all add: stored_world_def stored_job_def job_attr_def)
  from processSuccess_outcomes [OF n p, where c = "sample_output\<lparr>image_found := True\<rparr>"
      and tbl = "jobs stored_world", THEN conjunct1, THEN mp, OF f] c s
  have 1: "\<exists>tbl'. processSuccess (sample_output\<lparr>image_found := True\<rparr>) ''2024-01-01T00:05:00.000Z''
        ''2024-01-01T00:05:00.001Z'' ''2024-01-01T00:05:00.002Z'' ''01HKJOB1'' ''s3://output/location''
        (jobs stored_world) = Inr tbl'
      \<and> job_attr tbl' ''01HKJOB1'' ''status'' = Some (JStr ''FAILED'')
      \<and> job_attr tbl' ''01HKJOB1'' ''error''
          = Some (JStr ''Failed to process inference result: publicImageKey is not defined'')
      \<and> job_attr tbl' ''01HKJOB1'' ''completedAt'' = None"
    by simp
  from processSuccess_outcomes [OF n p, where c = sample_output and tbl = "jobs stored_world"
      and tu = "''2024-01-01T00:05:00.000Z''" and tc = "''2024-01-01T00:05:00.001Z''"
      and tf = "''2024-01-01T00:05:00.002Z''" and tu' = "''2024-01-01T00:05:00.000Z''"
      and tc' = "''2024-01-01T00:05:00.001Z''" and tf' = "''2024-01-01T00:05:00.002Z''",
      THEN conjunct2, THEN mp, OF g]
  obtain tbl' where "processSuccess sample_output ''2024-01-01T00:05:00.000Z''
        ''2024-01-01T00:05:00.001Z'' ''2024-01-01T00:05:00.002Z'' ''01HKJOB1'' ''s3://output/location''
        (jobs stored_world) = Inr tbl'"
    and "job_attr tbl' ''01HKJOB1'' ''status'' = Some (JStr ''SUCCEEDED'')"
    and "job_attr tbl' ''01HKJOB1'' ''completedAt'' = Some (JStr ''2024-01-01T00:05:00.001Z'')"
    and "job_attr tbl' ''01HKJOB1'' ''imageUrl'' = job_attr (jobs stored_world) ''01HKJOB1'' ''imageUrl''"
    by (elim exE conjE)
  with s have 2: "\<exists>tbl'. processSuccess sample_output ''2024-01-01T00:05:00.000Z''
        ''2024-01-01T00:05:00.001Z'' ''2024-01-01T00:05:00.002Z'' ''01HKJOB1'' ''s3://output/location''
        (jobs stored_world) = Inr tbl'
      \<and> job_attr tbl' ''01HKJOB1'' ''status'' = Some (JStr ''SUCCEEDED'')
      \<and> job_attr tbl' ''01HKJOB1'' ''completedAt'' = Some (JStr ''2024-01-01T00:05:00.001Z'')
      \<and> job_attr tbl' ''01HKJOB1'' ''imageUrl'' = None"
    by (intro exI [of _ tbl']) simp
  from 1 2 show ?thesis by (rule conjI)
qed


end
